(* ===== verification/Prelude.thy ===== *)
theory Prelude
  imports Main "HOL-Library.Char_ord" "HOL-Library.List_Lexorder"
    "HOL-Library.Product_Lexorder" "HOL-Library.Sublist"
begin

text \<open>
  Shared vocabulary of the development: the names of the model's basic types, the
  collections of unfolding rules the component theories fill, and generic facts on
  lists that the table operations of the store (updates of every row matching a
  \<open>WHERE\<close> clause, the count of changed rows, the first row matching a key) rely on.
\<close>

section \<open>Types shared by all components\<close>

text \<open>
  A timestamp is the value of the database clock in seconds (MySQL's
  \<open>CURRENT_TIMESTAMP\<close> has second resolution); \<open>0\<close> is Go's zero \<open>time.Time\<close>.
  Row identifiers are MySQL \<open>AUTO_INCREMENT\<close> values, read by Go as \<open>uint\<close>.
\<close>

type_synonym timestamp = nat
type_synonym row_id = nat

named_theorems store_defs "definitions of the store operations, unfolded in handler proofs"
named_theorems handler_defs "definitions of the HTTP handlers, unfolded in system proofs"

section \<open>Updating every row that matches a WHERE clause\<close>

text \<open>
  An SQL \<open>UPDATE ... WHERE p\<close> rewrites every matching row and leaves the others.
  MySQL reports as affected only the rows whose value really changed.
\<close>

definition update_where :: "('a \<Rightarrow> bool) \<Rightarrow> ('a \<Rightarrow> 'a) \<Rightarrow> 'a list \<Rightarrow> 'a list" where
  "update_where p g xs = map (\<lambda>x. if p x then g x else x) xs"

definition changed_rows :: "('a \<Rightarrow> bool) \<Rightarrow> ('a \<Rightarrow> 'a) \<Rightarrow> 'a list \<Rightarrow> nat" where
  "changed_rows p g xs = length (filter (\<lambda>x. p x \<and> g x \<noteq> x) xs)"

text \<open>
  A table read as a map from a key to the first row carrying it, as a
  \<open>SELECT ... WHERE key = ? LIMIT 1\<close> sees it.
\<close>

definition index_by :: "('a \<Rightarrow> 'k) \<Rightarrow> 'a list \<Rightarrow> 'k \<rightharpoonup> 'a" where
  "index_by k xs = map_of (map (\<lambda>x. (k x, x)) xs)"

lemma length_update_where [simp]: "length (update_where p g xs) = length xs"
  by (simp add: update_where_def)

lemma update_where_Nil [simp]: "update_where p g [] = []"
  by (simp add: update_where_def)

lemma update_where_Cons [simp]:
  "update_where p g (x # xs) = (if p x then g x else x) # update_where p g xs"
  by (simp add: update_where_def)

lemma update_where_append [simp]:
  "update_where p g (xs @ ys) = update_where p g xs @ update_where p g ys"
  by (simp add: update_where_def)

lemma nth_update_where [simp]:
  "i < length xs \<Longrightarrow> update_where p g xs ! i = (if p (xs ! i) then g (xs ! i) else xs ! i)"
  by (simp add: update_where_def)

lemma update_where_no_change:
  "changed_rows p g xs = 0 \<Longrightarrow> update_where p g xs = xs"
  by (induction xs) (auto simp: changed_rows_def split: if_splits)

lemma set_update_where:
  "set (update_where p g xs) = {if p x then g x else x | x. x \<in> set xs}"
  by (auto simp: update_where_def)

lemma update_where_cong_other:
  "\<not> p x \<Longrightarrow> x \<in> set xs \<Longrightarrow> x \<in> set (update_where p g xs)"
  by (force simp: update_where_def)

lemma update_where_matching:
  "p x \<Longrightarrow> x \<in> set xs \<Longrightarrow> g x \<in> set (update_where p g xs)"
  by (force simp: update_where_def)

lemma map_update_where:
  "(\<And>x. p x \<Longrightarrow> f (g x) = f x) \<Longrightarrow> map f (update_where p g xs) = map f xs"
  by (induction xs) auto

lemma update_where_in_set:
  "y \<in> set (update_where p g xs) \<Longrightarrow> \<exists>x \<in> set xs. y = (if p x then g x else x)"
  by (auto simp: update_where_def)

lemma changed_rows_pos:
  "p x \<Longrightarrow> x \<in> set xs \<Longrightarrow> g x \<noteq> x \<Longrightarrow> 0 < changed_rows p g xs"
  by (auto simp: changed_rows_def filter_empty_conv)

lemma changed_rows_zero_iff:
  "changed_rows p g xs = 0 \<longleftrightarrow> (\<forall>x \<in> set xs. p x \<longrightarrow> g x = x)"
  by (auto simp: changed_rows_def filter_empty_conv)

lemma changed_rows_update_where_idem:
  assumes "\<And>x. p x \<Longrightarrow> p (g x) \<and> g (g x) = g x"
  shows "changed_rows p g (update_where p g xs) = 0"
  using assms by (induction xs) (auto simp: changed_rows_def)

lemma update_where_idem:
  assumes "\<And>x. p x \<Longrightarrow> p (g x) \<and> g (g x) = g x"
  shows "update_where p g (update_where p g xs) = update_where p g xs"
  using assms by (induction xs) auto

section \<open>The first row matching a key\<close>

text \<open>
  \<open>SELECT ... WHERE k = ? LIMIT 1\<close> without \<open>ORDER BY\<close> returns one matching row;
  the model takes the first one in primary-key order, as InnoDB does.
\<close>

lemma find_Some_in_set: "find P xs = Some x \<Longrightarrow> x \<in> set xs \<and> P x"
  by (induction xs) (auto split: if_splits)

lemma find_None_iff': "find P xs = None \<longleftrightarrow> (\<forall>x \<in> set xs. \<not> P x)"
  by (induction xs) auto

lemma find_append_None:
  "find P xs = None \<Longrightarrow> find P (xs @ ys) = find P ys"
  by (induction xs) (auto split: if_splits)

lemma find_append_Some:
  "find P xs = Some x \<Longrightarrow> find P (xs @ ys) = Some x"
  by (induction xs) (auto split: if_splits)

lemma find_update_where_key:
  assumes "\<And>x. p x \<Longrightarrow> k (g x) = k x"
  shows "find (\<lambda>x. k x = v) (update_where p g xs) =
         map_option (\<lambda>x. if p x then g x else x) (find (\<lambda>x. k x = v) xs)"
  using assms by (induction xs) auto

lemma find_distinct_key:
  "distinct (map h xs) \<Longrightarrow> x \<in> set xs \<Longrightarrow> find (\<lambda>y. h y = h x) xs = Some x"
  by (induction xs) (auto split: if_splits)

section \<open>Prefixes of append-only lists\<close>

lemma prefix_append_self [simp]: "prefix xs (xs @ ys)"
  by (simp add: prefix_def)

section \<open>Tables as maps\<close>

lemma index_by_Nil [simp]: "index_by k [] = Map.empty"
  by (simp add: index_by_def)

lemma index_by_Cons [simp]: "index_by k (x # xs) = (index_by k xs)(k x \<mapsto> x)"
  by (simp add: index_by_def)

lemma find_index_by: "find (\<lambda>x. k x = v) xs = index_by k xs v"
  by (induction xs) auto

lemma index_by_append_new:
  "index_by k xs (k x) = None \<Longrightarrow> index_by k (xs @ [x]) = (index_by k xs)(k x \<mapsto> x)"
  by (simp add: index_by_def map_of_append map_add_def fun_eq_iff split: option.splits)

lemma index_by_update_where:
  assumes "\<And>x. k (g x) = k x"
  shows "index_by k (update_where p g xs) v = map_option (\<lambda>x. if p x then g x else x) (index_by k xs v)"
  by (induction xs) (simp_all add: assms)

lemma index_by_Some: "index_by k xs v = Some x \<Longrightarrow> x \<in> set xs \<and> k x = v"
  using find_Some_in_set [of "\<lambda>x. k x = v" xs x] by (simp add: find_index_by)

lemma dom_index_by [simp]: "dom (index_by k xs) = k ` set xs"
  by (simp add: index_by_def dom_map_of_conv_image_fst image_image)

lemma index_by_None_iff: "index_by k xs v = None \<longleftrightarrow> v \<notin> k ` set xs"
  using dom_index_by [of k xs] by blast

end
