(* ===== verification/Entities.thy ===== *)
theory Entities
  imports Prelude
begin

text \<open>
  The entity model of \<open>internal/config\<close> (the file \<open>src/unnamed/part_000\<close>): the
  Go structs \<open>Backend\<close>, \<open>Route\<close> and \<open>ConfigHistory\<close> as records, and the
  \<open>Store\<close> interface as a datatype naming its twelve operations, which the handlers
  use to say which store call a fault hits. Field names carry a prefix
  (\<open>b_\<close>, \<open>r_\<close>, \<open>h_\<close>) because record fields are global constants in HOL.
\<close>

section \<open>Backend, Route, ConfigHistory\<close>

record backend =
  b_id :: row_id
  b_name :: string
  b_addr :: string
  b_description :: string
  b_enabled :: bool
  b_created_at :: timestamp
  b_updated_at :: timestamp

text \<open>Go's \<open>TimeoutMS int\<close> is a signed 64-bit integer: the model keeps it as \<open>int\<close>
  and the JSON decoder checks its range.\<close>

record route =
  r_id :: row_id
  r_http_method :: string
  r_http_pattern :: string
  r_backend_name :: string
  r_backend_service :: string
  r_backend_method :: string
  r_timeout_ms :: int
  r_description :: string
  r_enabled :: bool
  r_created_at :: timestamp
  r_updated_at :: timestamp

text \<open>
  \<open>OldValue\<close> and \<open>NewValue\<close> are \<open>json.RawMessage\<close> values written by
  \<open>json.Marshal\<close> of a \<open>*Backend\<close> or \<open>*Route\<close>. Marshalling these structs
  cannot fail and decoding the text gives the struct back, so the model keeps the
  serialized snapshot as the entity it encodes.
\<close>

datatype snapshot = SnapBackend backend | SnapRoute route

record config_history =
  h_id :: nat
  h_config_type :: string
  h_config_id :: "row_id option"
  h_operation :: string
  h_old_value :: "snapshot option"
  h_new_value :: "snapshot option"
  h_operator :: string
  h_created_at :: timestamp

text \<open>The zero values Go gives a freshly declared struct.\<close>

definition zero_backend :: backend where
  "zero_backend = \<lparr>b_id = 0, b_name = [], b_addr = [], b_description = [], b_enabled = False,
     b_created_at = 0, b_updated_at = 0\<rparr>"

definition zero_route :: route where
  "zero_route = \<lparr>r_id = 0, r_http_method = [], r_http_pattern = [], r_backend_name = [],
     r_backend_service = [], r_backend_method = [], r_timeout_ms = 0, r_description = [],
     r_enabled = False, r_created_at = 0, r_updated_at = 0\<rparr>"

section \<open>The Store interface\<close>

text \<open>One constructor per method of \<open>config.Store\<close>, in the interface's order.\<close>

datatype store_op =
    OpGetBackends | OpGetBackendByName | OpCreateBackend | OpUpdateBackend | OpDeleteBackend
  | OpGetRoutes | OpGetRouteByID | OpCreateRoute | OpUpdateRoute | OpDeleteRoute
  | OpCreateHistory | OpGetHistory

text \<open>
  What can go wrong in one call to the database: the statement itself fails
  (\<open>Exec\<close>, \<open>Query\<close> or \<open>QueryRow\<close> returns an error, nothing is written), or the
  statement ran and committed but reading its result failed (\<open>LastInsertId\<close>,
  \<open>RowsAffected\<close>, \<open>rows.Scan\<close> or \<open>rows.Err\<close> returned an error).
\<close>

datatype fault = NoFault | ExecFails | ResultFails

text \<open>
  Errors returned by the store: a message made by \<open>errors.New\<close> in
  \<open>mysql_store.go\<close>, or an error of the MySQL driver.
\<close>

datatype store_err = ErrText string | ErrDriver

end
