(* ===== verification/Store.thy ===== *)
theory Store
  imports Entities
begin

text \<open>
  \<open>MySQLStore\<close> of \<open>internal/config/mysql_store.go\<close>, the one implementation of the
  \<open>Store\<close> interface. The database is a record of three tables (rows in
  primary-key order), their \<open>AUTO_INCREMENT\<close> counters and the clock read by
  \<open>CURRENT_TIMESTAMP\<close>. The table layout is not under \<open>src/\<close>; it is taken from the
  spec (\<open>backends\<close>, \<open>routes\<close>, \<open>config_history\<close>, timestamps defaulting to
  \<open>CURRENT_TIMESTAMP\<close>, no unique index assumed on \<open>backends.name\<close>). Go's
  \<open>time.Now()\<close>, which the store writes into the returned structs, is read from the
  same clock. Each operation takes the fault the database call meets (see
  \<open>fault\<close>); \<open>RowsAffected\<close> counts the rows whose value changed, MySQL's default,
  which the DSN of the README (only \<open>parseTime=true\<close>) keeps.
\<close>

record db =
  db_backends :: "backend list"
  db_routes :: "route list"
  db_history :: "config_history list"
  db_next_backend :: row_id
  db_next_route :: row_id
  db_next_history :: nat
  db_clock :: timestamp

definition empty_db :: db where
  "empty_db = \<lparr>db_backends = [], db_routes = [], db_history = [],
     db_next_backend = 1, db_next_route = 1, db_next_history = 1, db_clock = 1\<rparr>"

section \<open>Backends\<close>

definition get_backends :: "fault \<Rightarrow> bool option \<Rightarrow> db \<Rightarrow> store_err + backend list" where
  "get_backends f en d =
     (if f = NoFault then
        Inr (sort_key b_name
              (case en of None \<Rightarrow> db_backends d
               | Some e \<Rightarrow> filter (\<lambda>b. b_enabled b = e) (db_backends d)))
      else Inl ErrDriver)"

definition get_backend_by_name :: "fault \<Rightarrow> string \<Rightarrow> db \<Rightarrow> store_err + backend option" where
  "get_backend_by_name f n d =
     (if f = NoFault then Inr (find (\<lambda>b. b_name b = n) (db_backends d)) else Inl ErrDriver)"

text \<open>
  \<open>INSERT INTO backends (name, addr, description, enabled)\<close>: the row gets the next
  id and the current time; the struct passed in gets the id and the time as well.
\<close>

definition backend_row :: "backend \<Rightarrow> row_id \<Rightarrow> timestamp \<Rightarrow> backend" where
  "backend_row b i t = b\<lparr>b_id := i, b_created_at := t, b_updated_at := t\<rparr>"

definition create_backend :: "fault \<Rightarrow> backend \<Rightarrow> db \<Rightarrow> (store_err + backend) \<times> db" where
  "create_backend f b d =
     (if f = ExecFails then (Inl ErrDriver, d)
      else let row = backend_row b (db_next_backend d) (db_clock d);
               d' = d\<lparr>db_backends := db_backends d @ [row],
                      db_next_backend := Suc (db_next_backend d)\<rparr>
           in if f = ResultFails then (Inl ErrDriver, d') else (Inr row, d'))"

text \<open>\<open>UPDATE backends SET addr, description, enabled, updated_at WHERE name = ?\<close>.\<close>

definition backend_set :: "backend \<Rightarrow> timestamp \<Rightarrow> backend \<Rightarrow> backend" where
  "backend_set b t r = r\<lparr>b_addr := b_addr b, b_description := b_description b,
     b_enabled := b_enabled b, b_updated_at := t\<rparr>"

definition update_backend ::
  "fault \<Rightarrow> string \<Rightarrow> backend \<Rightarrow> db \<Rightarrow> (store_err + backend) \<times> db" where
  "update_backend f n b d =
     (if f = ExecFails then (Inl ErrDriver, d)
      else let p = (\<lambda>r. b_name r = n); g = backend_set b (db_clock d);
               d' = d\<lparr>db_backends := update_where p g (db_backends d)\<rparr>
           in if f = ResultFails then (Inl ErrDriver, d')
              else if changed_rows p g (db_backends d) = 0
                then (Inl (ErrText ''backend not found''), d')
              else (Inr (b\<lparr>b_name := n, b_updated_at := db_clock d\<rparr>), d'))"

text \<open>\<open>UPDATE backends SET enabled = 0, updated_at WHERE name = ?\<close>: the soft delete.\<close>

definition backend_disable :: "timestamp \<Rightarrow> backend \<Rightarrow> backend" where
  "backend_disable t r = r\<lparr>b_enabled := False, b_updated_at := t\<rparr>"

definition delete_backend :: "fault \<Rightarrow> string \<Rightarrow> db \<Rightarrow> (store_err + unit) \<times> db" where
  "delete_backend f n d =
     (if f = ExecFails then (Inl ErrDriver, d)
      else let p = (\<lambda>r. b_name r = n); g = backend_disable (db_clock d);
               d' = d\<lparr>db_backends := update_where p g (db_backends d)\<rparr>
           in if f = ResultFails then (Inl ErrDriver, d')
              else if changed_rows p g (db_backends d) = 0
                then (Inl (ErrText ''backend not found''), d')
              else (Inr (), d'))"

section \<open>Routes\<close>

definition get_routes :: "fault \<Rightarrow> bool option \<Rightarrow> db \<Rightarrow> store_err + route list" where
  "get_routes f en d =
     (if f = NoFault then
        Inr (sort_key (\<lambda>r. (r_http_method r, r_http_pattern r))
              (case en of None \<Rightarrow> db_routes d
               | Some e \<Rightarrow> filter (\<lambda>r. r_enabled r = e) (db_routes d)))
      else Inl ErrDriver)"

definition get_route_by_id :: "fault \<Rightarrow> row_id \<Rightarrow> db \<Rightarrow> store_err + route option" where
  "get_route_by_id f i d =
     (if f = NoFault then Inr (find (\<lambda>r. r_id r = i) (db_routes d)) else Inl ErrDriver)"

definition route_row :: "route \<Rightarrow> row_id \<Rightarrow> timestamp \<Rightarrow> route" where
  "route_row r i t = r\<lparr>r_id := i, r_created_at := t, r_updated_at := t\<rparr>"

definition create_route :: "fault \<Rightarrow> route \<Rightarrow> db \<Rightarrow> (store_err + route) \<times> db" where
  "create_route f r d =
     (if f = ExecFails then (Inl ErrDriver, d)
      else let row = route_row r (db_next_route d) (db_clock d);
               d' = d\<lparr>db_routes := db_routes d @ [row], db_next_route := Suc (db_next_route d)\<rparr>
           in if f = ResultFails then (Inl ErrDriver, d') else (Inr row, d'))"

text \<open>\<open>UPDATE routes SET\<close> every column but \<open>id\<close> and \<open>created_at\<close> \<open>WHERE id = ?\<close>.\<close>

definition route_set :: "route \<Rightarrow> timestamp \<Rightarrow> route \<Rightarrow> route" where
  "route_set r t x = x\<lparr>r_http_method := r_http_method r, r_http_pattern := r_http_pattern r,
     r_backend_name := r_backend_name r, r_backend_service := r_backend_service r,
     r_backend_method := r_backend_method r, r_timeout_ms := r_timeout_ms r,
     r_description := r_description r, r_enabled := r_enabled r, r_updated_at := t\<rparr>"

definition update_route :: "fault \<Rightarrow> row_id \<Rightarrow> route \<Rightarrow> db \<Rightarrow> (store_err + route) \<times> db" where
  "update_route f i r d =
     (if f = ExecFails then (Inl ErrDriver, d)
      else let p = (\<lambda>x. r_id x = i); g = route_set r (db_clock d);
               d' = d\<lparr>db_routes := update_where p g (db_routes d)\<rparr>
           in if f = ResultFails then (Inl ErrDriver, d')
              else if changed_rows p g (db_routes d) = 0
                then (Inl (ErrText ''route not found''), d')
              else (Inr (r\<lparr>r_id := i, r_updated_at := db_clock d\<rparr>), d'))"

definition route_disable :: "timestamp \<Rightarrow> route \<Rightarrow> route" where
  "route_disable t x = x\<lparr>r_enabled := False, r_updated_at := t\<rparr>"

definition delete_route :: "fault \<Rightarrow> row_id \<Rightarrow> db \<Rightarrow> (store_err + unit) \<times> db" where
  "delete_route f i d =
     (if f = ExecFails then (Inl ErrDriver, d)
      else let p = (\<lambda>x. r_id x = i); g = route_disable (db_clock d);
               d' = d\<lparr>db_routes := update_where p g (db_routes d)\<rparr>
           in if f = ResultFails then (Inl ErrDriver, d')
              else if changed_rows p g (db_routes d) = 0
                then (Inl (ErrText ''route not found''), d')
              else (Inr (), d'))"

section \<open>History\<close>

text \<open>
  \<open>INSERT INTO config_history\<close> of six columns; \<open>id\<close> and \<open>created_at\<close> come from
  the database. The result of \<open>Exec\<close> is not read, so only a failing statement is an
  error.
\<close>

definition create_history :: "fault \<Rightarrow> config_history \<Rightarrow> db \<Rightarrow> (store_err + unit) \<times> db" where
  "create_history f h d =
     (if f = ExecFails then (Inl ErrDriver, d)
      else (Inr (), d\<lparr>db_history := db_history d @
                         [h\<lparr>h_id := db_next_history d, h_created_at := db_clock d\<rparr>],
                       db_next_history := Suc (db_next_history d)\<rparr>))"

text \<open>
  The filter of \<open>GetHistory\<close>: \<open>1=1\<close>, then \<open>AND config_type = ?\<close> and
  \<open>AND config_id = ?\<close> when given; a \<open>NULL\<close> config id matches no id.
\<close>

definition history_match :: "string option \<Rightarrow> row_id option \<Rightarrow> config_history \<Rightarrow> bool" where
  "history_match ty cid h =
     ((case ty of None \<Rightarrow> True | Some t \<Rightarrow> h_config_type h = t) \<and>
      (case cid of None \<Rightarrow> True | Some i \<Rightarrow> h_config_id h = Some i))"

text \<open>
  \<open>ORDER BY created_at DESC\<close> leaves the order of rows with the same second open;
  the model breaks ties by id, newest first, one of the orders MySQL may return.
  \<open>LIMIT\<close> and \<open>OFFSET\<close> must not be negative, or the statement fails.
\<close>

definition newest_first :: "config_history list \<Rightarrow> config_history list" where
  "newest_first hs = rev (sort_key (\<lambda>h. (h_created_at h, h_id h)) hs)"

definition get_history :: "fault \<Rightarrow> string option \<Rightarrow> row_id option \<Rightarrow> int \<Rightarrow> int \<Rightarrow> db \<Rightarrow>
    store_err + config_history list \<times> nat" where
  "get_history f ty cid lim off d =
     (let hs = filter (history_match ty cid) (db_history d)
      in if f = NoFault \<and> 0 \<le> lim \<and> 0 \<le> off
         then Inr (take (nat lim) (drop (nat off) (newest_first hs)), length hs)
         else Inl ErrDriver)"

declare get_backends_def [store_defs] get_backend_by_name_def [store_defs]
  create_backend_def [store_defs] update_backend_def [store_defs]
  delete_backend_def [store_defs] get_routes_def [store_defs] get_route_by_id_def [store_defs]
  create_route_def [store_defs] update_route_def [store_defs] delete_route_def [store_defs]
  create_history_def [store_defs] get_history_def [store_defs]

section \<open>Properties of the row updates\<close>

lemma backend_set_ignores_key [simp]:
  "backend_set (b\<lparr>b_id := i, b_name := n\<rparr>) t = backend_set b t"
  by (simp add: backend_set_def fun_eq_iff)

lemma backend_set_fields [simp]:
  "b_name (backend_set b t r) = b_name r" "b_id (backend_set b t r) = b_id r"
  "b_enabled (backend_set b t r) = b_enabled b" "b_description (backend_set b t r) = b_description b"
  "b_addr (backend_set b t r) = b_addr b" "b_updated_at (backend_set b t r) = t"
  by (simp_all add: backend_set_def)

lemma backend_disable_fields [simp]:
  "b_name (backend_disable t r) = b_name r" "b_id (backend_disable t r) = b_id r"
  "b_enabled (backend_disable t r) = False" "b_updated_at (backend_disable t r) = t"
  by (simp_all add: backend_disable_def)

lemma update_backend_ErrText:
  "update_backend f n b d = (Inl (ErrText msg), d1) \<Longrightarrow> d1 = d"
  by (auto simp: update_backend_def Let_def split: if_splits dest!: update_where_no_change)

lemma delete_backend_ErrText:
  "delete_backend f n d = (Inl (ErrText msg), d1) \<Longrightarrow> d1 = d"
  by (auto simp: delete_backend_def Let_def split: if_splits dest!: update_where_no_change)

lemma update_route_ErrText:
  "update_route f i r d = (Inl (ErrText msg), d1) \<Longrightarrow> d1 = d"
  by (auto simp: update_route_def Let_def split: if_splits dest!: update_where_no_change)

lemma delete_route_ErrText:
  "delete_route f i d = (Inl (ErrText msg), d1) \<Longrightarrow> d1 = d"
  by (auto simp: delete_route_def Let_def split: if_splits dest!: update_where_no_change)

section \<open>The history page\<close>

lemma newest_first_set [simp]: "set (newest_first hs) = set hs"
  by (simp add: newest_first_def)

lemma newest_first_sorted:
  "sorted_wrt (\<lambda>a b. (h_created_at b, h_id b) \<le> (h_created_at a, h_id a)) (newest_first hs)"
proof -
  have "sorted (map (\<lambda>h. (h_created_at h, h_id h)) (sort_key (\<lambda>h. (h_created_at h, h_id h)) hs))"
    by (rule sorted_sort_key)
  then show ?thesis
    by (simp add: newest_first_def sorted_wrt_rev sorted_map)
qed

lemma get_history_Inr:
  "get_history f ty cid lim off d = Inr (items, n) \<Longrightarrow>
   f = NoFault \<and> 0 \<le> lim \<and> 0 \<le> off \<and> n = length (filter (history_match ty cid) (db_history d)) \<and>
   items = take (nat lim) (drop (nat off) (newest_first (filter (history_match ty cid) (db_history d))))"
  by (auto simp: get_history_def Let_def split: if_splits)

text \<open>What every page of \<open>newest_first\<close> satisfies.\<close>

lemma history_page_props:
  "set (take k (drop j (newest_first hs))) \<subseteq> set hs \<and>
   length (take k (drop j (newest_first hs))) \<le> k \<and>
   sorted_wrt (\<lambda>a b. h_created_at b \<le> h_created_at a) (take k (drop j (newest_first hs)))"
proof -
  have "set (take k (drop j (newest_first hs))) \<subseteq> set (newest_first hs)"
    by (meson set_drop_subset set_take_subset subset_trans)
  moreover have "sorted_wrt (\<lambda>a b. (h_created_at b, h_id b) \<le> (h_created_at a, h_id a))
      (take k (drop j (newest_first hs)))"
    by (intro sorted_wrt_take sorted_wrt_drop newest_first_sorted)
  then have "sorted_wrt (\<lambda>a b. h_created_at b \<le> h_created_at a) (take k (drop j (newest_first hs)))"
    by (rule sorted_wrt_mono_rel [rotated]) (auto simp: less_eq_prod_def)
  ultimately show ?thesis by simp
qed

end

