(* ===== verification/Json.thy ===== *)
theory Json
  imports Entities
begin

text \<open>
  The JSON decoding the handlers rely on (Go's \<open>encoding/json\<close>, library code modelled
  from its documentation and source): request bodies as JSON values, decoding an
  object into the \<open>Backend\<close> and \<open>Route\<close> structs (key matching exact first, then
  case-folded; \<open>null\<close> leaves a field unchanged; a value of the wrong type is an
  error), and the detour of the update handlers through a \<open>map[string]interface{}\<close>
  (later duplicate keys win; \<open>json.Marshal\<close> writes the keys sorted).
  Numbers are integers written in decimal. The map detour turns them into \<open>float64\<close>
  (round to nearest, ties to even, too large is an error) and \<open>json.Marshal\<close> prints the
  shortest decimal that reads back as the same \<open>float64\<close>; this is exact below \<open>2^53\<close>.
  Time values are decoded by a parser \<open>tp\<close> given as a parameter (RFC 3339 parsing by
  \<open>time.Time.UnmarshalJSON\<close> is not modelled).
\<close>

datatype jval =
    JNull
  | JBool bool
  | JNum int
  | JStr string
  | JArr "jval list"
  | JObj "(string \<times> jval) list"

text \<open>A request body is a JSON value, or text that is not JSON at all.\<close>

datatype body_in = BodyJson jval | BodyMalformed

type_synonym time_parser = "string \<Rightarrow> timestamp option"

section \<open>Decoding one value into a field\<close>

text \<open>
  \<open>Inl ()\<close> is a decoding error; \<open>Inr None\<close> is \<open>null\<close>, which leaves the field as it
  was; \<open>Inr (Some v)\<close> stores \<open>v\<close>.
\<close>

fun json_string :: "jval \<Rightarrow> unit + string option" where
  "json_string JNull = Inr None"
| "json_string (JStr s) = Inr (Some s)"
| "json_string _ = Inl ()"

fun json_bool :: "jval \<Rightarrow> unit + bool option" where
  "json_bool JNull = Inr None"
| "json_bool (JBool b) = Inr (Some b)"
| "json_bool _ = Inl ()"

fun json_int64 :: "jval \<Rightarrow> unit + int option" where
  "json_int64 JNull = Inr None"
| "json_int64 (JNum n) = (if - (2 ^ 63) \<le> n \<and> n < 2 ^ 63 then Inr (Some n) else Inl ())"
| "json_int64 _ = Inl ()"

fun json_uint64 :: "jval \<Rightarrow> unit + nat option" where
  "json_uint64 JNull = Inr None"
| "json_uint64 (JNum n) = (if 0 \<le> n \<and> n < 2 ^ 64 then Inr (Some (nat n)) else Inl ())"
| "json_uint64 _ = Inl ()"

fun json_time :: "time_parser \<Rightarrow> jval \<Rightarrow> unit + timestamp option" where
  "json_time tp JNull = Inr None"
| "json_time tp (JStr s) = (case tp s of Some t \<Rightarrow> Inr (Some t) | None \<Rightarrow> Inl ())"
| "json_time tp _ = Inl ()"

definition store_field :: "unit + 'v option \<Rightarrow> ('v \<Rightarrow> 's \<Rightarrow> 's) \<Rightarrow> 's \<Rightarrow> unit + 's" where
  "store_field r upd s = (case r of Inl e \<Rightarrow> Inl e | Inr None \<Rightarrow> Inr s | Inr (Some v) \<Rightarrow> Inr (upd v s))"

section \<open>Matching keys to fields\<close>

text \<open>
  \<open>foldName\<close> of \<open>encoding/json\<close>: ASCII letters are upper-cased; the only runes
  outside ASCII that fold onto ASCII letters are the Kelvin sign U+212A (bytes
  \<open>E2 84 AA\<close>, folds to \<open>K\<close>) and the long s U+017F (bytes \<open>C5 BF\<close>, folds to \<open>S\<close>).
  Every other byte is kept; a key that keeps a non-ASCII byte can match no field,
  since all tags are ASCII.
\<close>

definition ascii_upper :: "char \<Rightarrow> char" where
  "ascii_upper c =
     (case map_of (zip ''abcdefghijklmnopqrstuvwxyz'' ''ABCDEFGHIJKLMNOPQRSTUVWXYZ'') c of
        Some u \<Rightarrow> u | None \<Rightarrow> c)"

fun fold_name :: "string \<Rightarrow> string" where
  "fold_name [] = []"
| "fold_name (c # cs) =
     (if c = CHR 0xE2 \<and> take 2 cs = [CHR 0x84, CHR 0xAA] then CHR ''K'' # fold_name (drop 2 cs)
      else if c = CHR 0xC5 \<and> take 1 cs = [CHR 0xBF] then CHR ''S'' # fold_name (drop 1 cs)
      else ascii_upper c # fold_name cs)"

definition field_of_key :: "(string \<times> 'f) list \<Rightarrow> string \<Rightarrow> 'f option" where
  "field_of_key tags k =
     (case find (\<lambda>tf. fst tf = k) tags of
        Some tf \<Rightarrow> Some (snd tf)
      | None \<Rightarrow> map_option snd (find (\<lambda>tf. fold_name (fst tf) = fold_name k) tags))"

text \<open>Decoding the members of an object, in order, into a struct.\<close>

fun decode_members ::
  "(string \<times> 'f) list \<Rightarrow> ('f \<Rightarrow> jval \<Rightarrow> 's \<Rightarrow> unit + 's) \<Rightarrow> (string \<times> jval) list \<Rightarrow> 's \<Rightarrow> unit + 's"
where
  "decode_members tags set_f [] s = Inr s"
| "decode_members tags set_f ((k, v) # ms) s =
     (case field_of_key tags k of
        None \<Rightarrow> decode_members tags set_f ms s
      | Some f \<Rightarrow> (case set_f f v s of Inl e \<Rightarrow> Inl e | Inr s' \<Rightarrow> decode_members tags set_f ms s'))"

section \<open>The Backend and Route structs\<close>

datatype backend_field = BId | BName | BAddr | BDescription | BEnabled | BCreatedAt | BUpdatedAt

definition backend_tags :: "(string \<times> backend_field) list" where
  "backend_tags = [(''id'', BId), (''name'', BName), (''addr'', BAddr),
     (''description'', BDescription), (''enabled'', BEnabled),
     (''created_at'', BCreatedAt), (''updated_at'', BUpdatedAt)]"

fun set_backend_field :: "time_parser \<Rightarrow> backend_field \<Rightarrow> jval \<Rightarrow> backend \<Rightarrow> unit + backend" where
  "set_backend_field tp BId v b = store_field (json_uint64 v) (\<lambda>x b. b\<lparr>b_id := x\<rparr>) b"
| "set_backend_field tp BName v b = store_field (json_string v) (\<lambda>x b. b\<lparr>b_name := x\<rparr>) b"
| "set_backend_field tp BAddr v b = store_field (json_string v) (\<lambda>x b. b\<lparr>b_addr := x\<rparr>) b"
| "set_backend_field tp BDescription v b =
     store_field (json_string v) (\<lambda>x b. b\<lparr>b_description := x\<rparr>) b"
| "set_backend_field tp BEnabled v b = store_field (json_bool v) (\<lambda>x b. b\<lparr>b_enabled := x\<rparr>) b"
| "set_backend_field tp BCreatedAt v b =
     store_field (json_time tp v) (\<lambda>x b. b\<lparr>b_created_at := x\<rparr>) b"
| "set_backend_field tp BUpdatedAt v b =
     store_field (json_time tp v) (\<lambda>x b. b\<lparr>b_updated_at := x\<rparr>) b"

datatype route_field = RId | RHttpMethod | RHttpPattern | RBackendName | RBackendService
  | RBackendMethod | RTimeoutMs | RDescription | REnabled | RCreatedAt | RUpdatedAt

definition route_tags :: "(string \<times> route_field) list" where
  "route_tags = [(''id'', RId), (''http_method'', RHttpMethod), (''http_pattern'', RHttpPattern),
     (''backend_name'', RBackendName), (''backend_service'', RBackendService),
     (''backend_method'', RBackendMethod), (''timeout_ms'', RTimeoutMs),
     (''description'', RDescription), (''enabled'', REnabled),
     (''created_at'', RCreatedAt), (''updated_at'', RUpdatedAt)]"

fun set_route_field :: "time_parser \<Rightarrow> route_field \<Rightarrow> jval \<Rightarrow> route \<Rightarrow> unit + route" where
  "set_route_field tp RId v r = store_field (json_uint64 v) (\<lambda>x r. r\<lparr>r_id := x\<rparr>) r"
| "set_route_field tp RHttpMethod v r =
     store_field (json_string v) (\<lambda>x r. r\<lparr>r_http_method := x\<rparr>) r"
| "set_route_field tp RHttpPattern v r =
     store_field (json_string v) (\<lambda>x r. r\<lparr>r_http_pattern := x\<rparr>) r"
| "set_route_field tp RBackendName v r =
     store_field (json_string v) (\<lambda>x r. r\<lparr>r_backend_name := x\<rparr>) r"
| "set_route_field tp RBackendService v r =
     store_field (json_string v) (\<lambda>x r. r\<lparr>r_backend_service := x\<rparr>) r"
| "set_route_field tp RBackendMethod v r =
     store_field (json_string v) (\<lambda>x r. r\<lparr>r_backend_method := x\<rparr>) r"
| "set_route_field tp RTimeoutMs v r = store_field (json_int64 v) (\<lambda>x r. r\<lparr>r_timeout_ms := x\<rparr>) r"
| "set_route_field tp RDescription v r =
     store_field (json_string v) (\<lambda>x r. r\<lparr>r_description := x\<rparr>) r"
| "set_route_field tp REnabled v r = store_field (json_bool v) (\<lambda>x r. r\<lparr>r_enabled := x\<rparr>) r"
| "set_route_field tp RCreatedAt v r =
     store_field (json_time tp v) (\<lambda>x r. r\<lparr>r_created_at := x\<rparr>) r"
| "set_route_field tp RUpdatedAt v r =
     store_field (json_time tp v) (\<lambda>x r. r\<lparr>r_updated_at := x\<rparr>) r"

text \<open>
  \<open>json.Unmarshal\<close> of a value into a struct: \<open>null\<close> leaves the struct as it was, an
  object is decoded member by member, any other value is a type error.
\<close>

fun unmarshal_value ::
  "(string \<times> 'f) list \<Rightarrow> ('f \<Rightarrow> jval \<Rightarrow> 's \<Rightarrow> unit + 's) \<Rightarrow> jval \<Rightarrow> 's \<Rightarrow> unit + 's"
where
  "unmarshal_value tags set_f JNull s = Inr s"
| "unmarshal_value tags set_f (JObj ms) s = decode_members tags set_f ms s"
| "unmarshal_value tags set_f _ s = Inl ()"

definition decode_backend_body :: "time_parser \<Rightarrow> body_in \<Rightarrow> unit + backend" where
  "decode_backend_body tp bd = (case bd of
      BodyMalformed \<Rightarrow> Inl ()
    | BodyJson v \<Rightarrow> unmarshal_value backend_tags (set_backend_field tp) v zero_backend)"

definition decode_route_body :: "time_parser \<Rightarrow> body_in \<Rightarrow> unit + route" where
  "decode_route_body tp bd = (case bd of
      BodyMalformed \<Rightarrow> Inl ()
    | BodyJson v \<Rightarrow> unmarshal_value route_tags (set_route_field tp) v zero_route)"

section \<open>Numbers in \<open>interface{}\<close> values\<close>

text \<open>
  Decoding into \<open>interface{}\<close> turns every JSON number into a \<open>float64\<close>
  (\<open>strconv.ParseFloat\<close>): the nearest value with a 53-bit significand, ties to even; a
  number beyond the largest \<open>float64\<close> is a decoding error. \<open>bit_len\<close> is the number of
  binary digits.
\<close>

fun bit_len :: "nat \<Rightarrow> nat" where
  "bit_len n = (if n = 0 then 0 else Suc (bit_len (n div 2)))"

definition round_f64_nat :: "nat \<Rightarrow> nat" where
  "round_f64_nat m =
     (if m < 2 ^ 53 then m
      else let k = bit_len m - 53; q = m div 2 ^ k; r = m mod 2 ^ k in
        (if 2 ^ (k - 1) < r \<or> (r = 2 ^ (k - 1) \<and> odd q) then Suc q else q) * 2 ^ k)"

definition round_f64 :: "int \<Rightarrow> int" where
  "round_f64 n = sgn n * int (round_f64_nat (nat \<bar>n\<bar>))"

definition f64_overflows :: "int \<Rightarrow> bool" where
  "f64_overflows n \<longleftrightarrow> 2 ^ 1024 \<le> round_f64_nat (nat \<bar>n\<bar>)"

definition f64_candidate :: "nat \<Rightarrow> nat \<Rightarrow> nat option" where
  "f64_candidate u f =
     (let lo = f div u * u; hi = f div u * u + u in
      if round_f64_nat lo = f \<and> round_f64_nat hi = f then
        Some (if f - lo < hi - f then lo else if hi - f < f - lo then hi
              else if even (f div u) then lo else hi)
      else if round_f64_nat lo = f then Some lo
      else if round_f64_nat hi = f then Some hi else None)"

fun shortest_from :: "nat \<Rightarrow> nat \<Rightarrow> nat" where
  "shortest_from 0 f = f"
| "shortest_from (Suc j) f =
     (case f64_candidate (10 ^ Suc j) f of Some c \<Rightarrow> c | None \<Rightarrow> shortest_from j f)"

text \<open>
  \<open>json.Marshal\<close> of a \<open>float64\<close>: the shortest decimal that parses back to it (ties
  to the even last digit). From \<open>1e21\<close> on Go writes an exponent, which no integer field
  accepts; those values are out of the range of every integer field here as well.
\<close>

definition float_text :: "int \<Rightarrow> int" where
  "float_text f = sgn f * int (shortest_from 20 (nat \<bar>f\<bar>))"

fun float_val :: "jval \<Rightarrow> jval" where
  "float_val (JNum n) = JNum (round_f64 n)"
| "float_val (JArr vs) = JArr (map float_val vs)"
| "float_val (JObj ms) = JObj (map (\<lambda>(k, v). (k, float_val v)) ms)"
| "float_val v = v"

fun num_overflow :: "jval \<Rightarrow> bool" where
  "num_overflow (JNum n) = f64_overflows n"
| "num_overflow (JArr vs) = list_ex num_overflow vs"
| "num_overflow (JObj ms) = list_ex (\<lambda>(k, v). num_overflow v) ms"
| "num_overflow _ = False"

fun marshal_val :: "jval \<Rightarrow> jval" where
  "marshal_val (JNum f) = JNum (float_text f)"
| "marshal_val (JArr vs) = JArr (map marshal_val vs)"
| "marshal_val (JObj ms) = JObj (map (\<lambda>(k, v). (k, marshal_val v)) ms)"
| "marshal_val v = v"

section \<open>The detour through map[string]interface{}\<close>

text \<open>
  Decoding a body into a Go map: \<open>null\<close> gives the nil map, an object gives its
  members with the last of duplicate keys winning, anything else is an error. The map
  is kept as the list of its entries in the order \<open>json.Marshal\<close> writes them,
  sorted by key.
\<close>

definition go_map :: "(string \<times> jval) list \<Rightarrow> (string \<times> jval) list" where
  "go_map ms = map (\<lambda>k. (k, the (map_of (rev ms) k))) (sort (remdups (map fst ms)))"

definition decode_map_body :: "body_in \<Rightarrow> unit + (string \<times> jval) list" where
  "decode_map_body bd = (case bd of
      BodyJson JNull \<Rightarrow> Inr []
    | BodyJson (JObj ms) \<Rightarrow>
        if num_overflow (JObj ms) then Inl () else Inr (go_map (map (\<lambda>(k, v). (k, float_val v)) ms))
    | _ \<Rightarrow> Inl ())"

text \<open>\<open>m[k]\<close> on the Go map: exact key, no folding.\<close>

definition map_index :: "(string \<times> jval) list \<Rightarrow> string \<Rightarrow> jval option" where
  "map_index m k = map_of m k"

text \<open>\<open>json.Marshal(m)\<close> then \<open>json.Unmarshal\<close> into a zero struct.\<close>

definition remarshal :: "(string \<times> 'f) list \<Rightarrow> ('f \<Rightarrow> jval \<Rightarrow> 's \<Rightarrow> unit + 's) \<Rightarrow>
    (string \<times> jval) list \<Rightarrow> 's \<Rightarrow> unit + 's" where
  "remarshal tags set_f m zero = decode_members tags set_f (map (\<lambda>(k, v). (k, marshal_val v)) m) zero"

section \<open>The Go types of the Route fields\<close>

text \<open>\<open>ID\<close> is a 64-bit \<open>uint\<close> and \<open>TimeoutMS\<close> a 64-bit \<open>int\<close>.\<close>

definition route_fits_go :: "route \<Rightarrow> bool" where
  "route_fits_go r \<longleftrightarrow> r_id r < 2 ^ 64 \<and> - (2 ^ 63) \<le> r_timeout_ms r \<and> r_timeout_ms r < 2 ^ 63"

section \<open>Decoding lemmas\<close>

text \<open>
  When the folded tags are distinct, as for both structs, the exact match is subsumed
  by the folded one.
\<close>

lemma field_of_key_folded:
  assumes "distinct (map (\<lambda>tf. fold_name (fst tf)) tags)"
  shows "field_of_key tags k = map_option snd (find (\<lambda>tf. fold_name (fst tf) = fold_name k) tags)"
proof (cases "find (\<lambda>tf. fst tf = k) tags")
  case None
  then show ?thesis by (simp add: field_of_key_def)
next
  case (Some tf)
  then have "tf \<in> set tags" and "fst tf = k"
    using find_Some_in_set by fastforce+
  with assms have "find (\<lambda>y. fold_name (fst y) = fold_name k) tags = Some tf"
    using find_distinct_key [of "\<lambda>tf. fold_name (fst tf)" tags tf] by simp
  with Some show ?thesis by (simp add: field_of_key_def)
qed

text \<open>A field no key of the object is matched to keeps its value.\<close>

lemma decode_members_frame:
  assumes "\<And>f v s s'. f \<noteq> F \<Longrightarrow> set_f f v s = Inr s' \<Longrightarrow> proj s' = proj s"
    and "\<forall>kv \<in> set ms. field_of_key tags (fst kv) \<noteq> Some F"
    and "decode_members tags set_f ms s = Inr s'"
  shows "proj s' = proj s"
  using assms(2,3)
proof (induction ms arbitrary: s)
  case Nil
  then show ?case by simp
next
  case (Cons kv ms)
  obtain k v where kv: "kv = (k, v)" by (cases kv)
  show ?case
  proof (cases "field_of_key tags k")
    case None
    with Cons kv show ?thesis by simp
  next
    case (Some f)
    with Cons.prems kv have "f \<noteq> F" by auto
    from Some Cons.prems kv obtain s1 where s1: "set_f f v s = Inr s1"
      and rest: "decode_members tags set_f ms s1 = Inr s'"
      by (auto split: sum.splits)
    from Cons.prems have "\<forall>kv \<in> set ms. field_of_key tags (fst kv) \<noteq> Some F" by simp
    from this rest have "proj s' = proj s1" by (rule Cons.IH)
    also from assms(1) [OF \<open>f \<noteq> F\<close> s1] have "\<dots> = proj s" .
    finally show ?thesis .
  qed
qed

text \<open>A field exactly one value of the object is matched to ends with that value.\<close>

lemma decode_members_single:
  assumes frame: "\<And>f v s s'. f \<noteq> F \<Longrightarrow> set_f f v s = Inr s' \<Longrightarrow> proj s' = proj s"
    and setF: "\<And>s s'. set_f F v s = Inr s' \<Longrightarrow> proj s' = h"
  shows "\<forall>kv \<in> set ms. field_of_key tags (fst kv) = Some F \<longrightarrow> snd kv = v \<Longrightarrow>
         \<exists>kv \<in> set ms. field_of_key tags (fst kv) = Some F \<Longrightarrow>
         decode_members tags set_f ms s = Inr s' \<Longrightarrow> proj s' = h"
proof (induction ms arbitrary: s)
  case Nil
  then show ?case by simp
next
  case (Cons kv ms)
  obtain k w where kv: "kv = (k, w)" by (cases kv)
  show ?case
  proof (cases "field_of_key tags k")
    case None
    with Cons kv show ?thesis by auto
  next
    case (Some f)
    with Cons.prems kv obtain s1 where s1: "set_f f w s = Inr s1"
      and rest: "decode_members tags set_f ms s1 = Inr s'"
      by (auto split: sum.splits)
    from Cons.prems(1) have only: "\<forall>kv \<in> set ms. field_of_key tags (fst kv) = Some F \<longrightarrow> snd kv = v"
      by simp
    show ?thesis
    proof (cases "\<exists>kv \<in> set ms. field_of_key tags (fst kv) = Some F")
      case True
      from only True rest show ?thesis by (rule Cons.IH)
    next
      case False
      with Cons.prems(2) kv Some have "f = F" by auto
      with Cons.prems(1) kv Some have "w = v" by auto
      with s1 \<open>f = F\<close> setF have "proj s1 = h" by blast
      moreover from False have "\<forall>kv \<in> set ms. field_of_key tags (fst kv) \<noteq> Some F" by blast
      from frame this rest have "proj s' = proj s1" by (rule decode_members_frame)
      ultimately show ?thesis by simp
    qed
  qed
qed


section \<open>The map detour\<close>

lemma map_of_go_map: "map_of (go_map ms) k = map_of (rev ms) k"
proof -
  have "map_of (go_map ms) k = (if k \<in> fst ` set ms then Some (the (map_of (rev ms) k)) else None)"
    by (simp add: go_map_def map_of_map_restrict restrict_map_def)
  also have "\<dots> = map_of (rev ms) k"
  proof (cases "k \<in> fst ` set ms")
    case True
    then have "map_of (rev ms) k \<noteq> None" by (simp add: map_of_eq_None_iff)
    with True show ?thesis by auto
  next
    case False
    then have "map_of (rev ms) k = None" by (simp add: map_of_eq_None_iff)
    with False show ?thesis by simp
  qed
  finally show ?thesis .
qed

lemma go_map_member:
  assumes "kv \<in> set (go_map ms)"
  shows "map_of (rev ms) (fst kv) = Some (snd kv)"
proof -
  from assms obtain a b where kv: "kv = (a, the (map_of (rev ms) a))" and ab: "(a, b) \<in> set ms"
    by (auto simp: go_map_def)
  from ab have "a \<in> fst ` set ms" by (rule image_eqI [rotated]) simp
  then have "map_of (rev ms) a \<noteq> None" by (simp add: map_of_eq_None_iff)
  with kv show ?thesis by auto
qed


lemma set_go_map_keys: "fst ` set (go_map ms) = fst ` set ms"
  by (force simp: go_map_def image_image)

lemma decode_map_body_obj:
  "decode_map_body (BodyJson (JObj ms)) = Inr m \<Longrightarrow> m = go_map (map (\<lambda>(k, v). (k, float_val v)) ms)"
  by (simp add: decode_map_body_def split: if_splits)

lemma keys_map_snd [simp]: "fst ` set (map (\<lambda>(k, v). (k, g v)) xs) = fst ` set xs"
  by (force simp: image_image)

section \<open>Numbers through float64\<close>

declare bit_len.simps [simp del]

lemma shortest_from_numeral [simp]:
  "shortest_from (numeral w) f =
     (case f64_candidate (10 ^ numeral w) f of Some c \<Rightarrow> c | None \<Rightarrow> shortest_from (pred_numeral w) f)"
  by (simp add: numeral_eq_Suc)

lemma bit_len_bounds: "0 < x \<Longrightarrow> 2 ^ (bit_len x - 1) \<le> x \<and> x < 2 ^ bit_len x"
proof (induction x rule: bit_len.induct)
  case (1 x)
  show ?case
  proof (cases "x div 2 = 0")
    case True
    with "1.prems" have "x = 1" by linarith
    then show ?thesis by (simp add: bit_len.simps)
  next
    case False
    with "1.IH" "1.prems" have ih: "2 ^ (bit_len (x div 2) - 1) \<le> x div 2 \<and> x div 2 < 2 ^ bit_len (x div 2)"
      by simp
    from False have pos: "0 < bit_len (x div 2)" by (subst bit_len.simps) simp
    from "1.prems" have bl: "bit_len x = Suc (bit_len (x div 2))" by (subst bit_len.simps) simp
    from pos have p2: "(2::nat) ^ bit_len (x div 2) = 2 * 2 ^ (bit_len (x div 2) - 1)"
      by (cases "bit_len (x div 2)") simp_all
    from ih have i1: "2 ^ (bit_len (x div 2) - 1) \<le> x div 2" by simp
    have "(2::nat) ^ bit_len (x div 2) \<le> 2 * (x div 2)" using p2 i1 by simp
    moreover have "2 * (x div 2) \<le> x" by simp
    ultimately have "2 ^ bit_len (x div 2) \<le> x" by (rule order_trans)
    moreover have "x < 2 ^ Suc (bit_len (x div 2))"
    proof -
      from ih have i2: "x div 2 < 2 ^ bit_len (x div 2)" by simp
      have "x < 2 * (x div 2) + 2" by presburger
      with i2 show ?thesis by (simp add: power_Suc)
    qed
    ultimately show ?thesis using bl by simp
  qed
qed

lemma round_f64_nat_small [simp]: "m < 2 ^ 53 \<Longrightarrow> round_f64_nat m = m"
  by (simp add: round_f64_nat_def)

lemma round_f64_nat_large:
  assumes m: "2 ^ 53 \<le> m"
  shows "2 ^ 53 \<le> round_f64_nat m"
proof -
  let ?k = "bit_len m - 53"
  from m have bnd: "2 ^ (bit_len m - 1) \<le> m \<and> m < 2 ^ bit_len m"
    by (intro bit_len_bounds) simp
  have b: "54 \<le> bit_len m"
  proof (rule ccontr)
    assume "\<not> 54 \<le> bit_len m"
    then have "(2::nat) ^ bit_len m \<le> 2 ^ 53" by (intro power_increasing) simp_all
    with bnd m show False by linarith
  qed
  then have "bit_len m - 1 = 52 + ?k" by simp
  then have split: "(2::nat) ^ (bit_len m - 1) = 2 ^ 52 * 2 ^ ?k"
    by (simp only: power_add)
  with bnd have "2 ^ 52 * 2 ^ ?k \<le> m" by simp
  then have q: "2 ^ 52 \<le> m div 2 ^ ?k"
    by (simp add: less_eq_div_iff_mult_less_eq)
  from b have "(2::nat) ^ 1 \<le> 2 ^ ?k" by (intro power_increasing) simp_all
  then have "(2::nat) ^ 53 \<le> 2 ^ 52 * 2 ^ ?k" by simp
  also from q have "\<dots> \<le> (m div 2 ^ ?k) * 2 ^ ?k" by simp
  also have "\<dots> \<le> round_f64_nat m"
    using m by (simp add: round_f64_nat_def Let_def)
  finally show ?thesis .
qed

lemma round_f64_nat_eq_small: "round_f64_nat x = m \<Longrightarrow> m < 2 ^ 53 \<Longrightarrow> x = m"
  using round_f64_nat_large [of x] by (cases "x < 2 ^ 53") auto

lemma f64_candidate_small:
  assumes m: "m < 2 ^ 53" and c: "f64_candidate u m = Some c"
  shows "c = m"
proof -
  from c have "round_f64_nat c = m"
    by (auto simp: f64_candidate_def Let_def split: if_splits)
  from this m show ?thesis by (rule round_f64_nat_eq_small)
qed

lemma shortest_from_small:
  assumes "m < 2 ^ 53"
  shows "shortest_from j m = m"
  by (induction j) (auto split: option.splits dest: f64_candidate_small [OF assms])

lemma float_text_small [simp]: "\<bar>f\<bar> < 2 ^ 53 \<Longrightarrow> float_text f = f"
proof -
  assume "\<bar>f\<bar> < 2 ^ 53"
  then have "nat \<bar>f\<bar> < 2 ^ 53" by (simp add: nat_less_iff)
  then have "shortest_from 20 (nat \<bar>f\<bar>) = nat \<bar>f\<bar>" by (rule shortest_from_small)
  then show ?thesis by (simp add: float_text_def sgn_mult_abs del: shortest_from_numeral)
qed

lemma round_f64_small [simp]: "\<bar>n\<bar> < 2 ^ 53 \<Longrightarrow> round_f64 n = n"
proof -
  assume "\<bar>n\<bar> < 2 ^ 53"
  then have "nat \<bar>n\<bar> < 2 ^ 53" by (simp add: nat_less_iff)
  then show ?thesis by (simp add: round_f64_def sgn_mult_abs)
qed

text \<open>What the update handlers read back from the decoded map.\<close>

lemma map_of_go_map_float:
  "map_of (go_map (map (\<lambda>(k, v). (k, float_val v)) ms)) k = map_option float_val (map_of (rev ms) k)"
  by (simp add: map_of_go_map rev_map map_of_map)

lemma float_val_bool_case:
  "(case map_option float_val x of None \<Rightarrow> a | Some (JBool v) \<Rightarrow> v | Some _ \<Rightarrow> False) =
   (case x of None \<Rightarrow> a | Some (JBool v) \<Rightarrow> v | Some _ \<Rightarrow> False)"
proof (cases x)
  case (Some y)
  then show ?thesis by (cases y) simp_all
qed simp

lemma keys_update_map:
  assumes "decode_map_body (BodyJson (JObj ms)) = Inr m"
    and "kv \<in> set (map (\<lambda>(k, v). (k, marshal_val v)) m)"
  shows "fst kv \<in> fst ` set ms"
proof -
  from assms(2) have "fst kv \<in> fst ` set (map (\<lambda>(k, v). (k, marshal_val v)) m)" by (rule imageI)
  moreover have "fst ` set (map (\<lambda>(k, v). (k, marshal_val v)) m) = fst ` set ms"
    using decode_map_body_obj [OF assms(1)] by (simp only: keys_map_snd set_go_map_keys)
  ultimately show ?thesis by simp
qed

lemmas f64_eval = float_text_def round_f64_def round_f64_nat_def f64_candidate_def f64_overflows_def
  bit_len.simps Let_def

section \<open>Fields of the Backend struct\<close>

lemma backend_tags_distinct: "distinct (map (\<lambda>tf. fold_name (fst tf)) backend_tags)"
  by (simp add: backend_tags_def ascii_upper_def)

lemma backend_description_key:
  "field_of_key backend_tags k = Some BDescription \<Longrightarrow> fold_name k = ''DESCRIPTION''"
  unfolding field_of_key_folded [OF backend_tags_distinct]
  by (simp add: backend_tags_def ascii_upper_def split: if_splits)

lemma set_backend_field_description:
  "f \<noteq> BDescription \<Longrightarrow> set_backend_field tp f v s = Inr s' \<Longrightarrow> b_description s' = b_description s"
  by (cases f) (auto simp: store_field_def split: sum.splits option.splits)

section \<open>Fields of the Route struct\<close>

lemma route_tags_distinct: "distinct (map (\<lambda>tf. fold_name (fst tf)) route_tags)"
  by (simp add: route_tags_def ascii_upper_def)

lemma route_timeout_key:
  "field_of_key route_tags k = Some RTimeoutMs \<Longrightarrow> fold_name k = ''TIMEOUT_MS''"
  unfolding field_of_key_folded [OF route_tags_distinct]
  by (simp add: route_tags_def ascii_upper_def split: if_splits)

lemma set_route_field_timeout:
  "f \<noteq> RTimeoutMs \<Longrightarrow> set_route_field tp f v s = Inr s' \<Longrightarrow> r_timeout_ms s' = r_timeout_ms s"
  by (cases f) (auto simp: store_field_def split: sum.splits option.splits)

lemma set_route_field_timeout_set:
  "set_route_field tp RTimeoutMs (JNum t) s = Inr s' \<Longrightarrow> r_timeout_ms s' = t"
  by (auto simp: store_field_def split: if_splits)

section \<open>Key matching\<close>

text \<open>
  Matching a JSON key to a field of either struct depends only on the key's case
  folding: keys that fold alike (\<open>NAME\<close>, \<open>name\<close>, or \<open>k\<close> and the Kelvin sign
  \<open>U+212A\<close>) reach the same field, as \<open>encoding/json\<close> does.
\<close>

theorem field_of_key_case_insensitive:
  "fold_name k = fold_name k' \<Longrightarrow>
   field_of_key backend_tags k = field_of_key backend_tags k' \<and> field_of_key route_tags k = field_of_key route_tags k'"
  by (simp add: field_of_key_folded [OF backend_tags_distinct] field_of_key_folded [OF route_tags_distinct])

theorem field_of_key_case_insensitive_witness:
  "field_of_key route_tags (''backend_'' @ [CHR 0xE2, CHR 0x84, CHR 0xAA] @ ''ey'') = field_of_key route_tags ''BACKEND_KEY''"
proof -
  have "fold_name (''backend_'' @ [CHR 0xE2, CHR 0x84, CHR 0xAA] @ ''ey'') = fold_name ''BACKEND_KEY''"
    by (simp add: ascii_upper_def)
  from field_of_key_case_insensitive [OF this] show ?thesis by simp
qed

section \<open>Decoding keeps the Go types\<close>

lemma decode_members_preserves:
  assumes "\<And>f v s s'. P s \<Longrightarrow> set_f f v s = Inr s' \<Longrightarrow> P s'"
  shows "decode_members tags set_f ms s = Inr s' \<Longrightarrow> P s \<Longrightarrow> P s'"
proof (induction ms arbitrary: s)
  case Nil
  then show ?case by simp
next
  case (Cons kv ms)
  obtain k v where kv: "kv = (k, v)" by (cases kv)
  show ?case
  proof (cases "field_of_key tags k")
    case None
    with Cons kv show ?thesis by simp
  next
    case (Some f)
    with Cons.prems kv obtain s1 where s1: "set_f f v s = Inr s1"
      and rest: "decode_members tags set_f ms s1 = Inr s'"
      by (auto split: sum.splits)
    from assms [OF Cons.prems(2) s1] have "P s1" .
    with rest show ?thesis by (rule Cons.IH)
  qed
qed

lemma set_route_field_fits:
  "route_fits_go r \<Longrightarrow> set_route_field tp f v r = Inr r' \<Longrightarrow> route_fits_go r'"
  by (cases f; cases v)
     (auto simp: route_fits_go_def store_field_def split: sum.splits option.splits if_splits)

lemma zero_route_fits: "route_fits_go zero_route"
  by (simp add: route_fits_go_def zero_route_def)

section \<open>Integers through float64\<close>

text \<open>
  The float64 detour of the update handlers is exact below \<open>2^53\<close>: such an
  integer decodes into \<open>interface{}\<close> without a range error, and marshalling it again
  gives the integer back.
  Above, it is not: \<open>2^53 + 1\<close> comes back as \<open>2^53\<close> (see \<open>update_route_timeout_float\<close>).
\<close>

theorem float_text_round_exact:
  assumes "\<bar>n\<bar> < 2 ^ 53"
  shows "\<not> f64_overflows n \<and> float_text (round_f64 n) = n"
proof -
  from assms have small: "nat \<bar>n\<bar> < 2 ^ 53" by (simp add: nat_less_iff)
  then have "\<not> f64_overflows n" by (simp add: f64_overflows_def)
  moreover from small have "shortest_from 20 (nat \<bar>n\<bar>) = nat \<bar>n\<bar>" by (rule shortest_from_small)
  with assms have "float_text (round_f64 n) = n"
    by (simp add: float_text_def sgn_mult_abs del: shortest_from_numeral float_text_small)
  ultimately show ?thesis ..
qed

theorem float_text_round_exact_witness:
  "\<not> f64_overflows 5000 \<and> float_text (round_f64 5000) = 5000"
  using float_text_round_exact [of 5000] by simp

end
