(* ===== verification/Strconv.thy ===== *)
theory Strconv
  imports Prelude
begin

text \<open>
  The parts of Go's standard library the handlers call to read URL data:
  \<open>strconv.ParseBool\<close> (the \<open>enabled\<close> filter), \<open>strconv.ParseUint(s, 10, 32)\<close>
  (route and history ids), \<open>strconv.Atoi\<close> (\<open>limit\<close> and \<open>offset\<close>) and the
  \<open>Get\<close>/\<open>Has\<close> methods of \<open>url.Values\<close>. They are library code, not under
  \<open>src/\<close>; they are modelled from the Go documentation because every guard of the
  handlers depends on them. A query string is the list of its decoded
  \<open>key=value\<close> pairs in order of appearance.
\<close>

section \<open>Decimal digits\<close>

definition is_digit :: "char \<Rightarrow> bool" where
  "is_digit c \<longleftrightarrow> CHR ''0'' \<le> c \<and> c \<le> CHR ''9''"

definition digit_val :: "char \<Rightarrow> nat" where
  "digit_val c = of_char c - of_char CHR ''0''"

definition dec_val :: "string \<Rightarrow> nat" where
  "dec_val s = foldl (\<lambda>acc c. 10 * acc + digit_val c) 0 s"

definition all_digits :: "string \<Rightarrow> bool" where
  "all_digits s \<longleftrightarrow> s \<noteq> [] \<and> list_all is_digit s"

section \<open>strconv.ParseBool\<close>

definition parse_bool :: "string \<Rightarrow> bool option" where
  "parse_bool s =
     (if s \<in> set [''1'', ''t'', ''T'', ''TRUE'', ''true'', ''True''] then Some True
      else if s \<in> set [''0'', ''f'', ''F'', ''FALSE'', ''false'', ''False''] then Some False
      else None)"

section \<open>strconv.ParseUint(s, 10, 32)\<close>

text \<open>Base 10 allows no sign, no underscore and no prefix; the value must fit in 32 bits.\<close>

definition parse_uint32 :: "string \<Rightarrow> nat option" where
  "parse_uint32 s =
     (if all_digits s \<and> dec_val s < 2 ^ 32 then Some (dec_val s) else None)"

section \<open>strconv.Atoi\<close>

text \<open>An optional sign, then decimal digits; the value must fit in Go's 64-bit \<open>int\<close>.\<close>

definition parse_int :: "string \<Rightarrow> int option" where
  "parse_int s =
     (let (neg, ds) = (case s of
                         c # cs \<Rightarrow> (if c = CHR ''-'' then (True, cs)
                                    else if c = CHR ''+'' then (False, cs) else (False, s))
                       | [] \<Rightarrow> (False, []));
          v = (if neg then - int (dec_val ds) else int (dec_val ds))
      in if all_digits ds \<and> - (2 ^ 63) \<le> v \<and> v < 2 ^ 63 then Some v else None)"

section \<open>strconv.FormatUint: the printer the parsers invert\<close>

fun format_uint :: "nat \<Rightarrow> string" where
  "format_uint n =
     (if n < 10 then [''0123456789'' ! n]
      else format_uint (n div 10) @ [''0123456789'' ! (n mod 10)])"

declare format_uint.simps [simp del]

section \<open>url.Values\<close>

definition query_get :: "(string \<times> string) list \<Rightarrow> string \<Rightarrow> string" where
  "query_get q k = (case find (\<lambda>p. fst p = k) q of Some p \<Rightarrow> snd p | None \<Rightarrow> [])"

definition query_has :: "(string \<times> string) list \<Rightarrow> string \<Rightarrow> bool" where
  "query_has q k = list_ex (\<lambda>p. fst p = k) q"

section \<open>Properties\<close>

lemma digit_char_cases:
  "d < (10::nat) \<Longrightarrow> d \<in> {0, 1, 2, 3, 4, 5, 6, 7, 8, 9}"
  by auto

lemma digit_val_char [simp]: "d < (10::nat) \<Longrightarrow> digit_val (''0123456789'' ! d) = d"
  by (drule digit_char_cases) (auto simp: digit_val_def)

lemma is_digit_char [simp]: "d < (10::nat) \<Longrightarrow> is_digit (''0123456789'' ! d)"
  by (drule digit_char_cases) (auto simp: is_digit_def)

lemma dec_val_snoc [simp]: "dec_val (s @ [c]) = 10 * dec_val s + digit_val c"
  by (simp add: dec_val_def)

lemma format_uint_nonempty: "format_uint n \<noteq> []"
  by (subst format_uint.simps) simp

lemma format_uint_digits: "list_all is_digit (format_uint n)"
proof (induction n rule: format_uint.induct)
  case (1 n)
  then show ?case by (subst format_uint.simps) simp
qed

lemma dec_val_format_uint: "dec_val (format_uint n) = n"
proof (induction n rule: format_uint.induct)
  case (1 n)
  show ?case
  proof (cases "n < 10")
    case True
    then show ?thesis by (subst format_uint.simps) (simp add: dec_val_def)
  next
    case False
    with "1.IH" show ?thesis by (subst format_uint.simps) simp
  qed
qed

lemma dec_val_bound: "list_all is_digit s \<Longrightarrow> dec_val s < 10 ^ length s"
proof (induction s rule: rev_induct)
  case Nil
  then show ?case by (simp add: dec_val_def)
next
  case (snoc c s)
  then have "dec_val s < 10 ^ length s" and "digit_val c < 10"
    by (auto simp: is_digit_def digit_val_def less_eq_char_def)
  then show ?case by simp
qed

text \<open>
  Route and history ids survive the round trip through their decimal text: parsing
  the printed form of a number gives the number back exactly when it fits in 32 bits,
  and is refused otherwise.
\<close>

theorem parse_uint32_format_uint:
  "parse_uint32 (format_uint n) = (if n < 2 ^ 32 then Some n else None)"
  using format_uint_nonempty [of n] format_uint_digits [of n] dec_val_format_uint [of n]
  by (simp add: parse_uint32_def all_digits_def)

end

