(* ===== verification/Http.thy ===== *)
theory Http
  imports Store Json Strconv
begin

text \<open>
  What the handlers of \<open>internal/handler\<close> see of an HTTP exchange, and the audit
  recorder they share. A request is the chi URL parameter (\<open>{name}\<close> or \<open>{id}\<close>),
  the decoded query pairs, the value of \<open>r.Header.Get("X-Operator")\<close> and the body.
  A response is a status code and what was written: the message of
  \<open>http.Error\<close>, or the JSON encoding of an entity, a list, or the history page.
  The context gives, for each store operation, the fault the database call meets in
  this request, and the parser of JSON time strings.
\<close>

record request =
  rq_param :: string
  rq_query :: "(string \<times> string) list"
  rq_operator :: string
  rq_body :: body_in

record ctx =
  cx_faults :: "store_op \<Rightarrow> fault"
  cx_time :: time_parser

text \<open>
  \<open>OutNull\<close> is what \<open>json.Encoder\<close> writes for a nil slice: a list query that finds
  no row answers \<open>null\<close>, not \<open>[]\<close>.
\<close>

datatype body_out =
    OutText string
  | OutBackend backend
  | OutBackends "backend list"
  | OutRoute route
  | OutRoutes "route list"
  | OutHistory "config_history list" nat int int
  | OutNull
  | OutEmpty
  | OutRaw string

datatype response = Response nat body_out

definition status :: "response \<Rightarrow> nat" where
  "status rs = (case rs of Response c _ \<Rightarrow> c)"

definition internal_error :: response where
  "internal_error = Response 500 (OutText ''internal server error'')"

definition no_faults :: "store_op \<Rightarrow> fault" where
  "no_faults = (\<lambda>_. NoFault)"

text \<open>
  The \<open>enabled\<close> query parameter of the list handlers: absent or empty means no
  filter (\<open>Some None\<close>), otherwise it must parse with \<open>strconv.ParseBool\<close>
  (\<open>None\<close> is the 400 answer).
\<close>

definition enabled_filter :: "(string \<times> string) list \<Rightarrow> bool option option" where
  "enabled_filter q =
     (let p = query_get q ''enabled''
      in if p = [] then Some None
         else (case parse_bool p of None \<Rightarrow> None | Some e \<Rightarrow> Some (Some e)))"

text \<open>
  How the update and delete handlers report a failed store call: the message
  \<open>errors.New\<close> gave for a missing row becomes 404, anything else 500.
\<close>

definition store_failure :: "string \<Rightarrow> store_err \<Rightarrow> response" where
  "store_failure msg e = (if e = ErrText msg then Response 404 (OutText msg) else internal_error)"

section \<open>The audit recorder\<close>

text \<open>
  \<open>recordHistory\<close> (identical in \<open>BackendHandler\<close> and \<open>RouteHandler\<close>): builds a
  \<open>ConfigHistory\<close> with the snapshots, the config id and the operator, and calls
  \<open>CreateHistory\<close>. An error is only logged: the handler's response does not depend
  on it, and no retry is made.
\<close>

definition record_history :: "ctx \<Rightarrow> string \<Rightarrow> row_id \<Rightarrow> string \<Rightarrow> snapshot option \<Rightarrow>
    snapshot option \<Rightarrow> request \<Rightarrow> db \<Rightarrow> db" where
  "record_history c ty cid op old new rq d =
     snd (create_history (cx_faults c OpCreateHistory)
       \<lparr>h_id = 0, h_config_type = ty, h_config_id = Some cid, h_operation = op,
        h_old_value = old, h_new_value = new, h_operator = rq_operator rq, h_created_at = 0\<rparr> d)"

text \<open>
  \<open>RouteHandler.recordHistory\<close> (\<open>route.go\<close>) is a separate method with the same body;
  the route handlers call it.
\<close>

definition route_record_history :: "ctx \<Rightarrow> string \<Rightarrow> row_id \<Rightarrow> string \<Rightarrow> snapshot option \<Rightarrow>
    snapshot option \<Rightarrow> request \<Rightarrow> db \<Rightarrow> db" where
  "route_record_history c ty cid op old new rq d =
     snd (create_history (cx_faults c OpCreateHistory)
       \<lparr>h_id = 0, h_config_type = ty, h_config_id = Some cid, h_operation = op,
        h_old_value = old, h_new_value = new, h_operator = rq_operator rq, h_created_at = 0\<rparr> d)"

text \<open>The entry the recorder appends when the insert succeeds.\<close>

definition history_entry :: "string \<Rightarrow> row_id \<Rightarrow> string \<Rightarrow> snapshot option \<Rightarrow>
    snapshot option \<Rightarrow> string \<Rightarrow> db \<Rightarrow> config_history" where
  "history_entry ty cid op old new opr d =
     \<lparr>h_id = db_next_history d, h_config_type = ty, h_config_id = Some cid, h_operation = op,
      h_old_value = old, h_new_value = new, h_operator = opr, h_created_at = db_clock d\<rparr>"

text \<open>The two recorders are the same function, so the lemmas below serve both.\<close>

lemma route_record_history_eq [simp]: "route_record_history = record_history"
  by (simp add: fun_eq_iff route_record_history_def record_history_def)

lemma status_Response [simp]: "status (Response n b) = n"
  by (simp add: status_def)

lemma store_failure_4xx:
  "status (store_failure msg e) \<noteq> 500 \<Longrightarrow> e = ErrText msg"
  by (simp add: store_failure_def internal_error_def split: if_splits)

lemma record_history_ok:
  "cx_faults c OpCreateHistory \<noteq> ExecFails \<Longrightarrow>
   record_history c ty cid op old new rq d =
     d\<lparr>db_history := db_history d @ [history_entry ty cid op old new (rq_operator rq) d],
       db_next_history := Suc (db_next_history d)\<rparr>"
  by (simp add: record_history_def create_history_def history_entry_def)

lemma record_history_fails:
  "cx_faults c OpCreateHistory = ExecFails \<Longrightarrow> record_history c ty cid op old new rq d = d"
  by (simp add: record_history_def create_history_def)

lemma record_history_tables [simp]:
  "db_backends (record_history c ty cid op old new rq d) = db_backends d"
  "db_routes (record_history c ty cid op old new rq d) = db_routes d"
  "db_clock (record_history c ty cid op old new rq d) = db_clock d"
  "db_next_backend (record_history c ty cid op old new rq d) = db_next_backend d"
  "db_next_route (record_history c ty cid op old new rq d) = db_next_route d"
  by (simp_all add: record_history_def create_history_def)

lemma record_history_prefix:
  "prefix (db_history d) (db_history (record_history c ty cid op old new rq d))"
  by (simp add: record_history_def create_history_def)

end
