(* ===== verification/Backend_Handler.thy ===== *)
theory Backend_Handler
  imports Http
begin

text \<open>
  \<open>BackendHandler\<close> of \<open>internal/handler/backend.go\<close>: the five endpoints under
  \<open>/api/v1/backends\<close>. Each handler is a function of the context, the request and the
  database; the mutating ones return the response and the new database, every store
  call and the audit record included, with the guards and early returns of the Go code
  in its order. The update-merge policy (lines 158--181) is its own definition.
\<close>

section \<open>Handlers\<close>

definition handle_list_backends :: "ctx \<Rightarrow> request \<Rightarrow> db \<Rightarrow> response" where
  "handle_list_backends c rq d =
     (case enabled_filter (rq_query rq) of
        None \<Rightarrow> Response 400 (OutText ''invalid enabled parameter'')
      | Some en \<Rightarrow> (case get_backends (cx_faults c OpGetBackends) en d of
          Inl _ \<Rightarrow> internal_error
        | Inr bs \<Rightarrow> Response 200 (if bs = [] then OutNull else OutBackends bs)))"

definition handle_get_backend :: "ctx \<Rightarrow> request \<Rightarrow> db \<Rightarrow> response" where
  "handle_get_backend c rq d =
     (case get_backend_by_name (cx_faults c OpGetBackendByName) (rq_param rq) d of
        Inl _ \<Rightarrow> internal_error
      | Inr None \<Rightarrow> Response 404 (OutText ''backend not found'')
      | Inr (Some b) \<Rightarrow> Response 200 (OutBackend b))"

text \<open>
  \<open>CreateBackend\<close>: decode, require name and address, refuse an existing name, default
  \<open>Enabled\<close> to true unless the URL has an \<open>enabled\<close> query parameter, insert,
  record. Note that the default is decided by the URL, not by the body.
\<close>

definition handle_create_backend :: "ctx \<Rightarrow> request \<Rightarrow> db \<Rightarrow> response \<times> db" where
  "handle_create_backend c rq d =
     (case decode_backend_body (cx_time c) (rq_body rq) of
        Inl _ \<Rightarrow> (Response 400 (OutText ''invalid json''), d)
      | Inr b \<Rightarrow>
          if b_name b = [] then (Response 400 (OutText ''name is required''), d)
          else if b_addr b = [] then (Response 400 (OutText ''addr is required''), d)
          else (case get_backend_by_name (cx_faults c OpGetBackendByName) (b_name b) d of
            Inl _ \<Rightarrow> (internal_error, d)
          | Inr (Some _) \<Rightarrow> (Response 409 (OutText ''backend already exists''), d)
          | Inr None \<Rightarrow>
              (let b1 = (if query_has (rq_query rq) ''enabled'' then b else b\<lparr>b_enabled := True\<rparr>)
               in case create_backend (cx_faults c OpCreateBackend) b1 d of
                    (Inl _, d1) \<Rightarrow> (internal_error, d1)
                  | (Inr b2, d1) \<Rightarrow>
                      (Response 201 (OutBackend b2),
                       record_history c ''backend'' (b_id b2) ''CREATE'' None
                         (Some (SnapBackend b2)) rq d1))))"

text \<open>
  The merge of an update payload with the stored backend: the payload, as a Go map,
  is re-encoded and decoded into a zero \<open>Backend\<close>; \<open>Enabled\<close> is the payload's
  when the key \<open>enabled\<close> is present (\<open>false\<close> unless its value is a boolean) and
  the stored one otherwise. Every other field is the payload's, or its zero value.
\<close>

definition merge_backend_update ::
  "time_parser \<Rightarrow> backend \<Rightarrow> (string \<times> jval) list \<Rightarrow> unit + backend" where
  "merge_backend_update tp old m =
     (let en = map_index m ''enabled''
      in case remarshal backend_tags (set_backend_field tp) m zero_backend of
           Inl e \<Rightarrow> Inl e
         | Inr b \<Rightarrow> Inr (b\<lparr>b_enabled :=
              (case en of None \<Rightarrow> b_enabled old | Some (JBool v) \<Rightarrow> v | Some _ \<Rightarrow> False)\<rparr>))"

definition handle_update_backend :: "ctx \<Rightarrow> request \<Rightarrow> db \<Rightarrow> response \<times> db" where
  "handle_update_backend c rq d =
     (let name = rq_param rq in
      case get_backend_by_name (cx_faults c OpGetBackendByName) name d of
        Inl _ \<Rightarrow> (internal_error, d)
      | Inr None \<Rightarrow> (Response 404 (OutText ''backend not found''), d)
      | Inr (Some old) \<Rightarrow>
          (case decode_map_body (rq_body rq) of
             Inl _ \<Rightarrow> (Response 400 (OutText ''invalid json''), d)
           | Inr m \<Rightarrow> (case merge_backend_update (cx_time c) old m of
               Inl _ \<Rightarrow> (Response 400 (OutText ''invalid json''), d)
             | Inr b \<Rightarrow>
                 if b_addr b = [] then (Response 400 (OutText ''addr is required''), d)
                 else (case update_backend (cx_faults c OpUpdateBackend) name
                              (b\<lparr>b_id := b_id old, b_name := name\<rparr>) d of
                   (Inl e, d1) \<Rightarrow> (store_failure ''backend not found'' e, d1)
                 | (Inr b2, d1) \<Rightarrow>
                     (Response 200 (OutBackend b2),
                      record_history c ''backend'' (b_id b2) ''UPDATE'' (Some (SnapBackend old))
                        (Some (SnapBackend b2)) rq d1)))))"

text \<open>
  \<open>DeleteBackend\<close>: the audit record's old value is the stored backend with
  \<open>Enabled\<close> already set to false (line 242), and there is no new value.
\<close>

definition handle_delete_backend :: "ctx \<Rightarrow> request \<Rightarrow> db \<Rightarrow> response \<times> db" where
  "handle_delete_backend c rq d =
     (let name = rq_param rq in
      case get_backend_by_name (cx_faults c OpGetBackendByName) name d of
        Inl _ \<Rightarrow> (internal_error, d)
      | Inr None \<Rightarrow> (Response 404 (OutText ''backend not found''), d)
      | Inr (Some old) \<Rightarrow>
          (case delete_backend (cx_faults c OpDeleteBackend) name d of
             (Inl e, d1) \<Rightarrow> (store_failure ''backend not found'' e, d1)
           | (Inr _, d1) \<Rightarrow>
               (Response 204 OutEmpty,
                record_history c ''backend'' (b_id old) ''DELETE''
                  (Some (SnapBackend (old\<lparr>b_enabled := False\<rparr>))) None rq d1)))"

declare handle_create_backend_def [handler_defs] handle_update_backend_def [handler_defs]
  handle_delete_backend_def [handler_defs]

section \<open>Example data\<close>

text \<open>The configuration of the spec's end-to-end scenario, used by the witnesses.\<close>

definition ex_ctx :: ctx where
  "ex_ctx = \<lparr>cx_faults = no_faults, cx_time = (\<lambda>_. None)\<rparr>"

definition ex_request :: "string \<Rightarrow> (string \<times> string) list \<Rightarrow> jval \<Rightarrow> request" where
  "ex_request p q v = \<lparr>rq_param = p, rq_query = q, rq_operator = ''admin'', rq_body = BodyJson v\<rparr>"

definition ex_account :: backend where
  "ex_account = \<lparr>b_id = 1, b_name = ''account'', b_addr = ''127.0.0.1:50051'',
     b_description = ''Account service'', b_enabled = True, b_created_at = 1, b_updated_at = 1\<rparr>"

definition ex_db :: db where
  "ex_db = empty_db\<lparr>db_backends := [ex_account], db_next_backend := 2, db_clock := 5\<rparr>"

definition ex_create_body :: jval where
  "ex_create_body = JObj [(''name'', JStr ''account''), (''addr'', JStr ''127.0.0.1:50051''),
     (''enabled'', JBool False)]"

text \<open>The row \<open>CreateBackend\<close> inserts for a decoded payload.\<close>

definition created_backend :: "request \<Rightarrow> backend \<Rightarrow> db \<Rightarrow> backend" where
  "created_backend rq b d =
     backend_row (if query_has (rq_query rq) ''enabled'' then b else b\<lparr>b_enabled := True\<rparr>)
       (db_next_backend d) (db_clock d)"

text \<open>The payload of the spec's scenario, as decoded, and the rows the update examples produce.\<close>

definition ex_decoded :: backend where
  "ex_decoded = zero_backend\<lparr>b_name := ''account'', b_addr := ''127.0.0.1:50051''\<rparr>"

definition ex_updated :: "bool \<Rightarrow> backend" where
  "ex_updated e = ex_account\<lparr>b_addr := ''127.0.0.1:9999'', b_description := [], b_enabled := e,
     b_created_at := 0, b_updated_at := 5\<rparr>"

text \<open>A context whose store meets one fault, and the request that deletes \<open>account\<close>.\<close>

definition ex_fault_ctx :: "store_op \<Rightarrow> fault \<Rightarrow> ctx" where
  "ex_fault_ctx op f = ex_ctx\<lparr>cx_faults := no_faults(op := f)\<rparr>"

definition ex_delete :: request where
  "ex_delete = ex_request ''account'' [] JNull"

lemmas backend_eval = ex_ctx_def ex_request_def ex_account_def ex_db_def ex_create_body_def
  empty_db_def no_faults_def decode_backend_body_def backend_tags_def field_of_key_def
  store_field_def zero_backend_def ascii_upper_def query_has_def created_backend_def backend_row_def
  ex_decoded_def

lemmas backend_update_eval = backend_eval Let_def handle_update_backend_def get_backend_by_name_def
  update_backend_def merge_backend_update_def decode_map_body_def go_map_def map_index_def
  remarshal_def backend_set_def changed_rows_def ex_updated_def

section \<open>Creating a backend\<close>

lemma handle_create_backend_ok:
  assumes "cx_faults c OpGetBackendByName = NoFault" and "cx_faults c OpCreateBackend = NoFault"
    and "decode_backend_body (cx_time c) (rq_body rq) = Inr b"
    and "b_name b \<noteq> []" and "b_addr b \<noteq> []"
    and "find (\<lambda>x. b_name x = b_name b) (db_backends d) = None"
  shows "handle_create_backend c rq d =
    (Response 201 (OutBackend (created_backend rq b d)),
     record_history c ''backend'' (db_next_backend d) ''CREATE'' None
       (Some (SnapBackend (created_backend rq b d))) rq
       (d\<lparr>db_backends := db_backends d @ [created_backend rq b d],
          db_next_backend := Suc (db_next_backend d)\<rparr>))"
  using assms
  by (simp add: handle_create_backend_def get_backend_by_name_def create_backend_def
      created_backend_def backend_row_def Let_def)

lemma ex_create_decoded:
  "decode_backend_body (cx_time ex_ctx) (rq_body (ex_request [] [] ex_create_body)) =
   Inr (zero_backend\<lparr>b_name := ''account'', b_addr := ''127.0.0.1:50051'', b_enabled := False\<rparr>)"
  by (simp add: backend_eval)

lemma ex_ctx_faults [simp]: "cx_faults ex_ctx = no_faults"
  by (simp add: ex_ctx_def)

text \<open>
  C1. A successful creation answers 201 with the inserted row, appends exactly that row to
  the backends table and exactly one history entry, of type \<open>backend\<close>, operation
  \<open>CREATE\<close>, with the row's id, no old value and the row as new value.
\<close>

theorem create_backend_success:
  assumes "cx_faults c = no_faults"
    and "decode_backend_body (cx_time c) (rq_body rq) = Inr b"
    and "b_name b \<noteq> []" and "b_addr b \<noteq> []"
    and "find (\<lambda>x. b_name x = b_name b) (db_backends d) = None"
    and "handle_create_backend c rq d = (rs, d')"
  shows "\<exists>row h. rs = Response 201 (OutBackend row) \<and>
           db_backends d' = db_backends d @ [row] \<and> db_history d' = db_history d @ [h] \<and>
           h_config_type h = ''backend'' \<and> h_operation h = ''CREATE'' \<and>
           h_config_id h = Some (b_id row) \<and> h_old_value h = None \<and>
           h_new_value h = Some (SnapBackend row)"
proof -
  have f: "cx_faults c OpGetBackendByName = NoFault" "cx_faults c OpCreateBackend = NoFault"
    "cx_faults c OpCreateHistory \<noteq> ExecFails"
    using assms(1) by (simp_all add: no_faults_def)
  show ?thesis
    using handle_create_backend_ok [OF f(1,2) assms(2-5)] assms(6) record_history_ok [OF f(3)]
    by (simp add: history_entry_def created_backend_def backend_row_def)
qed

theorem create_backend_success_witness:
  "\<exists>row h. fst (handle_create_backend ex_ctx (ex_request [] [] ex_create_body) empty_db) =
       Response 201 (OutBackend row) \<and>
     db_backends (snd (handle_create_backend ex_ctx (ex_request [] [] ex_create_body) empty_db)) =
       [] @ [row] \<and>
     db_history (snd (handle_create_backend ex_ctx (ex_request [] [] ex_create_body) empty_db)) =
       [] @ [h] \<and>
     h_config_type h = ''backend'' \<and> h_operation h = ''CREATE'' \<and>
     h_config_id h = Some (b_id row) \<and> h_old_value h = None \<and> h_new_value h = Some (SnapBackend row)"
  using create_backend_success [OF ex_ctx_faults ex_create_decoded _ _ _ surjective_pairing,
      where d = empty_db]
  by (simp add: empty_db_def)

text \<open>
  Reading a backend back by name right after creating it returns a record equal to
  the input on name, address and description, with the id the store assigned.
\<close>

theorem create_then_get:
  assumes "cx_faults c = no_faults"
    and "decode_backend_body (cx_time c) (rq_body rq) = Inr b"
    and "b_name b \<noteq> []" and "b_addr b \<noteq> []"
    and "find (\<lambda>x. b_name x = b_name b) (db_backends d) = None"
  shows "\<exists>row. get_backend_by_name NoFault (b_name b) (snd (handle_create_backend c rq d)) =
                 Inr (Some row) \<and>
           b_name row = b_name b \<and> b_addr row = b_addr b \<and> b_description row = b_description b \<and>
           b_id row = db_next_backend d"
proof -
  have f: "cx_faults c OpGetBackendByName = NoFault" "cx_faults c OpCreateBackend = NoFault"
    using assms(1) by (simp_all add: no_faults_def)
  show ?thesis
    using handle_create_backend_ok [OF f assms(2-5)] assms(5)
    by (simp add: get_backend_by_name_def find_append_None created_backend_def backend_row_def)
qed

theorem create_then_get_witness:
  "\<exists>row. get_backend_by_name NoFault ''account''
            (snd (handle_create_backend ex_ctx (ex_request [] [] ex_create_body) empty_db)) =
          Inr (Some row) \<and>
        b_name row = ''account'' \<and> b_addr row = ''127.0.0.1:50051'' \<and> b_description row = [] \<and>
        b_id row = 1"
  using create_then_get [OF ex_ctx_faults ex_create_decoded, where d = empty_db]
  by (simp add: empty_db_def zero_backend_def)

text \<open>
  C3. Creating a backend whose name is already taken (exact, case-sensitive match) is
  answered 409 and changes nothing.
\<close>

theorem create_backend_conflict:
  assumes "cx_faults c OpGetBackendByName = NoFault"
    and "decode_backend_body (cx_time c) (rq_body rq) = Inr b"
    and "b_name b \<noteq> []" and "b_addr b \<noteq> []"
    and "find (\<lambda>x. b_name x = b_name b) (db_backends d) = Some x"
  shows "handle_create_backend c rq d = (Response 409 (OutText ''backend already exists''), d)"
  using assms by (simp add: handle_create_backend_def get_backend_by_name_def)

theorem create_backend_conflict_witness:
  "handle_create_backend ex_ctx (ex_request [] [] ex_create_body) ex_db =
   (Response 409 (OutText ''backend already exists''), ex_db)"
  by (rule create_backend_conflict [OF _ ex_create_decoded])
     (simp_all add: backend_eval)

section \<open>The update-merge policy\<close>

lemma merge_backend_update_Inr:
  "merge_backend_update tp old m = Inr b \<Longrightarrow>
   \<exists>p. decode_members backend_tags (set_backend_field tp) (map (\<lambda>(k, v). (k, marshal_val v)) m) zero_backend = Inr p \<and>
       b = p\<lparr>b_enabled := (case map_of m ''enabled'' of None \<Rightarrow> b_enabled old
                           | Some (JBool v) \<Rightarrow> v | Some _ \<Rightarrow> False)\<rparr>"
  by (auto simp: merge_backend_update_def remarshal_def map_index_def split: sum.splits)

text \<open>What a 200 answer of \<open>UpdateBackend\<close> tells about the path the handler took.\<close>

lemma handle_update_backend_200:
  assumes "handle_update_backend c rq d = (Response 200 body, d')"
  shows "\<exists>old m b. find (\<lambda>x. b_name x = rq_param rq) (db_backends d) = Some old \<and>
           decode_map_body (rq_body rq) = Inr m \<and> merge_backend_update (cx_time c) old m = Inr b \<and>
           b_addr b \<noteq> [] \<and>
           body = OutBackend (b\<lparr>b_id := b_id old, b_name := rq_param rq, b_updated_at := db_clock d\<rparr>) \<and>
           db_backends d' =
             update_where (\<lambda>r. b_name r = rq_param rq) (backend_set b (db_clock d)) (db_backends d)"
proof -
  let ?n = "rq_param rq"
  let ?f = "cx_faults c"
  from assms obtain old where old: "get_backend_by_name (?f OpGetBackendByName) ?n d = Inr (Some old)"
    by (cases "get_backend_by_name (?f OpGetBackendByName) ?n d" rule: sum.exhaust)
       (auto simp: handle_update_backend_def Let_def internal_error_def split: option.splits)
  from assms old obtain m where m: "decode_map_body (rq_body rq) = Inr m"
    by (cases "decode_map_body (rq_body rq)") (auto simp: handle_update_backend_def Let_def)
  from assms old m obtain b where b: "merge_backend_update (cx_time c) old m = Inr b"
    by (cases "merge_backend_update (cx_time c) old m") (auto simp: handle_update_backend_def Let_def)
  from assms old m b have a: "b_addr b \<noteq> []"
    by (auto simp: handle_update_backend_def Let_def)
  obtain r d1 where u: "update_backend (?f OpUpdateBackend) ?n (b\<lparr>b_id := b_id old, b_name := ?n\<rparr>) d = (r, d1)"
    by (cases "update_backend (?f OpUpdateBackend) ?n (b\<lparr>b_id := b_id old, b_name := ?n\<rparr>) d")
  from assms old m b a u obtain b2 where r: "r = Inr b2"
    and res: "body = OutBackend b2"
    and d': "d' = record_history c ''backend'' (b_id b2) ''UPDATE'' (Some (SnapBackend old)) (Some (SnapBackend b2)) rq d1"
    by (cases r) (auto simp: handle_update_backend_def Let_def store_failure_def internal_error_def split: if_splits)
  from u r have "b2 = b\<lparr>b_id := b_id old, b_name := ?n, b_updated_at := db_clock d\<rparr> \<and>
      db_backends d1 = update_where (\<lambda>r. b_name r = ?n) (backend_set b (db_clock d)) (db_backends d)"
    by (auto simp: update_backend_def Let_def split: if_splits)
  with old m b a res d' show ?thesis
    by (auto simp: get_backend_by_name_def split: if_splits)
qed

lemma update_where_backend_set:
  "x \<in> set (update_where (\<lambda>r. b_name r = n) (backend_set b t) rows) \<Longrightarrow> b_name x = n \<Longrightarrow>
   b_enabled x = b_enabled b \<and> b_description x = b_description b \<and> b_addr x = b_addr b"
proof -
  assume x: "x \<in> set (update_where (\<lambda>r. b_name r = n) (backend_set b t) rows)" and n: "b_name x = n"
  from update_where_in_set [OF x] obtain y where
    y: "x = (if b_name y = n then backend_set b t y else y)" by blast
  show ?thesis
  proof (cases "b_name y = n")
    case True
    with y show ?thesis by simp
  next
    case False
    with y n show ?thesis by simp
  qed
qed

text \<open>
  C6. An update whose payload omits \<open>enabled\<close> keeps the stored value; one that gives
  \<open>enabled\<close> as a boolean applies it, \<open>false\<close> included. The answer and every stored
  row of that name agree.
\<close>

theorem update_backend_enabled:
  assumes ok: "handle_update_backend c rq d = (Response 200 (OutBackend b2), d')"
    and body: "rq_body rq = BodyJson (JObj ms)"
    and old: "find (\<lambda>x. b_name x = rq_param rq) (db_backends d) = Some old"
  shows "b_enabled b2 = (case map_of (rev ms) ''enabled'' of None \<Rightarrow> b_enabled old
                         | Some (JBool v) \<Rightarrow> v | Some _ \<Rightarrow> False) \<and>
         (\<forall>x \<in> set (db_backends d'). b_name x = rq_param rq \<longrightarrow> b_enabled x = b_enabled b2)"
proof -
  obtain old' m b where
    o: "find (\<lambda>x. b_name x = rq_param rq) (db_backends d) = Some old'"
    and m: "decode_map_body (rq_body rq) = Inr m"
    and mg: "merge_backend_update (cx_time c) old' m = Inr b"
    and b2: "b2 = b\<lparr>b_id := b_id old', b_name := rq_param rq, b_updated_at := db_clock d\<rparr>"
    and rows: "db_backends d' =
      update_where (\<lambda>r. b_name r = rq_param rq) (backend_set b (db_clock d)) (db_backends d)"
    using handle_update_backend_200 [OF ok] by auto
  from o old have "old' = old" by simp
  from body m have mm: "m = go_map (map (\<lambda>(k, v). (k, float_val v)) ms)"
    by (simp add: decode_map_body_obj)
  from mg \<open>old' = old\<close> obtain p where
    bp: "b = p\<lparr>b_enabled := (case map_of m ''enabled'' of None \<Rightarrow> b_enabled old
                          | Some (JBool v) \<Rightarrow> v | Some _ \<Rightarrow> False)\<rparr>"
    using merge_backend_update_Inr by blast
  from mm have ev: "map_of m ''enabled'' = map_option float_val (map_of (rev ms) ''enabled'')"
    by (simp add: map_of_go_map_float)
  from bp have
    "b = p\<lparr>b_enabled := (case map_of (rev ms) ''enabled'' of None \<Rightarrow> b_enabled old
                          | Some (JBool v) \<Rightarrow> v | Some _ \<Rightarrow> False)\<rparr>"
    by (simp only: ev float_val_bool_case)
  with b2 rows show ?thesis
    using update_where_backend_set by auto
qed

text \<open>
  C7. Contrary to the overwrite-if-present rule of the spec's merge policy, an update
  whose payload has no key matching \<open>description\<close> erases the stored description:
  the answer and the stored row carry the empty string.
\<close>

theorem update_backend_clears_description:
  assumes ok: "handle_update_backend c rq d = (Response 200 (OutBackend b2), d')"
    and body: "rq_body rq = BodyJson (JObj ms)"
    and nodesc: "\<forall>kv \<in> set ms. fold_name (fst kv) \<noteq> ''DESCRIPTION''"
  shows "b_description b2 = [] \<and>
         (\<forall>x \<in> set (db_backends d'). b_name x = rq_param rq \<longrightarrow> b_description x = [])"
proof -
  obtain old' m b where
    m: "decode_map_body (rq_body rq) = Inr m"
    and mg: "merge_backend_update (cx_time c) old' m = Inr b"
    and b2: "b2 = b\<lparr>b_id := b_id old', b_name := rq_param rq, b_updated_at := db_clock d\<rparr>"
    and rows: "db_backends d' =
      update_where (\<lambda>r. b_name r = rq_param rq) (backend_set b (db_clock d)) (db_backends d)"
    using handle_update_backend_200 [OF ok] by auto
  from body m have mb: "decode_map_body (BodyJson (JObj ms)) = Inr m" by simp
  from mg obtain p where dec: "decode_members backend_tags (set_backend_field (cx_time c))
      (map (\<lambda>(k, v). (k, marshal_val v)) m) zero_backend = Inr p"
    and bp: "b_description b = b_description p"
    using merge_backend_update_Inr by fastforce
  have keys: "\<forall>kv \<in> set (map (\<lambda>(k, v). (k, marshal_val v)) m).
      field_of_key backend_tags (fst kv) \<noteq> Some BDescription"
  proof
    fix kv assume "kv \<in> set (map (\<lambda>(k, v). (k, marshal_val v)) m)"
    with mb have "fst kv \<in> fst ` set ms" by (rule keys_update_map)
    with nodesc show "field_of_key backend_tags (fst kv) \<noteq> Some BDescription"
      using backend_description_key by force
  qed
  have "b_description p = b_description zero_backend"
    by (rule decode_members_frame [where proj = b_description and F = BDescription,
          OF set_backend_field_description keys dec])
  with bp have "b_description b = []" by (simp add: zero_backend_def)
  with b2 rows show ?thesis
    using update_where_backend_set by auto
qed


lemma ex_update_keep:
  "handle_update_backend ex_ctx (ex_request ''account'' [] (JObj [(''addr'', JStr ''127.0.0.1:9999'')])) ex_db =
   (Response 200 (OutBackend (ex_updated True)),
    snd (handle_update_backend ex_ctx (ex_request ''account'' [] (JObj [(''addr'', JStr ''127.0.0.1:9999'')])) ex_db))"
  by (simp add: backend_update_eval)

lemma ex_update_off:
  "handle_update_backend ex_ctx (ex_request ''account'' [] (JObj [(''addr'', JStr ''127.0.0.1:9999''), (''enabled'', JBool False)])) ex_db =
   (Response 200 (OutBackend (ex_updated False)),
    snd (handle_update_backend ex_ctx (ex_request ''account'' [] (JObj [(''addr'', JStr ''127.0.0.1:9999''), (''enabled'', JBool False)])) ex_db))"
  by (simp add: backend_update_eval)

theorem update_backend_enabled_witness:
  "b_enabled (ex_updated True) = b_enabled ex_account \<and> b_enabled (ex_updated False) = False"
proof -
  have o: "find (\<lambda>x. b_name x = rq_param (ex_request ''account'' [] v)) (db_backends ex_db) = Some ex_account" for v
    by (simp add: backend_eval)
  have "b_enabled (ex_updated True) = b_enabled ex_account"
    using update_backend_enabled [OF ex_update_keep _ o] by (simp add: ex_request_def)
  moreover have "b_enabled (ex_updated False) = False"
    using update_backend_enabled [OF ex_update_off _ o] by (simp add: ex_request_def)
  ultimately show ?thesis ..
qed

theorem update_backend_clears_description_witness:
  "b_description ex_account = ''Account service'' \<and> b_description (ex_updated True) = []"
  using update_backend_clears_description [OF ex_update_keep]
  by (simp add: ex_request_def ex_account_def ascii_upper_def)

section \<open>Deleting a backend\<close>

lemma handle_delete_backend_204:
  assumes "handle_delete_backend c rq d = (Response 204 body, d')"
  shows "\<exists>old. find (\<lambda>x. b_name x = rq_param rq) (db_backends d) = Some old \<and>
     0 < changed_rows (\<lambda>r. b_name r = rq_param rq) (backend_disable (db_clock d)) (db_backends d) \<and>
     d' = record_history c ''backend'' (b_id old) ''DELETE'' (Some (SnapBackend (old\<lparr>b_enabled := False\<rparr>)))
            None rq (d\<lparr>db_backends := update_where (\<lambda>r. b_name r = rq_param rq)
                                        (backend_disable (db_clock d)) (db_backends d)\<rparr>)"
proof -
  let ?n = "rq_param rq"
  let ?f = "cx_faults c"
  from assms obtain old where old: "get_backend_by_name (?f OpGetBackendByName) ?n d = Inr (Some old)"
    by (cases "get_backend_by_name (?f OpGetBackendByName) ?n d" rule: sum.exhaust)
       (auto simp: handle_delete_backend_def Let_def internal_error_def split: option.splits)
  obtain r d1 where u: "delete_backend (?f OpDeleteBackend) ?n d = (r, d1)"
    by (cases "delete_backend (?f OpDeleteBackend) ?n d")
  from assms old u have r: "r = Inr ()"
    and d': "d' = record_history c ''backend'' (b_id old) ''DELETE''
                    (Some (SnapBackend (old\<lparr>b_enabled := False\<rparr>))) None rq d1"
    by (cases r; auto simp: handle_delete_backend_def Let_def store_failure_def internal_error_def
        split: if_splits)+
  from u r have "0 < changed_rows (\<lambda>r. b_name r = ?n) (backend_disable (db_clock d)) (db_backends d) \<and>
      d1 = d\<lparr>db_backends := update_where (\<lambda>r. b_name r = ?n) (backend_disable (db_clock d)) (db_backends d)\<rparr>"
    by (auto simp: delete_backend_def Let_def split: if_splits)
  with old d' show ?thesis
    by (auto simp: get_backend_by_name_def split: if_splits)
qed

lemma find_after_disable:
  "find (\<lambda>x. b_name x = n) (db_backends d) = Some old \<Longrightarrow>
   find (\<lambda>x. b_name x = n) (update_where (\<lambda>r. b_name r = n) (backend_disable t) (db_backends d)) =
     Some (backend_disable t old)"
  using find_update_where_key [where p = "\<lambda>r. b_name r = n" and g = "backend_disable t" and k = b_name
      and v = n and xs = "db_backends d"]
  by (auto simp: backend_disable_def dest: find_Some_in_set)

text \<open>
  C5. Deleting a backend is a soft delete: a 204 answer leaves the number of rows as it
  was, and the backend, read back by name, is the stored one with \<open>enabled\<close> false and
  the update time set to the clock.
\<close>

theorem delete_backend_soft:
  assumes "handle_delete_backend c rq d = (Response 204 body, d')"
  shows "length (db_backends d') = length (db_backends d) \<and>
         (\<exists>old. find (\<lambda>x. b_name x = rq_param rq) (db_backends d) = Some old \<and>
            get_backend_by_name NoFault (rq_param rq) d' =
              Inr (Some (old\<lparr>b_enabled := False, b_updated_at := db_clock d\<rparr>)))"
proof -
  from handle_delete_backend_204 [OF assms] obtain old where
    o: "find (\<lambda>x. b_name x = rq_param rq) (db_backends d) = Some old"
    and d': "d' = record_history c ''backend'' (b_id old) ''DELETE'' (Some (SnapBackend (old\<lparr>b_enabled := False\<rparr>)))
            None rq (d\<lparr>db_backends := update_where (\<lambda>r. b_name r = rq_param rq)
                                        (backend_disable (db_clock d)) (db_backends d)\<rparr>)"
    by blast
  from find_after_disable [OF o] d' show ?thesis
    using o by (simp add: get_backend_by_name_def backend_disable_def)
qed

text \<open>
  C10. Contrary to the spec's idempotent delete, deleting the same backend again within
  the same clock second is answered 404 \<open>backend not found\<close>: the \<open>UPDATE\<close> changes
  no row, so \<open>RowsAffected\<close> is 0; nothing changes and nothing is recorded.
\<close>

theorem delete_backend_same_second:
  assumes first: "handle_delete_backend c rq d = (Response 204 body, d')"
    and f: "cx_faults c2 OpGetBackendByName = NoFault" "cx_faults c2 OpDeleteBackend = NoFault"
    and n: "rq_param rq2 = rq_param rq"
  shows "handle_delete_backend c2 rq2 d' = (Response 404 (OutText ''backend not found''), d')"
proof -
  let ?p = "\<lambda>r. b_name r = rq_param rq" and ?g = "backend_disable (db_clock d)"
  from handle_delete_backend_204 [OF first] obtain old where
    o: "find (\<lambda>x. b_name x = rq_param rq) (db_backends d) = Some old"
    and d': "d' = record_history c ''backend'' (b_id old) ''DELETE'' (Some (SnapBackend (old\<lparr>b_enabled := False\<rparr>)))
            None rq (d\<lparr>db_backends := update_where ?p ?g (db_backends d)\<rparr>)"
    by blast
  have rows: "db_backends d' = update_where ?p ?g (db_backends d)" and clk: "db_clock d' = db_clock d"
    using d' by simp_all
  have found: "find (\<lambda>x. b_name x = rq_param rq) (db_backends d') = Some (?g old)"
    using find_after_disable [OF o] rows by simp
  have none: "changed_rows ?p ?g (db_backends d') = 0"
    unfolding rows by (rule changed_rows_update_where_idem) (simp add: backend_disable_def)
  have same: "update_where ?p ?g (db_backends d') = db_backends d'"
    by (rule update_where_no_change [OF none])
  show ?thesis
    using found none same clk f n
    by (simp add: handle_delete_backend_def Let_def get_backend_by_name_def delete_backend_def
        store_failure_def)
qed

text \<open>
  Deleting an already disabled backend at a later second is answered 204 again,
  because \<open>updated_at\<close> changes and the row counts as affected.
\<close>

theorem delete_backend_later_second:
  assumes first: "handle_delete_backend c rq d = (Response 204 body, d')"
    and f: "cx_faults c2 OpGetBackendByName = NoFault" "cx_faults c2 OpDeleteBackend = NoFault"
    and n: "rq_param rq2 = rq_param rq"
    and t: "t \<noteq> db_clock d"
  shows "fst (handle_delete_backend c2 rq2 (d'\<lparr>db_clock := t\<rparr>)) = Response 204 OutEmpty"
proof -
  let ?p = "\<lambda>r. b_name r = rq_param rq" and ?g = "backend_disable (db_clock d)"
  from handle_delete_backend_204 [OF first] obtain old where
    o: "find (\<lambda>x. b_name x = rq_param rq) (db_backends d) = Some old"
    and d': "d' = record_history c ''backend'' (b_id old) ''DELETE'' (Some (SnapBackend (old\<lparr>b_enabled := False\<rparr>)))
            None rq (d\<lparr>db_backends := update_where ?p ?g (db_backends d)\<rparr>)"
    by blast
  have rows: "db_backends d' = update_where ?p ?g (db_backends d)"
    using d' by simp
  have found: "find (\<lambda>x. b_name x = rq_param rq) (db_backends d') = Some (?g old)"
    using find_after_disable [OF o] rows by simp
  then have inrow: "?g old \<in> set (db_backends d')" and key: "?p (?g old)"
    using find_Some_in_set by fastforce+
  have neq: "backend_disable t (?g old) \<noteq> ?g old"
    using t by (auto simp: backend_disable_def dest: arg_cong [where f = b_updated_at])
  from key inrow neq have "0 < changed_rows ?p (backend_disable t) (db_backends d')"
    by (rule changed_rows_pos)
  then show ?thesis
    using found f n
    by (simp add: handle_delete_backend_def Let_def get_backend_by_name_def delete_backend_def)
qed

section \<open>Refused requests\<close>

lemma handle_create_backend_refused:
  assumes "status (fst (handle_create_backend c rq d)) \<noteq> 500"
    and "status (fst (handle_create_backend c rq d)) \<noteq> 201"
  shows "snd (handle_create_backend c rq d) = d"
  using assms
  by (auto simp: handle_create_backend_def Let_def internal_error_def
      split: sum.splits option.splits prod.splits if_splits)

lemma handle_update_backend_refused:
  assumes "status (fst (handle_update_backend c rq d)) \<noteq> 500"
    and "status (fst (handle_update_backend c rq d)) \<noteq> 200"
  shows "snd (handle_update_backend c rq d) = d"
proof -
  let ?n = "rq_param rq" and ?f = "cx_faults c"
  show ?thesis
  proof (cases "get_backend_by_name (?f OpGetBackendByName) ?n d")
    case (Inl e) then show ?thesis by (simp add: handle_update_backend_def)
  next
    case (Inr r)
    show ?thesis
    proof (cases r)
      case None with Inr show ?thesis by (simp add: handle_update_backend_def)
    next
      case (Some old)
      show ?thesis
      proof (cases "decode_map_body (rq_body rq)")
        case (Inl e) with Inr Some show ?thesis by (simp add: handle_update_backend_def)
      next
        case (Inr m)
        note g = \<open>get_backend_by_name (?f OpGetBackendByName) ?n d = Inr r\<close> Some Inr
        show ?thesis
        proof (cases "merge_backend_update (cx_time c) old m")
          case (Inl e) with g show ?thesis by (simp add: handle_update_backend_def)
        next
          case (Inr b)
          obtain u d1 where u: "update_backend (?f OpUpdateBackend) ?n (b\<lparr>b_id := b_id old, b_name := ?n\<rparr>) d = (u, d1)"
            by (cases "update_backend (?f OpUpdateBackend) ?n (b\<lparr>b_id := b_id old, b_name := ?n\<rparr>) d")
          show ?thesis
          proof (cases u)
            case (Inl e)
            with g Inr u assms have "b_addr b = [] \<or> e = ErrText ''backend not found''"
              by (auto simp: handle_update_backend_def Let_def split: if_splits dest: store_failure_4xx)
            with g Inr u Inl show ?thesis
              by (auto simp: handle_update_backend_def Let_def dest: update_backend_ErrText)
          next
            case (Inr b2)
            with g \<open>merge_backend_update (cx_time c) old m = Inr b\<close> u assms show ?thesis
              by (simp add: handle_update_backend_def Let_def split: if_splits)
          qed
        qed
      qed
    qed
  qed
qed

lemma handle_delete_backend_refused:
  assumes "status (fst (handle_delete_backend c rq d)) \<noteq> 500"
    and "status (fst (handle_delete_backend c rq d)) \<noteq> 204"
  shows "snd (handle_delete_backend c rq d) = d"
proof -
  let ?n = "rq_param rq" and ?f = "cx_faults c"
  show ?thesis
  proof (cases "get_backend_by_name (?f OpGetBackendByName) ?n d")
    case (Inl e) then show ?thesis by (simp add: handle_delete_backend_def)
  next
    case (Inr r)
    show ?thesis
    proof (cases r)
      case None with Inr show ?thesis by (simp add: handle_delete_backend_def)
    next
      case (Some old)
      obtain u d1 where u: "delete_backend (?f OpDeleteBackend) ?n d = (u, d1)"
        by (cases "delete_backend (?f OpDeleteBackend) ?n d")
      show ?thesis
      proof (cases u)
        case (Inl e)
        with Inr Some u assms have "e = ErrText ''backend not found''"
          by (auto simp: handle_delete_backend_def dest: store_failure_4xx)
        with Inr Some u Inl show ?thesis
          by (auto simp: handle_delete_backend_def dest: delete_backend_ErrText)
      next
        case (Inr x)
        with \<open>get_backend_by_name (?f OpGetBackendByName) ?n d = Inr r\<close> Some u assms show ?thesis
          by (simp add: handle_delete_backend_def)
      qed
    qed
  qed
qed

text \<open>
  C4. A request to create, update or delete a backend that is refused with 400, 404 or
  409 leaves the whole database as it was: no row, counter or history entry changes.
\<close>

theorem backend_refusal_no_change:
  "(status (fst (handle_create_backend c rq d)) \<in> {400, 404, 409} \<longrightarrow> snd (handle_create_backend c rq d) = d) \<and>
   (status (fst (handle_update_backend c rq d)) \<in> {400, 404, 409} \<longrightarrow> snd (handle_update_backend c rq d) = d) \<and>
   (status (fst (handle_delete_backend c rq d)) \<in> {400, 404, 409} \<longrightarrow> snd (handle_delete_backend c rq d) = d)"
  using handle_create_backend_refused [of c rq d] handle_update_backend_refused [of c rq d]
    handle_delete_backend_refused [of c rq d]
  by auto

section \<open>Faults of the store\<close>

text \<open>
  C13. When only the audit insert fails, the create answers 201 with the row as if it had
  succeeded, the row is stored, and the history is left without an entry for it.
\<close>

theorem create_backend_history_fault:
  assumes "cx_faults c = no_faults(OpCreateHistory := ExecFails)"
    and "decode_backend_body (cx_time c) (rq_body rq) = Inr b"
    and "b_name b \<noteq> []" and "b_addr b \<noteq> []"
    and "find (\<lambda>x. b_name x = b_name b) (db_backends d) = None"
  shows "handle_create_backend c rq d =
           (Response 201 (OutBackend (created_backend rq b d)),
            d\<lparr>db_backends := db_backends d @ [created_backend rq b d],
              db_next_backend := Suc (db_next_backend d)\<rparr>)"
proof -
  have f: "cx_faults c OpGetBackendByName = NoFault" "cx_faults c OpCreateBackend = NoFault"
    "cx_faults c OpCreateHistory = ExecFails"
    using assms(1) by (simp_all add: no_faults_def)
  show ?thesis
    using handle_create_backend_ok [OF f(1,2) assms(2-5)] record_history_fails [OF f(3)] by simp
qed

text \<open>
  C12. When the insert commits but reading its result fails, the create answers 500 and
  yet the row stays in the table, with no history entry: a partial state the spec's
  failure rule excludes.
\<close>

theorem create_backend_result_fault:
  assumes "cx_faults c OpGetBackendByName = NoFault" and "cx_faults c OpCreateBackend = ResultFails"
    and "decode_backend_body (cx_time c) (rq_body rq) = Inr b"
    and "b_name b \<noteq> []" and "b_addr b \<noteq> []"
    and "find (\<lambda>x. b_name x = b_name b) (db_backends d) = None"
  shows "handle_create_backend c rq d =
           (internal_error,
            d\<lparr>db_backends := db_backends d @ [created_backend rq b d],
              db_next_backend := Suc (db_next_backend d)\<rparr>)"
  using assms
  by (simp add: handle_create_backend_def get_backend_by_name_def create_backend_def
      created_backend_def Let_def)

text \<open>
  C8. The stored \<open>enabled\<close> of a created backend is the body's value only when the URL
  carries an \<open>enabled\<close> query parameter; otherwise it is true, whatever the body says.
\<close>

theorem create_backend_enabled_default:
  assumes "handle_create_backend c rq d = (Response 201 (OutBackend row), d')"
    and "decode_backend_body (cx_time c) (rq_body rq) = Inr b"
  shows "b_enabled row = (if query_has (rq_query rq) ''enabled'' then b_enabled b else True)"
  using assms
  by (auto simp: handle_create_backend_def create_backend_def backend_row_def Let_def
      internal_error_def split: sum.splits option.splits if_splits)

text \<open>
  C9. A delete appends exactly one history entry, \<open>DELETE\<close> with no new value, whose old
  value is the stored backend with \<open>enabled\<close> already false rather than the row as it
  was before the delete.
\<close>

theorem delete_backend_history:
  assumes "handle_delete_backend c rq d = (Response 204 body, d')"
    and "cx_faults c OpCreateHistory \<noteq> ExecFails"
  shows "\<exists>old. find (\<lambda>x. b_name x = rq_param rq) (db_backends d) = Some old \<and>
           db_history d' = db_history d @
             [history_entry ''backend'' (b_id old) ''DELETE''
                (Some (SnapBackend (old\<lparr>b_enabled := False\<rparr>))) None (rq_operator rq) d]"
  using handle_delete_backend_204 [OF assms(1)] record_history_ok [OF assms(2)]
  by (auto simp: history_entry_def)

section \<open>Witnesses of the delete, refusal and fault properties\<close>

lemma ex_delete_204:
  "handle_delete_backend ex_ctx ex_delete ex_db =
   (Response 204 OutEmpty, snd (handle_delete_backend ex_ctx ex_delete ex_db))"
  by (simp add: backend_eval ex_delete_def handle_delete_backend_def get_backend_by_name_def
      delete_backend_def Let_def changed_rows_def backend_disable_def)

theorem delete_backend_soft_witness:
  "length (db_backends (snd (handle_delete_backend ex_ctx ex_delete ex_db))) = 1 \<and>
   get_backend_by_name NoFault ''account'' (snd (handle_delete_backend ex_ctx ex_delete ex_db)) =
     Inr (Some (ex_account\<lparr>b_enabled := False, b_updated_at := 5\<rparr>))"
  using delete_backend_soft [OF ex_delete_204]
  by (simp add: backend_eval ex_delete_def)

theorem delete_backend_same_second_witness:
  "handle_delete_backend ex_ctx ex_delete (snd (handle_delete_backend ex_ctx ex_delete ex_db)) =
   (Response 404 (OutText ''backend not found''), snd (handle_delete_backend ex_ctx ex_delete ex_db))"
  by (rule delete_backend_same_second [OF ex_delete_204]) (simp_all add: no_faults_def)

theorem delete_backend_later_second_witness:
  "fst (handle_delete_backend ex_ctx ex_delete
          ((snd (handle_delete_backend ex_ctx ex_delete ex_db))\<lparr>db_clock := 6\<rparr>)) = Response 204 OutEmpty"
  by (rule delete_backend_later_second [OF ex_delete_204]) (simp_all add: no_faults_def ex_db_def)

theorem delete_backend_history_witness:
  "db_history (snd (handle_delete_backend ex_ctx ex_delete ex_db)) =
     [history_entry ''backend'' 1 ''DELETE'' (Some (SnapBackend (ex_account\<lparr>b_enabled := False\<rparr>)))
        None ''admin'' ex_db]"
  using delete_backend_history [OF ex_delete_204]
  by (simp add: backend_eval ex_delete_def no_faults_def)

theorem backend_refusal_no_change_witness:
  "snd (handle_create_backend ex_ctx (ex_request ''billing'' [] ex_create_body) ex_db) = ex_db \<and>
   snd (handle_update_backend ex_ctx (ex_request ''billing'' [] ex_create_body) ex_db) = ex_db \<and>
   snd (handle_delete_backend ex_ctx (ex_request ''billing'' [] ex_create_body) ex_db) = ex_db"
proof -
  let ?rq = "ex_request ''billing'' [] ex_create_body"
  have "status (fst (handle_create_backend ex_ctx ?rq ex_db)) = 409"
    by (simp add: backend_eval handle_create_backend_def get_backend_by_name_def)
  moreover have "status (fst (handle_update_backend ex_ctx ?rq ex_db)) = 404"
    by (simp add: backend_eval handle_update_backend_def get_backend_by_name_def)
  moreover have "status (fst (handle_delete_backend ex_ctx ?rq ex_db)) = 404"
    by (simp add: backend_eval handle_delete_backend_def get_backend_by_name_def)
  ultimately show ?thesis
    using backend_refusal_no_change [of ex_ctx ?rq ex_db] by simp
qed

theorem create_backend_history_fault_witness:
  "handle_create_backend (ex_fault_ctx OpCreateHistory ExecFails) (ex_request [] [] ex_create_body) empty_db =
   (Response 201 (OutBackend (created_backend (ex_request [] [] ex_create_body) ex_decoded empty_db)),
    empty_db\<lparr>db_backends := [created_backend (ex_request [] [] ex_create_body) ex_decoded empty_db],
      db_next_backend := 2\<rparr>)"
  using create_backend_history_fault [where c = "ex_fault_ctx OpCreateHistory ExecFails"
      and rq = "ex_request [] [] ex_create_body" and b = ex_decoded and d = empty_db]
  by (simp add: backend_eval ex_fault_ctx_def ex_decoded_def)

theorem create_backend_result_fault_witness:
  "handle_create_backend (ex_fault_ctx OpCreateBackend ResultFails) (ex_request [] [] ex_create_body) empty_db =
   (internal_error,
    empty_db\<lparr>db_backends := [created_backend (ex_request [] [] ex_create_body) ex_decoded empty_db],
      db_next_backend := 2\<rparr>)"
  using create_backend_result_fault [where c = "ex_fault_ctx OpCreateBackend ResultFails"
      and rq = "ex_request [] [] ex_create_body" and b = ex_decoded and d = empty_db]
  by (simp add: backend_eval ex_fault_ctx_def ex_decoded_def)

theorem create_backend_enabled_default_witness:
  "fst (handle_create_backend ex_ctx (ex_request [] [] ex_create_body) empty_db) =
     Response 201 (OutBackend (created_backend (ex_request [] [] ex_create_body) ex_decoded empty_db)) \<and>
   b_enabled (created_backend (ex_request [] [] ex_create_body) ex_decoded empty_db) = True"
proof -
  let ?rq = "ex_request [] [] ex_create_body"
  have h: "handle_create_backend ex_ctx ?rq empty_db =
     (Response 201 (OutBackend (created_backend ?rq ex_decoded empty_db)),
      snd (handle_create_backend ex_ctx ?rq empty_db))"
    by (simp add: backend_eval ex_decoded_def handle_create_backend_def get_backend_by_name_def
        create_backend_def Let_def)
  have "b_enabled (created_backend ?rq ex_decoded empty_db) = True"
    using create_backend_enabled_default [OF h ex_create_decoded]
    by (simp add: backend_eval)
  moreover have "fst (handle_create_backend ex_ctx ?rq empty_db) =
      Response 201 (OutBackend (created_backend ?rq ex_decoded empty_db))"
    by (subst h) simp
  ultimately show ?thesis by simp
qed

section \<open>Listing backends\<close>

text \<open>
  C28. A 200 answer of \<open>ListBackends\<close> is the backends matching the \<open>enabled\<close> filter
  sorted by name, and, when none matches, JSON \<open>null\<close> rather than an empty array.
\<close>

theorem list_backends_answer:
  assumes "handle_list_backends c rq d = Response 200 body"
  shows "\<exists>en. enabled_filter (rq_query rq) = Some en \<and>
     (let bs = (case en of None \<Rightarrow> db_backends d | Some e \<Rightarrow> filter (\<lambda>b. b_enabled b = e) (db_backends d))
      in (bs = [] \<and> body = OutNull) \<or> (bs \<noteq> [] \<and> body = OutBackends (sort_key b_name bs)))"
proof (cases "enabled_filter (rq_query rq)")
  case None
  with assms show ?thesis by (simp add: handle_list_backends_def)
next
  case (Some en)
  define bs where "bs = (case en of None \<Rightarrow> db_backends d | Some e \<Rightarrow> filter (\<lambda>b. b_enabled b = e) (db_backends d))"
  have h: "handle_list_backends c rq d = (case get_backends (cx_faults c OpGetBackends) en d of
      Inl _ \<Rightarrow> internal_error | Inr bs \<Rightarrow> Response 200 (if bs = [] then OutNull else OutBackends bs))"
    using Some by (simp add: handle_list_backends_def)
  have g: "get_backends (cx_faults c OpGetBackends) en d = Inr (sort_key b_name bs)"
  proof (cases "cx_faults c OpGetBackends = NoFault")
    case True then show ?thesis by (simp add: get_backends_def bs_def)
  next
    case False
    with assms h show ?thesis by (simp add: get_backends_def internal_error_def)
  qed
  have e: "sort_key b_name bs = [] \<longleftrightarrow> bs = []"
    by (metis length_0_conv length_sort)
  from assms h g have "body = (if bs = [] then OutNull else OutBackends (sort_key b_name bs))"
    by (simp add: e)
  with Some show ?thesis
    unfolding Let_def by (intro exI [of _ en]) (simp add: bs_def)
qed

theorem list_backends_answer_witness:
  "handle_list_backends ex_ctx (ex_request [] [(''enabled'', ''false'')] JNull) ex_db = Response 200 OutNull"
proof -
  have "\<exists>body. handle_list_backends ex_ctx (ex_request [] [(''enabled'', ''false'')] JNull) ex_db = Response 200 body"
    by (simp add: backend_eval handle_list_backends_def enabled_filter_def query_get_def parse_bool_def
        get_backends_def)
  then obtain body where h: "handle_list_backends ex_ctx (ex_request [] [(''enabled'', ''false'')] JNull) ex_db =
      Response 200 body" by blast
  from list_backends_answer [OF h] have "body = OutNull"
    by (simp add: backend_eval enabled_filter_def query_get_def parse_bool_def Let_def)
  with h show ?thesis by simp
qed

section \<open>Repeating an update\<close>

lemma merge_backend_update_same_enabled:
  assumes "merge_backend_update tp old m = Inr b" and "b_enabled old' = b_enabled b"
  shows "merge_backend_update tp old' m = Inr b"
proof (cases "map_of m ''enabled''")
  case None
  with assms show ?thesis
    by (auto simp: merge_backend_update_def remarshal_def map_index_def split: sum.splits)
next
  case (Some v)
  with assms show ?thesis
    by (auto simp: merge_backend_update_def remarshal_def map_index_def split: sum.splits)
qed

lemma backend_set_idem: "backend_set b t (backend_set b t r) = backend_set b t r"
  by (simp add: backend_set_def)

text \<open>
  Repeating a successful update within the same clock second is answered 404
  \<open>backend not found\<close> although the backend exists: the second \<open>UPDATE\<close> changes no
  row, MySQL reports no affected row, and the handler takes that for a missing backend.
\<close>

theorem update_backend_same_second:
  assumes first: "handle_update_backend c rq d = (Response 200 body, d')"
    and f: "cx_faults c2 OpGetBackendByName = NoFault" "cx_faults c2 OpUpdateBackend = NoFault"
    and same: "rq_param rq2 = rq_param rq" "rq_body rq2 = rq_body rq" "cx_time c2 = cx_time c"
  shows "handle_update_backend c2 rq2 d' = (Response 404 (OutText ''backend not found''), d')"
proof -
  let ?n = "rq_param rq"
  obtain old m b where
    o: "find (\<lambda>x. b_name x = ?n) (db_backends d) = Some old"
    and m: "decode_map_body (rq_body rq) = Inr m"
    and mg: "merge_backend_update (cx_time c) old m = Inr b"
    and a: "b_addr b \<noteq> []"
    and rows: "db_backends d' = update_where (\<lambda>r. b_name r = ?n) (backend_set b (db_clock d)) (db_backends d)"
    using handle_update_backend_200 [OF first] by blast
  have clk: "db_clock d' = db_clock d"
  proof -
    from first have "db_clock d' = db_clock (snd (handle_update_backend c rq d))" by simp
    then show ?thesis
      by (simp add: handle_update_backend_def Let_def update_backend_def
          split: sum.splits option.splits prod.splits if_splits)
  qed
  let ?g = "backend_set b (db_clock d)"
  have o2: "find (\<lambda>x. b_name x = ?n) (db_backends d') = Some (?g old)"
  proof -
    have "b_name old = ?n" using find_Some_in_set [OF o] by simp
    then show ?thesis
      using find_update_where_key [where p = "\<lambda>r. b_name r = ?n" and g = ?g and k = b_name
          and v = ?n and xs = "db_backends d"] o rows by simp
  qed
  have mg2: "merge_backend_update (cx_time c) (?g old) m = Inr b"
    by (rule merge_backend_update_same_enabled [OF mg]) simp
  have none: "changed_rows (\<lambda>r. b_name r = ?n) ?g (db_backends d') = 0"
    unfolding rows by (rule changed_rows_update_where_idem) (simp add: backend_set_idem)
  have keep: "update_where (\<lambda>r. b_name r = ?n) ?g (db_backends d') = db_backends d'"
    by (rule update_where_no_change [OF none])
  show ?thesis
    using f same o2 m mg2 a none keep clk
    by (simp add: handle_update_backend_def Let_def get_backend_by_name_def update_backend_def
        store_failure_def)
qed

theorem update_backend_same_second_witness:
  "handle_update_backend ex_ctx (ex_request ''account'' [] (JObj [(''addr'', JStr ''127.0.0.1:9999'')]))
     (snd (handle_update_backend ex_ctx (ex_request ''account'' [] (JObj [(''addr'', JStr ''127.0.0.1:9999'')])) ex_db)) =
   (Response 404 (OutText ''backend not found''),
    snd (handle_update_backend ex_ctx (ex_request ''account'' [] (JObj [(''addr'', JStr ''127.0.0.1:9999'')])) ex_db))"
  by (rule update_backend_same_second [OF ex_update_keep]) (simp_all add: no_faults_def)

end
