(* ===== verification/Route_Handler.thy ===== *)
theory Route_Handler
  imports Backend_Handler
begin

text \<open>
  \<open>RouteHandler\<close> of \<open>internal/handler/route.go\<close>: the five endpoints under
  \<open>/api/v1/routes\<close>, with the referential validator (a route may only name an existing,
  enabled backend, checked on creation and on an update that changes the backend name)
  inlined where the Go code has it. The route id of the URL is parsed by
  \<open>strconv.ParseUint(id, 10, 32)\<close>; the update-merge policy is its own definition.
  The theory imports the backend handler only for its example data.
\<close>

section \<open>Handlers\<close>

definition handle_list_routes :: "ctx \<Rightarrow> request \<Rightarrow> db \<Rightarrow> response" where
  "handle_list_routes c rq d =
     (case enabled_filter (rq_query rq) of
        None \<Rightarrow> Response 400 (OutText ''invalid enabled parameter'')
      | Some en \<Rightarrow> (case get_routes (cx_faults c OpGetRoutes) en d of
          Inl _ \<Rightarrow> internal_error
        | Inr rs \<Rightarrow> Response 200 (if rs = [] then OutNull else OutRoutes rs)))"

definition handle_get_route :: "ctx \<Rightarrow> request \<Rightarrow> db \<Rightarrow> response" where
  "handle_get_route c rq d =
     (case parse_uint32 (rq_param rq) of
        None \<Rightarrow> Response 400 (OutText ''invalid route id'')
      | Some i \<Rightarrow> (case get_route_by_id (cx_faults c OpGetRouteByID) i d of
          Inl _ \<Rightarrow> internal_error
        | Inr None \<Rightarrow> Response 404 (OutText ''route not found'')
        | Inr (Some r) \<Rightarrow> Response 200 (OutRoute r)))"

text \<open>The five required fields of a route, in the order \<open>CreateRoute\<close> checks them.\<close>

definition route_missing_field :: "route \<Rightarrow> string option" where
  "route_missing_field r =
     (if r_http_method r = [] then Some ''http_method is required''
      else if r_http_pattern r = [] then Some ''http_pattern is required''
      else if r_backend_name r = [] then Some ''backend_name is required''
      else if r_backend_service r = [] then Some ''backend_service is required''
      else if r_backend_method r = [] then Some ''backend_method is required''
      else None)"

text \<open>
  The referential validator: \<open>GetBackendByName\<close>, then \<open>backend == nil ||
  !backend.Enabled\<close> is an invalid reference. \<open>Inl None\<close> is a storage error,
  \<open>Inl (Some rs)\<close> the 400 answer.
\<close>

definition check_backend_ref :: "ctx \<Rightarrow> string \<Rightarrow> db \<Rightarrow> response option + unit" where
  "check_backend_ref c n d =
     (case get_backend_by_name (cx_faults c OpGetBackendByName) n d of
        Inl _ \<Rightarrow> Inl None
      | Inr None \<Rightarrow> Inl (Some (Response 400 (OutText ''backend not found or disabled'')))
      | Inr (Some b) \<Rightarrow> if b_enabled b then Inr ()
                        else Inl (Some (Response 400 (OutText ''backend not found or disabled''))))"

text \<open>
  \<open>CreateRoute\<close>: decode, require the five fields, validate the backend, default the
  timeout to 5000 when it is not positive and \<open>Enabled\<close> to true unless the URL has an
  \<open>enabled\<close> query parameter, insert, record.
\<close>

definition route_defaults :: "request \<Rightarrow> route \<Rightarrow> route" where
  "route_defaults rq r =
     (let r1 = (if r_timeout_ms r \<le> 0 then r\<lparr>r_timeout_ms := 5000\<rparr> else r)
      in if query_has (rq_query rq) ''enabled'' then r1 else r1\<lparr>r_enabled := True\<rparr>)"

definition handle_create_route :: "ctx \<Rightarrow> request \<Rightarrow> db \<Rightarrow> response \<times> db" where
  "handle_create_route c rq d =
     (case decode_route_body (cx_time c) (rq_body rq) of
        Inl _ \<Rightarrow> (Response 400 (OutText ''invalid json''), d)
      | Inr r \<Rightarrow>
          (case route_missing_field r of
             Some msg \<Rightarrow> (Response 400 (OutText msg), d)
           | None \<Rightarrow>
               (case check_backend_ref c (r_backend_name r) d of
                  Inl None \<Rightarrow> (internal_error, d)
                | Inl (Some rs) \<Rightarrow> (rs, d)
                | Inr _ \<Rightarrow>
                    (case create_route (cx_faults c OpCreateRoute) (route_defaults rq r) d of
                       (Inl _, d1) \<Rightarrow> (internal_error, d1)
                     | (Inr r2, d1) \<Rightarrow>
                         (Response 201 (OutRoute r2),
                          route_record_history c ''route'' (r_id r2) ''CREATE'' None
                            (Some (SnapRoute r2)) rq d1)))))"

text \<open>
  The merge of an update payload with the stored route, as for backends: every field is
  the payload's or its zero value, except \<open>Enabled\<close>, which keeps the stored value when
  the key \<open>enabled\<close> is absent. No default is applied to the timeout.
\<close>

definition merge_route_update ::
  "time_parser \<Rightarrow> route \<Rightarrow> (string \<times> jval) list \<Rightarrow> unit + route" where
  "merge_route_update tp old m =
     (let en = map_index m ''enabled''
      in case remarshal route_tags (set_route_field tp) m zero_route of
           Inl e \<Rightarrow> Inl e
         | Inr r \<Rightarrow> Inr (r\<lparr>r_enabled :=
              (case en of None \<Rightarrow> r_enabled old | Some (JBool v) \<Rightarrow> v | Some _ \<Rightarrow> False)\<rparr>))"

definition route_fields_present :: "route \<Rightarrow> bool" where
  "route_fields_present r \<longleftrightarrow>
     r_http_method r \<noteq> [] \<and> r_http_pattern r \<noteq> [] \<and> r_backend_name r \<noteq> [] \<and>
     r_backend_service r \<noteq> [] \<and> r_backend_method r \<noteq> []"

definition handle_update_route :: "ctx \<Rightarrow> request \<Rightarrow> db \<Rightarrow> response \<times> db" where
  "handle_update_route c rq d =
     (case parse_uint32 (rq_param rq) of
        None \<Rightarrow> (Response 400 (OutText ''invalid route id''), d)
      | Some i \<Rightarrow>
      (case get_route_by_id (cx_faults c OpGetRouteByID) i d of
         Inl _ \<Rightarrow> (internal_error, d)
       | Inr None \<Rightarrow> (Response 404 (OutText ''route not found''), d)
       | Inr (Some old) \<Rightarrow>
         (case decode_map_body (rq_body rq) of
            Inl _ \<Rightarrow> (Response 400 (OutText ''invalid json''), d)
          | Inr m \<Rightarrow> (case merge_route_update (cx_time c) old m of
              Inl _ \<Rightarrow> (Response 400 (OutText ''invalid json''), d)
            | Inr r \<Rightarrow>
              if \<not> route_fields_present r
              then (Response 400 (OutText ''required fields cannot be empty''), d)
              else (case (if r_backend_name r \<noteq> r_backend_name old
                          then check_backend_ref c (r_backend_name r) d else Inr ()) of
                Inl None \<Rightarrow> (internal_error, d)
              | Inl (Some rs) \<Rightarrow> (rs, d)
              | Inr _ \<Rightarrow>
                  (case update_route (cx_faults c OpUpdateRoute) i (r\<lparr>r_id := i\<rparr>) d of
                     (Inl e, d1) \<Rightarrow> (store_failure ''route not found'' e, d1)
                   | (Inr r2, d1) \<Rightarrow>
                       (Response 200 (OutRoute r2),
                        route_record_history c ''route'' (r_id r2) ''UPDATE'' (Some (SnapRoute old))
                          (Some (SnapRoute r2)) rq d1)))))))"

definition handle_delete_route :: "ctx \<Rightarrow> request \<Rightarrow> db \<Rightarrow> response \<times> db" where
  "handle_delete_route c rq d =
     (case parse_uint32 (rq_param rq) of
        None \<Rightarrow> (Response 400 (OutText ''invalid route id''), d)
      | Some i \<Rightarrow>
      (case get_route_by_id (cx_faults c OpGetRouteByID) i d of
         Inl _ \<Rightarrow> (internal_error, d)
       | Inr None \<Rightarrow> (Response 404 (OutText ''route not found''), d)
       | Inr (Some old) \<Rightarrow>
           (case delete_route (cx_faults c OpDeleteRoute) i d of
              (Inl e, d1) \<Rightarrow> (store_failure ''route not found'' e, d1)
            | (Inr _, d1) \<Rightarrow>
                (Response 204 OutEmpty,
                 route_record_history c ''route'' (r_id old) ''DELETE''
                   (Some (SnapRoute (old\<lparr>r_enabled := False\<rparr>))) None rq d1))))"

declare handle_create_route_def [handler_defs] handle_update_route_def [handler_defs]
  handle_delete_route_def [handler_defs]

section \<open>Example data\<close>

text \<open>The spec's end-to-end scenario: the route of the login method on \<open>account\<close>, a disabled backend \<open>billing\<close> and an enabled one \<open>payment\<close>.\<close>

definition ex_route_json :: "string \<Rightarrow> (string \<times> jval) list \<Rightarrow> jval" where
  "ex_route_json bn extra = JObj ([(''http_method'', JStr ''POST''), (''http_pattern'', JStr ''/v1/user/login''),
     (''backend_name'', JStr bn), (''backend_service'', JStr ''user.v1.UserService''),
     (''backend_method'', JStr ''Login'')] @ extra)"

definition ex_billing :: backend where
  "ex_billing = ex_account\<lparr>b_id := 2, b_name := ''billing'', b_addr := ''127.0.0.1:50052'',
     b_description := [], b_enabled := False\<rparr>"

definition ex_payment :: backend where
  "ex_payment = ex_account\<lparr>b_id := 3, b_name := ''payment'', b_addr := ''127.0.0.1:50053'',
     b_description := []\<rparr>"

definition ex_db2 :: db where
  "ex_db2 = ex_db\<lparr>db_backends := [ex_account, ex_billing, ex_payment], db_next_backend := 4\<rparr>"

definition ex_login_route :: route where
  "ex_login_route = zero_route\<lparr>r_id := 1, r_http_method := ''POST'', r_http_pattern := ''/v1/user/login'',
     r_backend_name := ''account'', r_backend_service := ''user.v1.UserService'',
     r_backend_method := ''Login'', r_timeout_ms := 5000, r_enabled := True,
     r_created_at := 5, r_updated_at := 5\<rparr>"

definition ex_route_decoded :: "string \<Rightarrow> route" where
  "ex_route_decoded bn = zero_route\<lparr>r_http_method := ''POST'', r_http_pattern := ''/v1/user/login'',
     r_backend_name := bn, r_backend_service := ''user.v1.UserService'', r_backend_method := ''Login''\<rparr>"

definition ex_s1 :: db where
  "ex_s1 = snd (handle_create_route ex_ctx (ex_request [] [] (ex_route_json ''account'' [])) ex_db2)"

definition ex_s2 :: db where
  "ex_s2 = snd (handle_delete_backend ex_ctx (ex_request ''account'' [] JNull) ex_s1)"

lemmas route_eval = backend_eval ex_route_json_def ex_billing_def ex_payment_def ex_db2_def
  ex_login_route_def ex_route_decoded_def route_tags_def zero_route_def decode_route_body_def route_missing_field_def
  check_backend_ref_def route_defaults_def create_route_def route_row_def get_backend_by_name_def
  handle_create_route_def Let_def

lemmas route_update_eval = route_eval handle_update_route_def get_route_by_id_def decode_map_body_def
  go_map_def merge_route_update_def map_index_def remarshal_def route_fields_present_def
  update_route_def route_set_def changed_rows_def parse_uint32_def all_digits_def is_digit_def
  dec_val_def digit_val_def record_history_def create_history_def

section \<open>Creating a route: the referential validator\<close>

lemma check_backend_ref_ok:
  "check_backend_ref c n d = Inr u \<Longrightarrow>
   \<exists>b. find (\<lambda>x. b_name x = n) (db_backends d) = Some b \<and> b_enabled b"
  by (auto simp: check_backend_ref_def get_backend_by_name_def split: sum.splits option.splits if_splits)

lemma check_backend_ref_invalid:
  "cx_faults c OpGetBackendByName = NoFault \<Longrightarrow>
   (\<forall>b. find (\<lambda>x. b_name x = n) (db_backends d) = Some b \<longrightarrow> \<not> b_enabled b) \<Longrightarrow>
   check_backend_ref c n d = Inl (Some (Response 400 (OutText ''backend not found or disabled'')))"
  by (auto simp: check_backend_ref_def get_backend_by_name_def split: option.splits)



lemma check_backend_ref_refused:
  "check_backend_ref c n d = Inl (Some rs) \<Longrightarrow> rs = Response 400 (OutText ''backend not found or disabled'')"
  by (simp add: check_backend_ref_def split: sum.splits option.splits if_splits)

lemma handle_create_route_201:
  assumes "handle_create_route c rq d = (Response 201 body, d')"
  shows "\<exists>r. decode_route_body (cx_time c) (rq_body rq) = Inr r \<and> route_missing_field r = None \<and>
           check_backend_ref c (r_backend_name r) d = Inr () \<and>
           body = OutRoute (route_row (route_defaults rq r) (db_next_route d) (db_clock d)) \<and>
           d' = record_history c ''route'' (db_next_route d) ''CREATE'' None
                  (Some (SnapRoute (route_row (route_defaults rq r) (db_next_route d) (db_clock d)))) rq
                  (d\<lparr>db_routes := db_routes d @ [route_row (route_defaults rq r) (db_next_route d) (db_clock d)],
                     db_next_route := Suc (db_next_route d)\<rparr>)"
proof -
  from assms obtain r where r: "decode_route_body (cx_time c) (rq_body rq) = Inr r"
    by (cases "decode_route_body (cx_time c) (rq_body rq)") (auto simp: handle_create_route_def)
  from assms r have mf: "route_missing_field r = None"
    by (cases "route_missing_field r") (auto simp: handle_create_route_def)
  obtain ck where ck: "check_backend_ref c (r_backend_name r) d = ck" by simp
  have "ck = Inr ()"
  proof (cases ck)
    case (Inl x)
    with assms r mf ck show ?thesis
      by (cases x) (auto simp: handle_create_route_def internal_error_def dest: check_backend_ref_refused)
  qed simp
  with ck have ck: "check_backend_ref c (r_backend_name r) d = Inr ()" by simp
  obtain res d1 where cr: "create_route (cx_faults c OpCreateRoute) (route_defaults rq r) d = (res, d1)"
    by (cases "create_route (cx_faults c OpCreateRoute) (route_defaults rq r) d")
  from assms r mf ck cr obtain r2 where "res = Inr r2"
    by (cases res) (simp_all add: handle_create_route_def internal_error_def)
  with assms r mf ck cr show ?thesis
    by (auto simp: handle_create_route_def create_route_def route_row_def Let_def split: if_splits)
qed

lemma route_defaults_fields [simp]:
  "r_backend_name (route_defaults rq r) = r_backend_name r"
  "r_timeout_ms (route_defaults rq r) = (if r_timeout_ms r \<le> 0 then 5000 else r_timeout_ms r)"
  by (simp_all add: route_defaults_def Let_def)

text \<open>
  C14. A route is created (201) only when the backend it names exists and is enabled in
  the database the request saw, and exactly that route is appended to the routes table.
\<close>

theorem create_route_valid_reference:
  assumes "handle_create_route c rq d = (Response 201 (OutRoute r2), d')"
  shows "db_routes d' = db_routes d @ [r2] \<and>
         (\<exists>b. find (\<lambda>x. b_name x = r_backend_name r2) (db_backends d) = Some b \<and> b_enabled b)"
  using handle_create_route_201 [OF assms] check_backend_ref_ok
  by (fastforce simp: route_row_def)

text \<open>
  C18. A created route's timeout is the payload's when positive and 5000 otherwise, so it
  is always positive.
\<close>

theorem create_route_timeout_default:
  assumes "handle_create_route c rq d = (Response 201 (OutRoute r2), d')"
    and "decode_route_body (cx_time c) (rq_body rq) = Inr r"
  shows "r_timeout_ms r2 = (if r_timeout_ms r \<le> 0 then 5000 else r_timeout_ms r) \<and> 0 < r_timeout_ms r2"
  using handle_create_route_201 [OF assms(1)] assms(2)
  by (auto simp: route_row_def)

text \<open>
  C15. Creating a route whose backend is missing or disabled is answered 400 \<open>backend not
  found or disabled\<close> and creates no route and no history entry.
\<close>

theorem create_route_invalid_reference:
  assumes "cx_faults c OpGetBackendByName = NoFault"
    and "decode_route_body (cx_time c) (rq_body rq) = Inr r" and "route_missing_field r = None"
    and "\<forall>b. find (\<lambda>x. b_name x = r_backend_name r) (db_backends d) = Some b \<longrightarrow> \<not> b_enabled b"
  shows "handle_create_route c rq d = (Response 400 (OutText ''backend not found or disabled''), d)"
  using assms check_backend_ref_invalid [OF assms(1,4)] by (simp add: handle_create_route_def)

section \<open>Updating a route\<close>

lemma merge_route_update_Inr:
  "merge_route_update tp old m = Inr r \<Longrightarrow>
   \<exists>p. decode_members route_tags (set_route_field tp) (map (\<lambda>(k, v). (k, marshal_val v)) m) zero_route = Inr p \<and>
       r = p\<lparr>r_enabled := (case map_of m ''enabled'' of None \<Rightarrow> r_enabled old
                           | Some (JBool v) \<Rightarrow> v | Some _ \<Rightarrow> False)\<rparr>"
  by (auto simp: merge_route_update_def remarshal_def map_index_def split: sum.splits)

lemma handle_update_route_200:
  assumes "handle_update_route c rq d = (Response 200 body, d')"
  shows "\<exists>i old m r. parse_uint32 (rq_param rq) = Some i \<and>
           find (\<lambda>x. r_id x = i) (db_routes d) = Some old \<and>
           decode_map_body (rq_body rq) = Inr m \<and> merge_route_update (cx_time c) old m = Inr r \<and>
           route_fields_present r \<and>
           (r_backend_name r \<noteq> r_backend_name old \<longrightarrow> check_backend_ref c (r_backend_name r) d = Inr ()) \<and>
           body = OutRoute (r\<lparr>r_id := i, r_updated_at := db_clock d\<rparr>) \<and>
           db_routes d' = update_where (\<lambda>x. r_id x = i) (route_set r (db_clock d)) (db_routes d)"
proof -
  let ?f = "cx_faults c"
  from assms obtain i where i: "parse_uint32 (rq_param rq) = Some i"
    by (cases "parse_uint32 (rq_param rq)") (simp_all add: handle_update_route_def)
  from assms i obtain old where old: "get_route_by_id (?f OpGetRouteByID) i d = Inr (Some old)"
    by (cases "get_route_by_id (?f OpGetRouteByID) i d" rule: sum.exhaust)
       (auto simp: handle_update_route_def internal_error_def split: option.splits)
  from assms i old obtain m where m: "decode_map_body (rq_body rq) = Inr m"
    by (cases "decode_map_body (rq_body rq)") (simp_all add: handle_update_route_def)
  from assms i old m obtain r where r: "merge_route_update (cx_time c) old m = Inr r"
    by (cases "merge_route_update (cx_time c) old m") (simp_all add: handle_update_route_def)
  from assms i old m r have fp: "route_fields_present r"
    by (rule_tac ccontr) (simp add: handle_update_route_def)
  obtain ck where ck: "(if r_backend_name r \<noteq> r_backend_name old
                         then check_backend_ref c (r_backend_name r) d else Inr ()) = ck" by simp
  have "ck = Inr ()"
  proof (cases ck)
    case (Inl x)
    with assms i old m r fp ck show ?thesis
      by (cases x) (auto simp: handle_update_route_def internal_error_def split: if_splits
          dest: check_backend_ref_refused)
  qed simp
  with ck have ck': "r_backend_name r \<noteq> r_backend_name old \<longrightarrow> check_backend_ref c (r_backend_name r) d = Inr ()"
    by (auto split: if_splits)
  obtain u d1 where u: "update_route (?f OpUpdateRoute) i (r\<lparr>r_id := i\<rparr>) d = (u, d1)"
    by (cases "update_route (?f OpUpdateRoute) i (r\<lparr>r_id := i\<rparr>) d")
  from assms i old m r fp ck \<open>ck = Inr ()\<close> u obtain r2 where r2: "u = Inr r2"
    and res: "body = OutRoute r2"
    and d': "d' = record_history c ''route'' (r_id r2) ''UPDATE'' (Some (SnapRoute old)) (Some (SnapRoute r2)) rq d1"
    by (cases u) (auto simp: handle_update_route_def store_failure_def internal_error_def split: if_splits)
  from u r2 have "r2 = r\<lparr>r_id := i, r_updated_at := db_clock d\<rparr> \<and>
      db_routes d1 = update_where (\<lambda>x. r_id x = i) (route_set (r\<lparr>r_id := i\<rparr>) (db_clock d)) (db_routes d)"
    by (auto simp: update_route_def Let_def split: if_splits)
  moreover have "route_set (r\<lparr>r_id := i\<rparr>) (db_clock d) = route_set r (db_clock d)"
    by (simp add: route_set_def fun_eq_iff)
  ultimately show ?thesis
    using i old m r fp ck' res d'
    by (auto simp: get_route_by_id_def split: if_splits)
qed

text \<open>
  C16. An update that changes a route's backend name succeeds only when the new backend
  exists and is enabled.
\<close>

theorem update_route_changed_reference:
  assumes "handle_update_route c rq d = (Response 200 (OutRoute r2), d')"
    and "find (\<lambda>x. r_id x = r_id r2) (db_routes d) = Some old"
    and "r_backend_name r2 \<noteq> r_backend_name old"
  shows "\<exists>b. find (\<lambda>x. b_name x = r_backend_name r2) (db_backends d) = Some b \<and> b_enabled b"
  using handle_update_route_200 [OF assms(1)] assms(2,3) check_backend_ref_ok by fastforce

lemma update_route_backends:
  "update_route f i r (d\<lparr>db_backends := bs\<rparr>) =
   (fst (update_route f i r d), (snd (update_route f i r d))\<lparr>db_backends := bs\<rparr>)"
  by (simp add: update_route_def Let_def)

lemma record_history_backends:
  "record_history c ty cid op old new rq (d\<lparr>db_backends := bs\<rparr>) =
   (record_history c ty cid op old new rq d)\<lparr>db_backends := bs\<rparr>"
  by (simp add: record_history_def create_history_def)

text \<open>
  C17. When the merged payload keeps the backend name, the update does not consult the
  backends at all: its answer is the same whatever the backends table holds, so a route
  can be edited while its backend is disabled or even missing.
\<close>

theorem update_route_no_recheck:
  assumes "parse_uint32 (rq_param rq) = Some i"
    and "cx_faults c OpGetRouteByID = NoFault"
    and "find (\<lambda>x. r_id x = i) (db_routes d) = Some old"
    and "decode_map_body (rq_body rq) = Inr m" and "merge_route_update (cx_time c) old m = Inr r"
    and "r_backend_name r = r_backend_name old"
  shows "handle_update_route c rq (d\<lparr>db_backends := bs\<rparr>) =
         (fst (handle_update_route c rq d), (snd (handle_update_route c rq d))\<lparr>db_backends := bs\<rparr>)"
proof -
  obtain u d1 where u: "update_route (cx_faults c OpUpdateRoute) i (r\<lparr>r_id := i\<rparr>) d = (u, d1)"
    by (cases "update_route (cx_faults c OpUpdateRoute) i (r\<lparr>r_id := i\<rparr>) d")
  show ?thesis
    using assms u
    by (cases u) (simp_all add: handle_update_route_def get_route_by_id_def update_route_backends
        record_history_backends)
qed

lemma update_where_route_set:
  "x \<in> set (update_where (\<lambda>y. r_id y = i) (route_set r t) rows) \<Longrightarrow> r_id x = i \<Longrightarrow>
   r_timeout_ms x = r_timeout_ms r"
proof -
  assume x: "x \<in> set (update_where (\<lambda>y. r_id y = i) (route_set r t) rows)" and i: "r_id x = i"
  from update_where_in_set [OF x] obtain y where
    y: "x = (if r_id y = i then route_set r t y else y)" by blast
  show ?thesis
  proof (cases "r_id y = i")
    case True
    with y show ?thesis by (simp add: route_set_def)
  next
    case False
    with y i show ?thesis by simp
  qed
qed

text \<open>
  C19. Unlike creation, an update applies no timeout default: a payload without a key
  matching \<open>timeout_ms\<close> stores and answers a timeout of 0, contrary to the spec's
  default of 5000 for an unset or non-positive timeout.
\<close>

theorem update_route_clears_timeout:
  assumes ok: "handle_update_route c rq d = (Response 200 (OutRoute r2), d')"
    and body: "rq_body rq = BodyJson (JObj ms)"
    and notimeout: "\<forall>kv \<in> set ms. fold_name (fst kv) \<noteq> ''TIMEOUT_MS''"
  shows "r_timeout_ms r2 = 0 \<and>
         (\<forall>x \<in> set (db_routes d'). r_id x = r_id r2 \<longrightarrow> r_timeout_ms x = 0)"
proof -
  obtain i old m r where
    m: "decode_map_body (rq_body rq) = Inr m"
    and mg: "merge_route_update (cx_time c) old m = Inr r"
    and r2: "OutRoute r2 = OutRoute (r\<lparr>r_id := i, r_updated_at := db_clock d\<rparr>)"
    and rows: "db_routes d' = update_where (\<lambda>x. r_id x = i) (route_set r (db_clock d)) (db_routes d)"
    using handle_update_route_200 [OF ok] by blast
  from body m have mb: "decode_map_body (BodyJson (JObj ms)) = Inr m" by simp
  from mg obtain p where dec: "decode_members route_tags (set_route_field (cx_time c))
      (map (\<lambda>(k, v). (k, marshal_val v)) m) zero_route = Inr p"
    and rp: "r_timeout_ms r = r_timeout_ms p"
    using merge_route_update_Inr by fastforce
  have keys: "\<forall>kv \<in> set (map (\<lambda>(k, v). (k, marshal_val v)) m).
      field_of_key route_tags (fst kv) \<noteq> Some RTimeoutMs"
  proof
    fix kv assume "kv \<in> set (map (\<lambda>(k, v). (k, marshal_val v)) m)"
    with mb have "fst kv \<in> fst ` set ms" by (rule keys_update_map)
    with notimeout show "field_of_key route_tags (fst kv) \<noteq> Some RTimeoutMs"
      using route_timeout_key by force
  qed
  have "r_timeout_ms p = r_timeout_ms zero_route"
    by (rule decode_members_frame [where proj = r_timeout_ms and F = RTimeoutMs,
          OF set_route_field_timeout keys dec])
  with rp have "r_timeout_ms r = 0" by (simp add: zero_route_def)
  with r2 rows show ?thesis
    using update_where_route_set by auto
qed

section \<open>Refused route requests\<close>

lemma handle_create_route_refused:
  assumes "status (fst (handle_create_route c rq d)) \<noteq> 500"
    and "status (fst (handle_create_route c rq d)) \<noteq> 201"
  shows "snd (handle_create_route c rq d) = d"
  using assms
  by (auto simp: handle_create_route_def internal_error_def
      split: sum.splits option.splits prod.splits)

lemma handle_update_route_refused:
  assumes "status (fst (handle_update_route c rq d)) \<noteq> 500"
    and "status (fst (handle_update_route c rq d)) \<noteq> 200"
  shows "snd (handle_update_route c rq d) = d"
proof (cases "parse_uint32 (rq_param rq)")
  case None then show ?thesis by (simp add: handle_update_route_def)
next
  case (Some i)
  let ?f = "cx_faults c"
  show ?thesis
  proof (cases "get_route_by_id (?f OpGetRouteByID) i d")
    case (Inl e) with Some show ?thesis by (simp add: handle_update_route_def)
  next
    case (Inr x)
    show ?thesis
    proof (cases x)
      case None with Some Inr show ?thesis by (simp add: handle_update_route_def)
    next
      case (Some old)
      note g = \<open>parse_uint32 (rq_param rq) = Some i\<close> Inr Some
      show ?thesis
      proof (cases "decode_map_body (rq_body rq)")
        case (Inl e) with g show ?thesis by (simp add: handle_update_route_def)
      next
        case (Inr m)
        note g = g Inr
        show ?thesis
        proof (cases "merge_route_update (cx_time c) old m")
          case (Inl e) with g show ?thesis by (simp add: handle_update_route_def)
        next
          case (Inr r)
          note g = g Inr
          let ?chk = "if r_backend_name r \<noteq> r_backend_name old then check_backend_ref c (r_backend_name r) d else Inr ()"
          show ?thesis
          proof (cases "route_fields_present r")
            case False with g show ?thesis by (simp add: handle_update_route_def)
          next
            case True
            note g = g True
            show ?thesis
            proof (cases ?chk)
              case (Inl e) with g show ?thesis
                by (cases e) (simp_all add: handle_update_route_def)
            next
              case (Inr u0)
              note g = g Inr
              obtain u d1 where u: "update_route (?f OpUpdateRoute) i (r\<lparr>r_id := i\<rparr>) d = (u, d1)"
                by (cases "update_route (?f OpUpdateRoute) i (r\<lparr>r_id := i\<rparr>) d")
              show ?thesis
              proof (cases u)
                case (Inl e)
                with g u assms have "e = ErrText ''route not found''"
                  by (auto simp: handle_update_route_def dest: store_failure_4xx)
                with g u Inl show ?thesis
                  by (auto simp: handle_update_route_def dest: update_route_ErrText)
              next
                case (Inr r2)
                with g u assms show ?thesis by (simp add: handle_update_route_def)
              qed
            qed
          qed
        qed
      qed
    qed
  qed
qed

lemma handle_delete_route_refused:
  assumes "status (fst (handle_delete_route c rq d)) \<noteq> 500"
    and "status (fst (handle_delete_route c rq d)) \<noteq> 204"
  shows "snd (handle_delete_route c rq d) = d"
proof (cases "parse_uint32 (rq_param rq)")
  case None then show ?thesis by (simp add: handle_delete_route_def)
next
  case (Some i)
  let ?f = "cx_faults c"
  show ?thesis
  proof (cases "get_route_by_id (?f OpGetRouteByID) i d")
    case (Inl e) with Some show ?thesis by (simp add: handle_delete_route_def)
  next
    case (Inr r)
    show ?thesis
    proof (cases r)
      case None with Some Inr show ?thesis by (simp add: handle_delete_route_def)
    next
      case (Some old)
      note g = \<open>parse_uint32 (rq_param rq) = Some i\<close> Inr Some
      obtain u d1 where u: "delete_route (?f OpDeleteRoute) i d = (u, d1)"
        by (cases "delete_route (?f OpDeleteRoute) i d")
      show ?thesis
      proof (cases u)
        case (Inl e)
        with g u assms have "e = ErrText ''route not found''"
          by (auto simp: handle_delete_route_def dest: store_failure_4xx)
        with g u Inl show ?thesis
          by (auto simp: handle_delete_route_def dest: delete_route_ErrText)
      next
        case (Inr x)
        with g u assms show ?thesis by (simp add: handle_delete_route_def)
      qed
    qed
  qed
qed

text \<open>
  C32. A request to create, update or delete a route that is answered with a 4xx status
  leaves the whole database as it was. A 404 from the store's \<open>UPDATE\<close> leaves it
  unchanged only because no row had a value to change.
\<close>

theorem route_refusal_no_change:
  "(400 \<le> status (fst (handle_create_route c rq d)) \<and> status (fst (handle_create_route c rq d)) < 500 \<longrightarrow>
      snd (handle_create_route c rq d) = d) \<and>
   (400 \<le> status (fst (handle_update_route c rq d)) \<and> status (fst (handle_update_route c rq d)) < 500 \<longrightarrow>
      snd (handle_update_route c rq d) = d) \<and>
   (400 \<le> status (fst (handle_delete_route c rq d)) \<and> status (fst (handle_delete_route c rq d)) < 500 \<longrightarrow>
      snd (handle_delete_route c rq d) = d)"
  using handle_create_route_refused [of c rq d] handle_update_route_refused [of c rq d]
    handle_delete_route_refused [of c rq d]
  by auto

section \<open>Numbers in an update\<close>


section \<open>Witnesses\<close>

lemma ex_create_route:
  "handle_create_route ex_ctx (ex_request [] [] (ex_route_json ''account'' [])) ex_db2 =
   (Response 201 (OutRoute ex_login_route),
    snd (handle_create_route ex_ctx (ex_request [] [] (ex_route_json ''account'' [])) ex_db2))"
  by (simp add: route_eval)

lemma ex_update_payment:
  "handle_update_route ex_ctx (ex_request ''1'' [] (ex_route_json ''payment'' [])) ex_s1 =
   (Response 200 (OutRoute (ex_login_route\<lparr>r_backend_name := ''payment'', r_timeout_ms := 0,
     r_created_at := 0\<rparr>)),
    snd (handle_update_route ex_ctx (ex_request ''1'' [] (ex_route_json ''payment'' [])) ex_s1))"
  by (simp add: route_update_eval ex_s1_def)

lemma ex_s1_routes: "db_routes ex_s1 = [ex_login_route]"
  using ex_create_route by (simp add: route_eval ex_s1_def)

theorem create_route_invalid_reference_witness:
  "handle_create_route ex_ctx (ex_request [] [] (ex_route_json ''billing'' [])) ex_db2 =
   (Response 400 (OutText ''backend not found or disabled''), ex_db2)"
  by (rule create_route_invalid_reference [where r = "ex_route_decoded ''billing''"])
     (simp_all add: route_eval)

theorem create_route_valid_reference_witness:
  "db_routes ex_s1 = db_routes ex_db2 @ [ex_login_route] \<and>
   (\<exists>b. find (\<lambda>x. b_name x = ''account'') (db_backends ex_db2) = Some b \<and> b_enabled b)"
  using create_route_valid_reference [OF ex_create_route]
  by (simp add: ex_s1_def ex_login_route_def)

theorem create_route_timeout_default_witness:
  "r_timeout_ms (ex_route_decoded ''account'') = 0 \<and> r_timeout_ms ex_login_route = 5000"
  using create_route_timeout_default [OF ex_create_route, where r = "ex_route_decoded ''account''"]
  by (simp add: route_eval)

theorem update_route_changed_reference_witness:
  "\<exists>b. find (\<lambda>x. b_name x = ''payment'') (db_backends ex_s1) = Some b \<and> b_enabled b"
  using update_route_changed_reference [OF ex_update_payment, where old = ex_login_route] ex_s1_routes
  by (simp add: ex_login_route_def)

theorem update_route_no_recheck_witness:
  "handle_update_route ex_ctx (ex_request ''1'' [] (ex_route_json ''account'' [(''description'', JStr ''login'')]))
      (ex_s2\<lparr>db_backends := []\<rparr>) =
   (fst (handle_update_route ex_ctx (ex_request ''1'' [] (ex_route_json ''account'' [(''description'', JStr ''login'')])) ex_s2),
    (snd (handle_update_route ex_ctx (ex_request ''1'' [] (ex_route_json ''account'' [(''description'', JStr ''login'')])) ex_s2))
      \<lparr>db_backends := []\<rparr>)"
proof -
  let ?rq = "ex_request ''1'' [] (ex_route_json ''account'' [(''description'', JStr ''login'')])"
  let ?ms = "[(''http_method'', JStr ''POST''), (''http_pattern'', JStr ''/v1/user/login''),
     (''backend_name'', JStr ''account''), (''backend_service'', JStr ''user.v1.UserService''),
     (''backend_method'', JStr ''Login''), (''description'', JStr ''login'')]"
  let ?r = "(ex_route_decoded ''account'')\<lparr>r_description := ''login'', r_enabled := True\<rparr>"
  have routes: "find (\<lambda>x. r_id x = 1) (db_routes ex_s2) = Some ex_login_route"
    using ex_s1_routes by (simp add: ex_s2_def handle_delete_backend_def delete_backend_def Let_def
      get_backend_by_name_def ex_login_route_def split: sum.splits option.splits prod.splits)
  have p: "parse_uint32 (rq_param ?rq) = Some 1"
    by (simp add: ex_request_def parse_uint32_def all_digits_def is_digit_def dec_val_def digit_val_def)
  have f: "cx_faults ex_ctx OpGetRouteByID = NoFault" by (simp add: no_faults_def)
  have dm: "decode_map_body (rq_body ?rq) = Inr (go_map ?ms)"
    by (simp add: ex_request_def ex_route_json_def decode_map_body_def)
  have gm: "go_map ?ms =
     [(''backend_method'', JStr ''Login''), (''backend_name'', JStr ''account''),
      (''backend_service'', JStr ''user.v1.UserService''), (''description'', JStr ''login''),
      (''http_method'', JStr ''POST''), (''http_pattern'', JStr ''/v1/user/login'')]"
    by (simp add: go_map_def)
  have mg: "merge_route_update (cx_time ex_ctx) ex_login_route (go_map ?ms) = Inr ?r"
    by (simp only: gm) (simp add: route_update_eval)
  have bn: "r_backend_name ?r = r_backend_name ex_login_route"
    by (simp add: ex_route_decoded_def ex_login_route_def)
  show ?thesis
    by (rule update_route_no_recheck [OF p f routes dm mg bn])
qed

theorem update_route_clears_timeout_witness:
  "r_timeout_ms ex_login_route = 5000 \<and>
   r_timeout_ms (ex_login_route\<lparr>r_backend_name := ''payment'', r_timeout_ms := 0, r_created_at := 0\<rparr>) = 0"
  using update_route_clears_timeout [OF ex_update_payment]
  by (simp add: ex_request_def ex_route_json_def ex_login_route_def ascii_upper_def)

section \<open>Decoded routes have the Go types\<close>

text \<open>
  Every route the handlers decode, from a create body or from an update payload
  merged with the stored route, has an id within 64-bit \<open>uint\<close> and a timeout within
  64-bit \<open>int\<close>: out-of-range JSON numbers are decoding errors, never wrapped values.
\<close>

theorem decoded_routes_fit_go:
  "(decode_route_body tp bd = Inr r \<longrightarrow> route_fits_go r) \<and>
   (merge_route_update tp old m = Inr r' \<longrightarrow> route_fits_go r')"
proof (intro conjI impI)
  assume "decode_route_body tp bd = Inr r"
  then show "route_fits_go r"
  proof (cases bd)
    case (BodyJson v)
    with \<open>decode_route_body tp bd = Inr r\<close> show ?thesis
      by (cases v) (auto simp: decode_route_body_def zero_route_fits
          intro: decode_members_preserves [OF set_route_field_fits])
  qed (simp add: decode_route_body_def)
next
  assume "merge_route_update tp old m = Inr r'"
  then obtain p where dec: "decode_members route_tags (set_route_field tp) (map (\<lambda>(k, v). (k, marshal_val v)) m) zero_route = Inr p"
    and r': "r' = p\<lparr>r_enabled := (case map_of m ''enabled'' of None \<Rightarrow> r_enabled old
                           | Some (JBool v) \<Rightarrow> v | Some _ \<Rightarrow> False)\<rparr>"
    using merge_route_update_Inr by blast
  have "route_fits_go p"
    by (rule decode_members_preserves [where P = route_fits_go, OF set_route_field_fits dec zero_route_fits])
  with r' show "route_fits_go r'" by (simp add: route_fits_go_def)
qed

theorem decoded_routes_fit_go_witness:
  "route_fits_go (ex_route_decoded ''account'') \<and>
   route_fits_go (zero_route\<lparr>r_timeout_ms := 5000, r_enabled := True\<rparr>)"
proof -
  have d: "decode_route_body (\<lambda>_. None) (BodyJson (ex_route_json ''account'' [])) = Inr (ex_route_decoded ''account'')"
    by (simp add: route_eval)
  have m: "merge_route_update (\<lambda>_. None) ex_login_route [(''timeout_ms'', JNum 5000)] =
      Inr (zero_route\<lparr>r_timeout_ms := 5000, r_enabled := True\<rparr>)"
    by (simp add: merge_route_update_def remarshal_def map_index_def route_tags_def field_of_key_def
        ascii_upper_def store_field_def ex_login_route_def)
  show ?thesis
    using decoded_routes_fit_go [of "\<lambda>_. None" "BodyJson (ex_route_json ''account'' [])"
        "ex_route_decoded ''account''" ex_login_route "[(''timeout_ms'', JNum 5000)]"] d m
    by simp
qed



theorem route_refusal_no_change_witness:
  "snd (handle_create_route ex_ctx (ex_request [] [] (ex_route_json ''billing'' [])) ex_db2) = ex_db2 \<and>
   snd (handle_update_route ex_ctx (ex_request ''x'' [] JNull) ex_s1) = ex_s1 \<and>
   snd (handle_delete_route ex_ctx (ex_request ''x'' [] JNull) ex_s1) = ex_s1"
  using route_refusal_no_change [of ex_ctx "ex_request [] [] (ex_route_json ''billing'' [])" ex_db2]
    route_refusal_no_change [of ex_ctx "ex_request ''x'' [] JNull" ex_s1]
    create_route_invalid_reference_witness
  by (simp add: handle_update_route_def handle_delete_route_def ex_request_def parse_uint32_def
      all_digits_def is_digit_def)

end
