(* ===== verification/History_Handler.thy ===== *)
theory History_Handler
  imports Http
begin

text \<open>
  \<open>HistoryHandler.ListHistory\<close> (in \<open>internal/handler/route.go\<close>, after the route
  handler): the query parameters \<open>config_type\<close>, \<open>config_id\<close>, \<open>limit\<close> and
  \<open>offset\<close> are read, the store's \<open>GetHistory\<close> is called, and the page is returned with
  the total and the limit and offset used. The properties of the page itself are those
  of \<open>get_history\<close>: only matching entries, newest first, no more than the limit, and
  the total of the whole filtered set.
\<close>

section \<open>Query parameters\<close>

text \<open>A \<open>config_type\<close> must be \<open>backend\<close> or \<open>route\<close>; \<open>Inl ()\<close> is the 400 answer.\<close>

definition history_type_param :: "(string \<times> string) list \<Rightarrow> unit + string option" where
  "history_type_param q =
     (let t = query_get q ''config_type''
      in if t = [] then Inr None
         else if t \<noteq> ''backend'' \<and> t \<noteq> ''route'' then Inl () else Inr (Some t))"

definition history_id_param :: "(string \<times> string) list \<Rightarrow> unit + row_id option" where
  "history_id_param q =
     (let s = query_get q ''config_id''
      in if s = [] then Inr None
         else (case parse_uint32 s of None \<Rightarrow> Inl () | Some i \<Rightarrow> Inr (Some i)))"

text \<open>
  \<open>limit\<close> is taken when it parses and lies in \<open>1..100\<close>, otherwise the default 50 is
  used; \<open>offset\<close> is taken when it parses and is not negative, otherwise 0. Neither is
  ever an error.
\<close>

definition history_limit :: "(string \<times> string) list \<Rightarrow> int" where
  "history_limit q =
     (let s = query_get q ''limit''
      in if s = [] then 50
         else (case parse_int s of Some l \<Rightarrow> if 0 < l \<and> l \<le> 100 then l else 50 | None \<Rightarrow> 50))"

definition history_offset :: "(string \<times> string) list \<Rightarrow> int" where
  "history_offset q =
     (let s = query_get q ''offset''
      in if s = [] then 0
         else (case parse_int s of Some n \<Rightarrow> if 0 \<le> n then n else 0 | None \<Rightarrow> 0))"

section \<open>The handler\<close>

definition handle_list_history :: "ctx \<Rightarrow> request \<Rightarrow> db \<Rightarrow> response" where
  "handle_list_history c rq d =
     (case history_type_param (rq_query rq) of
        Inl _ \<Rightarrow> Response 400 (OutText ''invalid config_type (must be 'backend' or 'route')'')
      | Inr ty \<Rightarrow> (case history_id_param (rq_query rq) of
          Inl _ \<Rightarrow> Response 400 (OutText ''invalid config_id'')
        | Inr cid \<Rightarrow>
            (let lim = history_limit (rq_query rq); off = history_offset (rq_query rq)
             in case get_history (cx_faults c OpGetHistory) ty cid lim off d of
                  Inl _ \<Rightarrow> internal_error
                | Inr (hs, n) \<Rightarrow> Response 200 (OutHistory hs n lim off))))"

section \<open>Example data\<close>

text \<open>
  A history with two entries of backend 7, one of route 7 and one of backend 8, the
  newest two in the same second; the spec's query \<open>config_type=backend&config_id=7\<close>.
\<close>

definition ex_entry :: "nat \<Rightarrow> string \<Rightarrow> row_id \<Rightarrow> timestamp \<Rightarrow> config_history" where
  "ex_entry i ty cid t = \<lparr>h_id = i, h_config_type = ty, h_config_id = Some cid, h_operation = ''UPDATE'',
     h_old_value = None, h_new_value = None, h_operator = [], h_created_at = t\<rparr>"

definition ex_history_db :: db where
  "ex_history_db = empty_db\<lparr>db_history := [ex_entry 1 ''backend'' 7 1, ex_entry 2 ''route'' 7 2,
     ex_entry 3 ''backend'' 7 3, ex_entry 4 ''backend'' 8 3], db_next_history := 5, db_clock := 4\<rparr>"

definition ex_history_request :: "string \<Rightarrow> request" where
  "ex_history_request l = \<lparr>rq_param = [], rq_query = [(''config_type'', ''backend''), (''config_id'', ''7''),
     (''limit'', l)], rq_operator = [], rq_body = BodyJson JNull\<rparr>"

definition ex_history_ctx :: ctx where
  "ex_history_ctx = \<lparr>cx_faults = no_faults, cx_time = (\<lambda>_. None)\<rparr>"

lemmas history_eval = ex_entry_def ex_history_db_def ex_history_request_def ex_history_ctx_def
  empty_db_def no_faults_def handle_list_history_def history_type_param_def history_id_param_def
  history_limit_def history_offset_def query_get_def parse_uint32_def parse_int_def all_digits_def
  is_digit_def dec_val_def digit_val_def get_history_def history_match_def newest_first_def Let_def

section \<open>Properties\<close>

lemma history_limit_bounds: "0 < history_limit q \<and> history_limit q \<le> 100"
  by (simp add: history_limit_def Let_def split: option.splits)

lemma history_offset_nonneg: "0 \<le> history_offset q"
  by (simp add: history_offset_def Let_def split: option.splits)

lemma handle_list_history_200:
  assumes "handle_list_history c rq d = Response 200 (OutHistory items n lim off)"
  shows "\<exists>ty cid. history_type_param (rq_query rq) = Inr ty \<and> history_id_param (rq_query rq) = Inr cid \<and>
           lim = history_limit (rq_query rq) \<and> off = history_offset (rq_query rq) \<and>
           get_history (cx_faults c OpGetHistory) ty cid lim off d = Inr (items, n)"
  using assms
  by (auto simp: handle_list_history_def Let_def internal_error_def split: sum.splits prod.splits)

text \<open>
  C20. \<open>GetHistory\<close> returns only entries that match both filters, newest first, at most
  \<open>limit\<close> of them, and as total the size of the whole filtered set, not of the page.
\<close>

theorem get_history_page:
  assumes "get_history f ty cid lim off d = Inr (items, n)"
  shows "n = length (filter (history_match ty cid) (db_history d)) \<and>
         set items \<subseteq> {h \<in> set (db_history d). history_match ty cid h} \<and>
         length items \<le> nat lim \<and>
         sorted_wrt (\<lambda>a b. h_created_at b \<le> h_created_at a) items"
  using get_history_Inr [OF assms]
    history_page_props [of "nat lim" "nat off" "filter (history_match ty cid) (db_history d)"]
  by auto

text \<open>
  C21. A 200 answer of \<open>ListHistory\<close> echoes a limit between 1 and 100 and a non-negative
  offset, and its page and total are those of the filters the query names.
\<close>

theorem list_history_page:
  assumes "handle_list_history c rq d = Response 200 (OutHistory items n lim off)"
  shows "1 \<le> lim \<and> lim \<le> 100 \<and> 0 \<le> off \<and> length items \<le> nat lim \<and>
         (\<exists>ty cid. history_type_param (rq_query rq) = Inr ty \<and> history_id_param (rq_query rq) = Inr cid \<and>
            n = length (filter (history_match ty cid) (db_history d)) \<and>
            set items \<subseteq> {h \<in> set (db_history d). history_match ty cid h})"
proof -
  obtain ty cid where p: "history_type_param (rq_query rq) = Inr ty" "history_id_param (rq_query rq) = Inr cid"
    and lo: "lim = history_limit (rq_query rq)" "off = history_offset (rq_query rq)"
    and g: "get_history (cx_faults c OpGetHistory) ty cid lim off d = Inr (items, n)"
    using handle_list_history_200 [OF assms] by blast
  have "1 \<le> lim \<and> lim \<le> 100 \<and> 0 \<le> off"
    using lo history_limit_bounds history_offset_nonneg by (metis int_one_le_iff_zero_less)
  with p get_history_Inr [OF g]
    history_page_props [of "nat lim" "nat off" "filter (history_match ty cid) (db_history d)"]
  show ?thesis by auto
qed

text \<open>
  C22. A \<open>limit\<close> above 100 is not clamped to the maximum nor refused: it silently falls
  back to the default 50, which the answer echoes.
\<close>

theorem list_history_limit_fallback:
  assumes "parse_int (query_get (rq_query rq) ''limit'') = Some l" and "100 < l"
    and "handle_list_history c rq d = Response 200 (OutHistory items n lim off)"
  shows "lim = 50 \<and> length items \<le> 50"
proof -
  obtain ty cid where lo: "lim = history_limit (rq_query rq)"
    and g: "get_history (cx_faults c OpGetHistory) ty cid lim off d = Inr (items, n)"
    using handle_list_history_200 [OF assms(3)] by blast
  have "lim = 50"
    using lo assms(1,2) by (auto simp: history_limit_def Let_def)
  with get_history_Inr [OF g]
    history_page_props [of "nat lim" "nat off" "filter (history_match ty cid) (db_history d)"]
  show ?thesis by simp
qed

section \<open>Witnesses\<close>

lemma ex_history_page:
  "handle_list_history ex_history_ctx (ex_history_request ''1'') ex_history_db =
   Response 200 (OutHistory [ex_entry 3 ''backend'' 7 3] 2 1 0)"
  by (simp add: history_eval)

lemma ex_history_big_limit:
  "handle_list_history ex_history_ctx (ex_history_request ''500'') ex_history_db =
   Response 200 (OutHistory [ex_entry 3 ''backend'' 7 3, ex_entry 1 ''backend'' 7 1] 2 50 0)"
  by (simp add: history_eval)

theorem get_history_page_witness:
  "get_history NoFault (Some ''backend'') (Some 7) 1 0 ex_history_db = Inr ([ex_entry 3 ''backend'' 7 3], 2) \<and>
   2 = length (filter (history_match (Some ''backend'') (Some 7)) (db_history ex_history_db))"
proof -
  have g: "get_history NoFault (Some ''backend'') (Some 7) 1 0 ex_history_db = Inr ([ex_entry 3 ''backend'' 7 3], 2)"
    by (simp add: history_eval)
  with get_history_page [OF g] show ?thesis by simp
qed

theorem list_history_page_witness:
  "(1::int) \<le> 1 \<and> length [ex_entry 3 ''backend'' 7 3] \<le> nat 1 \<and>
   2 = length (filter (history_match (Some ''backend'') (Some 7)) (db_history ex_history_db))"
proof -
  have "history_type_param (rq_query (ex_history_request ''1'')) = Inr (Some ''backend'')"
    "history_id_param (rq_query (ex_history_request ''1'')) = Inr (Some 7)"
    by (simp_all add: history_eval)
  with list_history_page [OF ex_history_page] show ?thesis by auto
qed

theorem list_history_limit_fallback_witness:
  "length [ex_entry 3 ''backend'' 7 3, ex_entry 1 ''backend'' 7 1] \<le> 50"
proof -
  have "parse_int (query_get (rq_query (ex_history_request ''500'')) ''limit'') = Some 500"
    by (simp add: history_eval)
  from list_history_limit_fallback [OF this _ ex_history_big_limit] show ?thesis by simp
qed

end

