(* ===== verification/Cors.thy ===== *)
theory Cors
  imports Prelude
begin

text \<open>
  \<open>CORSMiddleware\<close> of \<open>internal/middleware/cors.go\<close>. The configuration is read once
  from the environment (\<open>getEnv\<close>: an unset or empty variable gives the default); the
  allowed origins are the comma-separated list with blanks trimmed. Each request gets
  the CORS headers; an \<open>OPTIONS\<close> request is answered 200 at once, any other is passed
  on to the router. The environment is a map from variable names to values.
  \<open>strings.TrimSpace\<close> is modelled on the ASCII white space; the multi-byte Unicode
  spaces it also trims are not modelled.
\<close>

section \<open>strings.Split, strings.TrimSpace and getEnv\<close>

fun split_commas :: "string \<Rightarrow> string list" where
  "split_commas [] = [[]]"
| "split_commas (c # cs) =
     (if c = CHR '','' then [] # split_commas cs
      else (case split_commas cs of w # ws \<Rightarrow> (c # w) # ws | [] \<Rightarrow> [[c]]))"

definition is_space :: "char \<Rightarrow> bool" where
  "is_space c \<longleftrightarrow> c \<in> set [CHR '' '', CHR 0x09, CHR 0x0A, CHR 0x0B, CHR 0x0C, CHR 0x0D]"

definition trim_space :: "string \<Rightarrow> string" where
  "trim_space s = rev (dropWhile is_space (rev (dropWhile is_space s)))"

definition get_env :: "(string \<Rightarrow> string option) \<Rightarrow> string \<Rightarrow> string \<Rightarrow> string" where
  "get_env env k dflt = (case env k of Some v \<Rightarrow> if v \<noteq> [] then v else dflt | None \<Rightarrow> dflt)"

section \<open>Configuration\<close>

record cors_config =
  cc_origins :: "string list"
  cc_methods :: string
  cc_headers :: string
  cc_credentials :: bool

definition cors_config_of :: "(string \<Rightarrow> string option) \<Rightarrow> cors_config" where
  "cors_config_of env =
     \<lparr>cc_origins = map trim_space (split_commas (get_env env ''CORS_ALLOWED_ORIGINS'' ''*'')),
      cc_methods = get_env env ''CORS_ALLOWED_METHODS'' ''GET,POST,PUT,DELETE,OPTIONS,PATCH'',
      cc_headers = get_env env ''CORS_ALLOWED_HEADERS'' ''Content-Type,Authorization,X-Requested-With'',
      cc_credentials = (get_env env ''CORS_ALLOW_CREDENTIALS'' ''true'' = ''true'')\<rparr>"

section \<open>determineAllowedOrigin\<close>

text \<open>The loop over the allowed origins: a \<open>*\<close> or the request's origin ends it.\<close>

fun find_allowed :: "string \<Rightarrow> string list \<Rightarrow> string" where
  "find_allowed origin [] = []"
| "find_allowed origin (a # as) =
     (if a = ''*'' then ''*'' else if a = origin then origin else find_allowed origin as)"

definition determine_allowed_origin :: "string \<Rightarrow> string list \<Rightarrow> string" where
  "determine_allowed_origin origin origins =
     (if origin = [] then []
      else if length origins = 1 \<and> hd origins = ''*'' then ''*''
      else find_allowed origin origins)"

section \<open>The middleware\<close>

text \<open>
  The headers set on every response, in the order the code sets them, and whether the
  request ends as a preflight or goes on to the router.
\<close>

definition cors_headers :: "cors_config \<Rightarrow> string \<Rightarrow> (string \<times> string) list" where
  "cors_headers cfg origin =
     (let a = determine_allowed_origin origin (cc_origins cfg)
      in (if a \<noteq> [] then [(''Access-Control-Allow-Origin'', a)] else []) @
         [(''Access-Control-Allow-Methods'', cc_methods cfg),
          (''Access-Control-Allow-Headers'', cc_headers cfg)] @
         (if cc_credentials cfg then [(''Access-Control-Allow-Credentials'', ''true'')] else []) @
         [(''Access-Control-Max-Age'', ''3600'')])"

datatype cors_outcome = Preflight | PassOn

definition cors_middleware ::
  "cors_config \<Rightarrow> string \<Rightarrow> string \<Rightarrow> (string \<times> string) list \<times> cors_outcome" where
  "cors_middleware cfg method origin =
     (cors_headers cfg origin, if method = ''OPTIONS'' then Preflight else PassOn)"

section \<open>The list format of the origins\<close>

text \<open>\<open>strings.Join(origins, ",")\<close>, the format \<open>CORS_ALLOWED_ORIGINS\<close> is written in.\<close>

fun join_commas :: "string list \<Rightarrow> string" where
  "join_commas [] = []"
| "join_commas [w] = w"
| "join_commas (w # v # vs) = w @ CHR '','' # join_commas (v # vs)"

section \<open>Example data\<close>

definition ex_cors_env :: "string \<Rightarrow> string option" where
  "ex_cors_env k = (if k = ''CORS_ALLOWED_ORIGINS'' then Some ''https://a.example, https://b.example'' else None)"

lemmas cors_eval = cors_middleware_def cors_headers_def cors_config_of_def get_env_def trim_space_def
  is_space_def determine_allowed_origin_def ex_cors_env_def Let_def

section \<open>Properties\<close>

lemma split_commas_nonempty: "split_commas s \<noteq> []"
  by (induction s) (auto split: list.splits)

lemma split_commas_prefix:
  "CHR '','' \<notin> set w \<Longrightarrow> split_commas (w @ rest) = (w @ hd (split_commas rest)) # tl (split_commas rest)"
proof (induction w)
  case Nil
  then show ?case using split_commas_nonempty [of rest] by simp
next
  case (Cons c w)
  then show ?case using split_commas_nonempty [of "w @ rest"] by (auto split: list.splits)
qed

lemma find_allowed_result:
  "find_allowed origin as \<noteq> [] \<Longrightarrow>
   (find_allowed origin as = ''*'' \<and> ''*'' \<in> set as) \<or> (find_allowed origin as = origin \<and> origin \<in> set as)"
  by (induction as) auto

lemma determine_allowed_origin_result:
  assumes "determine_allowed_origin origin origins = v" and "v \<noteq> []"
  shows "origin \<noteq> [] \<and> ((v = ''*'' \<and> ''*'' \<in> set origins) \<or> (v = origin \<and> origin \<in> set origins))"
proof (cases "length origins = 1 \<and> hd origins = ''*''")
  case True
  then have "''*'' \<in> set origins" by (cases origins) auto
  with True assms show ?thesis by (auto simp: determine_allowed_origin_def split: if_splits)
next
  case False
  with assms find_allowed_result [of origin origins] show ?thesis
    by (auto simp: determine_allowed_origin_def split: if_splits)
qed

text \<open>
  C23. The middleware never allows an origin that is not configured: an
  \<open>Access-Control-Allow-Origin\<close> header is sent only for a request with an origin, and
  its value is either \<open>*\<close>, configured as an allowed origin, or the request's own origin,
  present in the allowed list.
\<close>

theorem cors_allowed_origin_configured:
  assumes "(''Access-Control-Allow-Origin'', v) \<in> set (fst (cors_middleware cfg m origin))"
  shows "origin \<noteq> [] \<and> ((v = ''*'' \<and> ''*'' \<in> set (cc_origins cfg)) \<or> (v = origin \<and> origin \<in> set (cc_origins cfg)))"
proof -
  from assms have "determine_allowed_origin origin (cc_origins cfg) = v" and "v \<noteq> []"
    by (auto simp: cors_middleware_def cors_headers_def Let_def split: if_splits)
  then show ?thesis by (rule determine_allowed_origin_result)
qed

text \<open>
  With no CORS variable set, every request with an origin gets both
  \<open>Access-Control-Allow-Origin: *\<close> and \<open>Access-Control-Allow-Credentials: true\<close>, the
  combination the comment of \<open>determineAllowedOrigin\<close> rules out ("wildcard is allowed
  and credentials are not required") and browsers reject for credentialed requests.
\<close>

theorem cors_default_wildcard_credentials:
  assumes "origin \<noteq> []"
  shows "(''Access-Control-Allow-Origin'', ''*'') \<in> set (fst (cors_middleware (cors_config_of (\<lambda>_. None)) m origin)) \<and>
         (''Access-Control-Allow-Credentials'', ''true'') \<in> set (fst (cors_middleware (cors_config_of (\<lambda>_. None)) m origin))"
  using assms
  by (simp add: cors_middleware_def cors_headers_def cors_config_of_def get_env_def trim_space_def
      is_space_def determine_allowed_origin_def)

text \<open>
  Splitting the joined list of origins gives the list back, for any non-empty list of
  origins without commas: the configuration format loses nothing.
\<close>

theorem split_commas_join:
  "ws \<noteq> [] \<Longrightarrow> (\<forall>w \<in> set ws. CHR '','' \<notin> set w) \<Longrightarrow> split_commas (join_commas ws) = ws"
proof (induction ws rule: induct_list012)
  case 1
  then show ?case by simp
next
  case (2 w)
  then show ?case using split_commas_prefix [of w "[]"] by simp
next
  case (3 w v vs)
  then have "split_commas (join_commas (v # vs)) = v # vs" by simp
  with "3.prems" show ?case
    using split_commas_prefix [of w "CHR '','' # join_commas (v # vs)"] by simp
qed

section \<open>Witnesses\<close>

theorem cors_allowed_origin_configured_witness:
  "''https://b.example'' \<in> set (cc_origins (cors_config_of ex_cors_env)) \<and>
   ''https://c.example'' \<notin> set (cc_origins (cors_config_of ex_cors_env))"
proof -
  have "(''Access-Control-Allow-Origin'', ''https://b.example'') \<in>
          set (fst (cors_middleware (cors_config_of ex_cors_env) ''GET'' ''https://b.example''))"
    by (simp add: cors_eval)
  from cors_allowed_origin_configured [OF this] have "''https://b.example'' \<in> set (cc_origins (cors_config_of ex_cors_env))"
    by simp
  moreover have "''https://c.example'' \<notin> set (cc_origins (cors_config_of ex_cors_env))"
    by (simp add: cors_eval)
  ultimately show ?thesis ..
qed

theorem cors_default_wildcard_credentials_witness:
  "(''Access-Control-Allow-Origin'', ''*'') \<in> set (fst (cors_middleware (cors_config_of (\<lambda>_. None)) ''POST'' ''https://evil.example'')) \<and>
   (''Access-Control-Allow-Credentials'', ''true'') \<in> set (fst (cors_middleware (cors_config_of (\<lambda>_. None)) ''POST'' ''https://evil.example''))"
  by (rule cors_default_wildcard_credentials) simp

theorem split_commas_join_witness:
  "split_commas (join_commas [''https://a.example'', ''https://b.example'']) = [''https://a.example'', ''https://b.example'']"
  by (rule split_commas_join) simp_all

end

