(* ===== verification/System.thy ===== *)
theory System
  imports Route_Handler History_Handler
begin

text \<open>
  The service as a transition system. Every mutating endpoint is one step, with an
  arbitrary context (any combination of store faults) and request; time passing is a
  step of its own. Each handler's effect is shown to be a sequence of elementary store
  transitions (insert a backend whose name is absent, rewrite backends keeping name and
  id, insert a route on an existing backend, rewrite a route keeping its id and a
  resolvable backend name, append a history entry), and the invariants are proved for
  those transitions: the handlers refine the elementary store.
\<close>

section \<open>Elementary store transitions\<close>

inductive store_step :: "db \<Rightarrow> db \<Rightarrow> bool" where
  ins_backend: "find (\<lambda>x. b_name x = b_name b) (db_backends d) = None \<Longrightarrow>
    store_step d (d\<lparr>db_backends := db_backends d @ [backend_row b (db_next_backend d) (db_clock d)],
                    db_next_backend := Suc (db_next_backend d)\<rparr>)"
| upd_backends: "(\<And>x. b_name (g x) = b_name x \<and> b_id (g x) = b_id x) \<Longrightarrow>
    store_step d (d\<lparr>db_backends := update_where p g (db_backends d)\<rparr>)"
| ins_route: "r_backend_name r \<in> b_name ` set (db_backends d) \<Longrightarrow>
    store_step d (d\<lparr>db_routes := db_routes d @ [route_row r (db_next_route d) (db_clock d)],
                    db_next_route := Suc (db_next_route d)\<rparr>)"
| upd_routes: "(\<And>x. r_id (g x) = r_id x) \<Longrightarrow>
    (\<And>x. x \<in> set (db_routes d) \<Longrightarrow> p x \<Longrightarrow>
       r_backend_name (g x) = r_backend_name x \<or> r_backend_name (g x) \<in> b_name ` set (db_backends d)) \<Longrightarrow>
    store_step d (d\<lparr>db_routes := update_where p g (db_routes d)\<rparr>)"
| app_history: "store_step d (d\<lparr>db_history := db_history d @ [h\<lparr>h_id := db_next_history d, h_created_at := db_clock d\<rparr>],
                    db_next_history := Suc (db_next_history d)\<rparr>)"

section \<open>The invariant\<close>

definition db_inv :: "db \<Rightarrow> bool" where
  "db_inv d \<longleftrightarrow>
     (\<forall>r \<in> set (db_routes d). r_backend_name r \<in> b_name ` set (db_backends d)) \<and>
     distinct (map b_name (db_backends d)) \<and>
     distinct (map b_id (db_backends d)) \<and> (\<forall>b \<in> set (db_backends d). b_id b < db_next_backend d) \<and>
     distinct (map r_id (db_routes d)) \<and> (\<forall>r \<in> set (db_routes d). r_id r < db_next_route d) \<and>
     sorted_wrt (<) (map h_id (db_history d)) \<and> (\<forall>h \<in> set (db_history d). h_id h < db_next_history d) \<and>
     sorted (map h_created_at (db_history d)) \<and> (\<forall>h \<in> set (db_history d). h_created_at h \<le> db_clock d)"

abbreviation store_steps :: "db \<Rightarrow> db \<Rightarrow> bool" where
  "store_steps \<equiv> store_step\<^sup>*\<^sup>*"

section \<open>The service as a transition system\<close>

inductive sys_step :: "db \<Rightarrow> db \<Rightarrow> bool" where
  create_backend_call: "sys_step d (snd (handle_create_backend c rq d))"
| update_backend_call: "sys_step d (snd (handle_update_backend c rq d))"
| delete_backend_call: "sys_step d (snd (handle_delete_backend c rq d))"
| create_route_call: "sys_step d (snd (handle_create_route c rq d))"
| update_route_call: "sys_step d (snd (handle_update_route c rq d))"
| delete_route_call: "sys_step d (snd (handle_delete_route c rq d))"
| tick: "db_clock d \<le> t \<Longrightarrow> sys_step d (d\<lparr>db_clock := t\<rparr>)"

inductive reachable :: "db \<Rightarrow> bool" where
  init: "reachable empty_db"
| step: "reachable d \<Longrightarrow> sys_step d d' \<Longrightarrow> reachable d'"

definition ex_r1 :: db where
  "ex_r1 = snd (handle_create_backend ex_ctx (ex_request [] [] ex_create_body) empty_db)"

definition ex_r2 :: db where
  "ex_r2 = snd (handle_create_route ex_ctx (ex_request [] [] (ex_route_json ''account'' [])) ex_r1)"

section \<open>The invariant is kept by the elementary transitions\<close>

lemma bound_image_eq:
  "f ` A = f ` B \<Longrightarrow> \<forall>x \<in> B. f x < n \<Longrightarrow> \<forall>x \<in> A. f x < n"
  by (metis imageE imageI)

lemma db_inv_ins_backend:
  assumes "find (\<lambda>x. b_name x = b_name b) (db_backends d) = None" and "db_inv d"
  shows "db_inv (d\<lparr>db_backends := db_backends d @ [backend_row b (db_next_backend d) (db_clock d)],
                    db_next_backend := Suc (db_next_backend d)\<rparr>)"
proof -
  from assms(1) have "b_name b \<notin> b_name ` set (db_backends d)"
    by (auto simp: find_None_iff')
  moreover from assms(2) have "db_next_backend d \<notin> b_id ` set (db_backends d)"
    by (auto simp: db_inv_def)
  ultimately show ?thesis
    using assms(2) unfolding db_inv_def by (simp add: backend_row_def less_Suc_eq)
qed

lemma db_inv_upd_backends:
  assumes "\<And>x. b_name (g x) = b_name x \<and> b_id (g x) = b_id x" and "db_inv d"
  shows "db_inv (d\<lparr>db_backends := update_where p g (db_backends d)\<rparr>)"
proof -
  from assms(1) have n: "map b_name (update_where p g (db_backends d)) = map b_name (db_backends d)"
    and i: "map b_id (update_where p g (db_backends d)) = map b_id (db_backends d)"
    by (simp_all add: map_update_where)
  from n have ns: "b_name ` set (update_where p g (db_backends d)) = b_name ` set (db_backends d)"
    by (metis list.set_map)
  from i have "b_id ` set (update_where p g (db_backends d)) = b_id ` set (db_backends d)"
    by (metis list.set_map)
  moreover from assms(2) have "\<forall>b \<in> set (db_backends d). b_id b < db_next_backend d"
    by (simp add: db_inv_def)
  ultimately have "\<forall>b \<in> set (update_where p g (db_backends d)). b_id b < db_next_backend d"
    by (rule bound_image_eq)
  with assms(2) n i ns show ?thesis
    unfolding db_inv_def by simp
qed

lemma db_inv_ins_route:
  assumes "r_backend_name r \<in> b_name ` set (db_backends d)" and "db_inv d"
  shows "db_inv (d\<lparr>db_routes := db_routes d @ [route_row r (db_next_route d) (db_clock d)],
                    db_next_route := Suc (db_next_route d)\<rparr>)"
proof -
  from assms(2) have "db_next_route d \<notin> r_id ` set (db_routes d)"
    by (auto simp: db_inv_def)
  with assms show ?thesis
    unfolding db_inv_def by (simp add: route_row_def less_Suc_eq)
qed

lemma db_inv_upd_routes:
  assumes "\<And>x. r_id (g x) = r_id x"
    and "\<And>x. x \<in> set (db_routes d) \<Longrightarrow> p x \<Longrightarrow>
       r_backend_name (g x) = r_backend_name x \<or> r_backend_name (g x) \<in> b_name ` set (db_backends d)"
    and "db_inv d"
  shows "db_inv (d\<lparr>db_routes := update_where p g (db_routes d)\<rparr>)"
proof -
  have i: "map r_id (update_where p g (db_routes d)) = map r_id (db_routes d)"
    using assms(1) by (simp add: map_update_where)
  then have ids: "r_id ` set (update_where p g (db_routes d)) = r_id ` set (db_routes d)"
    by (metis list.set_map)
  have refs: "\<forall>y \<in> set (update_where p g (db_routes d)). r_backend_name y \<in> b_name ` set (db_backends d)"
  proof
    fix y assume "y \<in> set (update_where p g (db_routes d))"
    from update_where_in_set [OF this] obtain x where x: "x \<in> set (db_routes d)"
      and y: "y = (if p x then g x else x)" by blast
    have "r_backend_name x \<in> b_name ` set (db_backends d)"
      using assms(3) x by (simp add: db_inv_def)
    with assms(2) [OF x] y show "r_backend_name y \<in> b_name ` set (db_backends d)"
      by (cases "p x") auto
  qed
  from assms(3) have bnd: "\<forall>y \<in> set (db_routes d). r_id y < db_next_route d"
    by (simp add: db_inv_def)
  have "\<forall>y \<in> set (update_where p g (db_routes d)). r_id y < db_next_route d"
    by (rule bound_image_eq [OF ids bnd])
  with assms(3) i refs show ?thesis
    unfolding db_inv_def by simp
qed

lemma db_inv_app_history:
  assumes "db_inv d"
  shows "db_inv (d\<lparr>db_history := db_history d @ [h\<lparr>h_id := db_next_history d, h_created_at := db_clock d\<rparr>],
                    db_next_history := Suc (db_next_history d)\<rparr>)"
proof -
  from assms show ?thesis
    unfolding db_inv_def by (simp add: sorted_append sorted_wrt_append less_Suc_eq)
qed

lemma db_inv_store_step:
  "store_step d d' \<Longrightarrow> db_inv d \<Longrightarrow> db_inv d'"
  by (induction rule: store_step.induct)
     (simp_all add: db_inv_ins_backend db_inv_upd_backends db_inv_ins_route db_inv_upd_routes
        db_inv_app_history)

section \<open>The handlers refine the elementary transitions\<close>

lemma record_history_steps: "store_steps d (record_history c ty cid op old new rq d)"
proof (cases "cx_faults c OpCreateHistory = ExecFails")
  case True
  then show ?thesis by (simp add: record_history_fails)
next
  case False
  let ?h = "\<lparr>h_id = 0, h_config_type = ty, h_config_id = Some cid, h_operation = op,
        h_old_value = old, h_new_value = new, h_operator = rq_operator rq, h_created_at = 0\<rparr>"
  from False have "record_history c ty cid op old new rq d =
      d\<lparr>db_history := db_history d @ [?h\<lparr>h_id := db_next_history d, h_created_at := db_clock d\<rparr>],
        db_next_history := Suc (db_next_history d)\<rparr>"
    unfolding record_history_def create_history_def by (simp only: if_False snd_conv)
  then show ?thesis
    by (simp only:) (rule r_into_rtranclp, rule store_step.app_history)
qed

lemma create_backend_steps:
  "find (\<lambda>x. b_name x = b_name b) (db_backends d) = None \<Longrightarrow> store_steps d (snd (create_backend f b d))"
  by (auto simp: create_backend_def Let_def intro: store_step.ins_backend)

lemma update_backend_steps: "store_steps d (snd (update_backend f n b d))"
  by (auto simp: update_backend_def Let_def backend_set_def
      intro!: store_step.upd_backends)

lemma delete_backend_steps: "store_steps d (snd (delete_backend f n d))"
  by (auto simp: delete_backend_def Let_def backend_disable_def
      intro!: store_step.upd_backends)

lemma create_route_steps:
  "r_backend_name r \<in> b_name ` set (db_backends d) \<Longrightarrow> store_steps d (snd (create_route f r d))"
  by (auto simp: create_route_def Let_def intro: store_step.ins_route)

lemma update_route_steps:
  assumes "\<And>x. x \<in> set (db_routes d) \<Longrightarrow> r_id x = i \<Longrightarrow>
             r_backend_name r = r_backend_name x \<or> r_backend_name r \<in> b_name ` set (db_backends d)"
  shows "store_steps d (snd (update_route f i r d))"
proof -
  have "store_step d (d\<lparr>db_routes := update_where (\<lambda>x. r_id x = i) (route_set r (db_clock d)) (db_routes d)\<rparr>)"
    by (rule store_step.upd_routes) (use assms in \<open>auto simp: route_set_def\<close>)
  then show ?thesis
    by (auto simp: update_route_def Let_def)
qed

lemma delete_route_steps: "store_steps d (snd (delete_route f i d))"
  by (auto simp: delete_route_def Let_def route_disable_def
      intro!: store_step.upd_routes)


lemma steps_then_history:
  "store_steps d d1 \<Longrightarrow> store_steps d (record_history c ty cid op old new rq d1)"
  by (erule rtranclp_trans) (rule record_history_steps)

lemma handle_create_backend_steps: "store_steps d (snd (handle_create_backend c rq d))"
proof (cases "decode_backend_body (cx_time c) (rq_body rq)")
  case (Inl e) then show ?thesis by (simp add: handle_create_backend_def)
next
  case (Inr b)
  show ?thesis
  proof (cases "b_name b = [] \<or> b_addr b = []")
    case True with Inr show ?thesis by (auto simp: handle_create_backend_def)
  next
    case False
    show ?thesis
    proof (cases "get_backend_by_name (cx_faults c OpGetBackendByName) (b_name b) d = Inr None")
      case None: True
      let ?b1 = "if query_has (rq_query rq) ''enabled'' then b else b\<lparr>b_enabled := True\<rparr>"
      from None have "find (\<lambda>x. b_name x = b_name ?b1) (db_backends d) = None"
        by (simp add: get_backend_by_name_def split: if_splits)
      then have st: "store_steps d (snd (create_backend (cx_faults c OpCreateBackend) ?b1 d))"
        by (rule create_backend_steps)
      obtain u d1 where u: "create_backend (cx_faults c OpCreateBackend) ?b1 d = (u, d1)"
        by (cases "create_backend (cx_faults c OpCreateBackend) ?b1 d")
      from st u have "store_steps d d1" by simp
      with Inr False None u show ?thesis
        by (cases u) (simp_all add: handle_create_backend_def steps_then_history)
    next
      case other: False
      with Inr False show ?thesis
        by (auto simp: handle_create_backend_def split: sum.splits option.splits)
    qed
  qed
qed

lemma update_backend_steps': "update_backend f n b d = (u, d1) \<Longrightarrow> store_steps d d1"
  using update_backend_steps [of d f n b] by simp

lemma delete_backend_steps': "delete_backend f n d = (u, d1) \<Longrightarrow> store_steps d d1"
  using delete_backend_steps [of d f n] by simp

lemma delete_route_steps': "delete_route f i d = (u, d1) \<Longrightarrow> store_steps d d1"
  using delete_route_steps [of d f i] by simp

lemma handle_update_backend_steps: "store_steps d (snd (handle_update_backend c rq d))"
  unfolding handle_update_backend_def Let_def
  by (auto split: sum.splits option.splits prod.splits
      intro: steps_then_history dest: update_backend_steps')

lemma handle_delete_backend_steps: "store_steps d (snd (handle_delete_backend c rq d))"
  unfolding handle_delete_backend_def Let_def
  by (auto split: sum.splits option.splits prod.splits
      intro: steps_then_history dest: delete_backend_steps')

lemma handle_delete_route_steps: "store_steps d (snd (handle_delete_route c rq d))"
  unfolding handle_delete_route_def
  by (auto split: sum.splits option.splits prod.splits
      intro: steps_then_history dest: delete_route_steps')


lemma check_backend_ref_name:
  "check_backend_ref c n d = Inr u \<Longrightarrow> n \<in> b_name ` set (db_backends d)"
  using check_backend_ref_ok find_Some_in_set by fastforce

lemma create_route_steps':
  "create_route f r d = (u, d1) \<Longrightarrow> r_backend_name r = b_name x \<Longrightarrow> x \<in> set (db_backends d) \<Longrightarrow>
   store_steps d d1"
  using create_route_steps [of r d f] by force

lemma handle_create_route_steps: "store_steps d (snd (handle_create_route c rq d))"
  unfolding handle_create_route_def
  by (auto split: sum.splits option.splits prod.splits
      intro: steps_then_history dest!: check_backend_ref_name
      dest: create_route_steps')

lemma find_distinct_unique:
  "distinct (map k xs) \<Longrightarrow> find (\<lambda>x. k x = v) xs = Some y \<Longrightarrow> x \<in> set xs \<Longrightarrow> k x = v \<Longrightarrow> x = y"
  using find_Some_in_set [of "\<lambda>x. k x = v" xs y] by (metis distinct_map inj_onD)


lemma update_route_ref_ok:
  assumes "db_inv d" and "get_route_by_id f i d = Inr (Some old)"
    and "(if r_backend_name r \<noteq> r_backend_name old then check_backend_ref c (r_backend_name r) d else Inr ()) = Inr u"
    and "x \<in> set (db_routes d)" and "r_id x = i"
  shows "r_backend_name r = r_backend_name x \<or> r_backend_name r \<in> b_name ` set (db_backends d)"
proof (cases "r_backend_name r = r_backend_name old")
  case True
  from assms(2) have "find (\<lambda>x. r_id x = i) (db_routes d) = Some old"
    by (simp add: get_route_by_id_def split: if_splits)
  with assms(1,4,5) have "x = old"
    using find_distinct_unique [of r_id "db_routes d" i old x] by (simp add: db_inv_def)
  with True show ?thesis by simp
next
  case False
  with assms(3) show ?thesis by (simp add: check_backend_ref_name)
qed

lemma update_route_steps':
  "update_route f i r d = (u, d1) \<Longrightarrow>
   (\<And>x. x \<in> set (db_routes d) \<Longrightarrow> r_id x = i \<Longrightarrow>
      r_backend_name r = r_backend_name x \<or> r_backend_name r \<in> b_name ` set (db_backends d)) \<Longrightarrow>
   store_steps d d1"
  using update_route_steps [of d i r f] by simp

lemma handle_update_route_steps:
  assumes inv: "db_inv d"
  shows "store_steps d (snd (handle_update_route c rq d))"
proof (cases "\<exists>i old m r u. parse_uint32 (rq_param rq) = Some i \<and>
                get_route_by_id (cx_faults c OpGetRouteByID) i d = Inr (Some old) \<and>
                decode_map_body (rq_body rq) = Inr m \<and> merge_route_update (cx_time c) old m = Inr r \<and>
                route_fields_present r \<and>
                (if r_backend_name r \<noteq> r_backend_name old
                 then check_backend_ref c (r_backend_name r) d else Inr ()) = Inr u")
  case True
  then obtain i old m r u where i: "parse_uint32 (rq_param rq) = Some i"
    and g: "get_route_by_id (cx_faults c OpGetRouteByID) i d = Inr (Some old)"
    and m: "decode_map_body (rq_body rq) = Inr m" and r: "merge_route_update (cx_time c) old m = Inr r"
    and fp: "route_fields_present r"
    and ck: "(if r_backend_name r \<noteq> r_backend_name old
              then check_backend_ref c (r_backend_name r) d else Inr ()) = Inr u" by blast
  obtain v d1 where v: "update_route (cx_faults c OpUpdateRoute) i (r\<lparr>r_id := i\<rparr>) d = (v, d1)"
    by (cases "update_route (cx_faults c OpUpdateRoute) i (r\<lparr>r_id := i\<rparr>) d")
  have "store_steps d d1"
    by (rule update_route_steps' [OF v]) (use update_route_ref_ok [OF inv g ck] in simp)
  with i g m r fp ck v show ?thesis
    by (cases v) (simp_all add: handle_update_route_def steps_then_history)
next
  case False
  then show ?thesis
    unfolding handle_update_route_def
    by (auto split: sum.splits option.splits if_splits)
qed

section \<open>Invariants of the reachable states\<close>

lemma db_inv_empty: "db_inv empty_db"
  by (simp add: db_inv_def empty_db_def)

lemma db_inv_store_steps: "store_steps d d' \<Longrightarrow> db_inv d \<Longrightarrow> db_inv d'"
  by (induction rule: rtranclp_induct) (auto intro: db_inv_store_step)

lemma db_inv_tick: "db_inv d \<Longrightarrow> db_clock d \<le> t \<Longrightarrow> db_inv (d\<lparr>db_clock := t\<rparr>)"
  unfolding db_inv_def by (auto intro: order_trans)

lemma db_inv_sys_step:
  assumes "sys_step d d'" and "db_inv d"
  shows "db_inv d'"
  using assms
proof (induction rule: sys_step.induct)
  case (update_route_call d c rq)
  then show ?case using db_inv_store_steps handle_update_route_steps by blast
qed (use db_inv_store_steps handle_create_backend_steps handle_update_backend_steps
       handle_delete_backend_steps handle_create_route_steps handle_delete_route_steps db_inv_tick in blast)+

lemma reachable_db_inv: "reachable d \<Longrightarrow> db_inv d"
  by (induction rule: reachable.induct) (auto simp: db_inv_empty intro: db_inv_sys_step)

text \<open>
  C24. In every state the service can reach from the empty database, whatever faults the
  store meets, every route names a backend that has a row: backends are never removed
  and never renamed, and a route is only inserted or moved onto an existing backend.
  (That backend may since have been disabled; only existence is kept.)
\<close>

theorem reachable_routes_resolve:
  "reachable d \<Longrightarrow> \<forall>r \<in> set (db_routes d). \<exists>b \<in> set (db_backends d). b_name b = r_backend_name r"
  by (drule reachable_db_inv) (force simp: db_inv_def)

text \<open>
  C25. When requests run one after another, backend names stay distinct although no
  unique index is assumed: the existence check of \<open>CreateBackend\<close> suffices, so the
  \<open>LIMIT 1\<close> lookup by name is unambiguous.
\<close>

theorem reachable_backend_names_distinct:
  "reachable d \<Longrightarrow> distinct (map b_name (db_backends d))"
  by (drule reachable_db_inv) (simp add: db_inv_def)

text \<open>
  In every reachable state the history ids strictly increase along the table and stay
  below the counter, and
  the entries are in non-decreasing order of creation time, none later than the clock.
\<close>

theorem reachable_history_ordered:
  "reachable d \<Longrightarrow> sorted_wrt (<) (map h_id (db_history d)) \<and> sorted (map h_created_at (db_history d)) \<and>
     (\<forall>h \<in> set (db_history d). h_id h < db_next_history d \<and> h_created_at h \<le> db_clock d)"
  by (drule reachable_db_inv) (simp add: db_inv_def)

lemma store_step_history_prefix: "store_step d d' \<Longrightarrow> prefix (db_history d) (db_history d')"
  by (induction rule: store_step.induct) simp_all

lemma store_steps_history_prefix: "store_steps d d' \<Longrightarrow> prefix (db_history d) (db_history d')"
  by (induction rule: rtranclp_induct) (auto dest: store_step_history_prefix intro: prefix_order.trans)

text \<open>
  C26. The audit history is append-only: no step of the service removes or changes an
  existing entry.
\<close>

theorem sys_step_history_append_only:
  assumes "sys_step d d'" and "db_inv d"
  shows "prefix (db_history d) (db_history d')"
  using assms
proof (induction rule: sys_step.induct)
  case (update_route_call d c rq)
  then show ?case using store_steps_history_prefix handle_update_route_steps by blast
qed (use store_steps_history_prefix handle_create_backend_steps handle_update_backend_steps
       handle_delete_backend_steps handle_create_route_steps handle_delete_route_steps in auto)


text \<open>
  C27. The check-then-act race of the spec: when two creations of the same name both pass
  the existence check before either inserts, both rows are inserted and the name occurs
  twice, breaking the distinctness that sequential execution keeps.
\<close>

theorem concurrent_create_duplicates:
  assumes "get_backend_by_name NoFault (b_name b1) d = Inr None"
    and "get_backend_by_name NoFault (b_name b2) d = Inr None"
    and "b_name b2 = b_name b1"
  shows "length (filter (\<lambda>x. b_name x = b_name b1)
            (db_backends (snd (create_backend NoFault b2 (snd (create_backend NoFault b1 d)))))) = 2"
  using assms by (simp add: get_backend_by_name_def create_backend_def backend_row_def Let_def
      filter_empty_conv find_None_iff')

lemma ex_r2_reachable: "reachable ex_r2"
  unfolding ex_r2_def ex_r1_def
  by (rule reachable.step [OF reachable.step [OF reachable.init sys_step.create_backend_call]
        sys_step.create_route_call])

lemma ex_r2_tables:
  "db_backends ex_r2 = [backend_row (ex_decoded\<lparr>b_enabled := True\<rparr>) 1 1] \<and>
   db_routes ex_r2 = [route_row (route_defaults (ex_request [] [] (ex_route_json ''account'' []))
      (ex_route_decoded ''account'')) 1 1]"
  by (simp add: ex_r2_def ex_r1_def route_eval handle_create_backend_def
      create_backend_def)

theorem reachable_routes_resolve_witness:
  "\<exists>b. b \<in> set (db_backends ex_r2) \<and> b_name b = ''account''"
proof -
  have "route_row (route_defaults (ex_request [] [] (ex_route_json ''account'' []))
      (ex_route_decoded ''account'')) 1 1 \<in> set (db_routes ex_r2)"
    using ex_r2_tables by simp
  with reachable_routes_resolve [OF ex_r2_reachable] show ?thesis
    by (force simp: route_eval)
qed

theorem reachable_backend_names_distinct_witness:
  "distinct (map b_name (db_backends ex_r2))"
  by (rule reachable_backend_names_distinct [OF ex_r2_reachable])

theorem reachable_history_ordered_witness:
  "sorted_wrt (<) (map h_id (db_history ex_r2)) \<and> sorted (map h_created_at (db_history ex_r2))"
  using reachable_history_ordered [OF ex_r2_reachable] by simp

theorem sys_step_history_append_only_witness:
  "prefix (db_history ex_r1) (db_history ex_r2)"
proof -
  have "reachable ex_r1"
    unfolding ex_r1_def by (rule reachable.step [OF reachable.init sys_step.create_backend_call])
  then have "db_inv ex_r1" by (rule reachable_db_inv)
  then show ?thesis
    unfolding ex_r2_def by (rule sys_step_history_append_only [OF sys_step.create_route_call])
qed

theorem concurrent_create_duplicates_witness:
  "length (filter (\<lambda>x. b_name x = ''account'')
     (db_backends (snd (create_backend NoFault ex_decoded (snd (create_backend NoFault ex_decoded empty_db)))))) = 2"
  using concurrent_create_duplicates [of ex_decoded empty_db ex_decoded]
  by (simp add: get_backend_by_name_def empty_db_def ex_decoded_def)

section \<open>A disabled backend can always be enabled again\<close>

text \<open>The merge of an update payload giving an address and \<open>enabled: true\<close>.\<close>

lemma merge_enable_body:
  "merge_backend_update tp old (go_map [(''addr'', JStr a), (''enabled'', JBool True)]) =
   Inr (zero_backend\<lparr>b_addr := a, b_enabled := True\<rparr>)"
  by (simp add: merge_backend_update_def go_map_def remarshal_def map_index_def backend_tags_def
      field_of_key_def ascii_upper_def store_field_def)

text \<open>
  C31. Soft deletion is recoverable: from any state in which a backend is stored disabled,
  one fault-free \<open>UpdateBackend\<close> call carrying an address and \<open>enabled: true\<close> is a
  step of the service that answers 200 and leaves the backend enabled under its name.
\<close>

theorem backend_reenable:
  assumes old: "index_by b_name (db_backends d) n = Some b" and off: "\<not> b_enabled b"
    and a: "a \<noteq> []" and c: "cx_faults c = no_faults"
    and rq: "rq_param rq = n" "rq_body rq = BodyJson (JObj [(''addr'', JStr a), (''enabled'', JBool True)])"
  shows "fst (handle_update_backend c rq d) =
           Response 200 (OutBackend (zero_backend\<lparr>b_addr := a, b_enabled := True, b_id := b_id b,
                                      b_name := n, b_updated_at := db_clock d\<rparr>)) \<and>
         sys_step d (snd (handle_update_backend c rq d)) \<and>
         (\<exists>b'. index_by b_name (db_backends (snd (handle_update_backend c rq d))) n = Some b' \<and>
               b_enabled b' \<and> b_addr b' = a)"
proof -
  let ?nb = "zero_backend\<lparr>b_addr := a, b_enabled := True\<rparr>"
  let ?g = "backend_set (?nb\<lparr>b_id := b_id b, b_name := n\<rparr>) (db_clock d)"
  have f: "find (\<lambda>x. b_name x = n) (db_backends d) = Some b"
    using old by (simp add: find_index_by)
  have mem: "b \<in> set (db_backends d)" "b_name b = n"
    using index_by_Some [OF old] by auto
  have ne: "?g b \<noteq> b"
  proof
    assume "?g b = b"
    then have "b_enabled (?g b) = b_enabled b" by simp
    with off show False by (simp add: backend_set_def)
  qed
  have ch: "changed_rows (\<lambda>r. b_name r = n) ?g (db_backends d) \<noteq> 0"
    using changed_rows_pos [of "\<lambda>r. b_name r = n" b "db_backends d" ?g, OF _ _ ne] mem by simp
  have gm: "go_map [(''addr'', JStr a), (''enabled'', JBool True)] = [(''addr'', JStr a), (''enabled'', JBool True)]"
    by (simp add: go_map_def)
  have h: "handle_update_backend c rq d =
     (Response 200 (OutBackend (?nb\<lparr>b_id := b_id b, b_name := n, b_updated_at := db_clock d\<rparr>)),
      record_history c ''backend'' (b_id b) ''UPDATE'' (Some (SnapBackend b))
        (Some (SnapBackend (?nb\<lparr>b_id := b_id b, b_name := n, b_updated_at := db_clock d\<rparr>))) rq
        (d\<lparr>db_backends := update_where (\<lambda>r. b_name r = n) ?g (db_backends d)\<rparr>))"
    using f ch a c rq merge_enable_body [of "cx_time c" b a, unfolded gm]
    by (simp add: handle_update_backend_def get_backend_by_name_def decode_map_body_def gm
        update_backend_def no_faults_def Let_def)
  have "index_by b_name (update_where (\<lambda>r. b_name r = n) ?g (db_backends d)) n = Some (?g b)"
    using index_by_update_where [of b_name ?g "\<lambda>r. b_name r = n" "db_backends d" n] old mem
    by simp
  then show ?thesis
    using h sys_step.update_backend_call [of d c rq] by (simp add: backend_set_def)
qed

theorem backend_reenable_witness:
  "sys_step (ex_db\<lparr>db_backends := [ex_account\<lparr>b_enabled := False\<rparr>]\<rparr>)
     (snd (handle_update_backend ex_ctx
        (ex_request ''account'' [] (JObj [(''addr'', JStr ''10.0.0.7:50051''), (''enabled'', JBool True)]))
        (ex_db\<lparr>db_backends := [ex_account\<lparr>b_enabled := False\<rparr>]\<rparr>))) \<and>
   (\<exists>b'. index_by b_name (db_backends (snd (handle_update_backend ex_ctx
        (ex_request ''account'' [] (JObj [(''addr'', JStr ''10.0.0.7:50051''), (''enabled'', JBool True)]))
        (ex_db\<lparr>db_backends := [ex_account\<lparr>b_enabled := False\<rparr>]\<rparr>)))) ''account'' = Some b' \<and>
      b_enabled b' \<and> b_addr b' = ''10.0.0.7:50051'')"
  using backend_reenable [of "ex_db\<lparr>db_backends := [ex_account\<lparr>b_enabled := False\<rparr>]\<rparr>" "''account''"
      "ex_account\<lparr>b_enabled := False\<rparr>" "''10.0.0.7:50051''" ex_ctx
      "ex_request ''account'' [] (JObj [(''addr'', JStr ''10.0.0.7:50051''), (''enabled'', JBool True)])"]
  by (simp add: ex_account_def ex_request_def)

end
