(* ===== verification/Registry.thy ===== *)
theory Registry
  imports Entities
begin

text \<open>
  The abstract specification of the configuration store, as the spec states it
  (sections 3 and 4): a registry of backends keyed by name, routes keyed by id, and an
  audit log. Its operations are the changes the spec allows: register a backend under a
  new name, change backends without renaming them (update and soft delete), register a
  route under a new id on a registered backend, change routes without changing their id
  and only onto registered backends, and log an entry. Nothing is ever unregistered and
  the log only grows. \<open>Refinement\<close> shows that the store of \<open>mysql_store.go\<close>, driven
  by the handlers, implements this specification.
\<close>

record registry =
  reg_backends :: "string \<rightharpoonup> backend"
  reg_routes :: "row_id \<rightharpoonup> route"
  reg_log :: "config_history list"

inductive reg_step :: "registry \<Rightarrow> registry \<Rightarrow> bool" where
  register_backend: "reg_backends R (b_name b) = None \<Longrightarrow>
    reg_step R (R\<lparr>reg_backends := (reg_backends R)(b_name b \<mapsto> b)\<rparr>)"
| change_backends: "(\<And>x. b_name (g x) = b_name x) \<Longrightarrow>
    reg_step R (R\<lparr>reg_backends := (\<lambda>n. map_option g (reg_backends R n))\<rparr>)"
| register_route: "reg_routes R (r_id r) = None \<Longrightarrow> r_backend_name r \<in> dom (reg_backends R) \<Longrightarrow>
    reg_step R (R\<lparr>reg_routes := (reg_routes R)(r_id r \<mapsto> r)\<rparr>)"
| change_routes: "(\<And>x. r_id (g x) = r_id x) \<Longrightarrow>
    (\<And>i x. reg_routes R i = Some x \<Longrightarrow>
       r_backend_name (g x) = r_backend_name x \<or> r_backend_name (g x) \<in> dom (reg_backends R)) \<Longrightarrow>
    reg_step R (R\<lparr>reg_routes := (\<lambda>i. map_option g (reg_routes R i))\<rparr>)"
| log_entry: "reg_step R (R\<lparr>reg_log := reg_log R @ [h]\<rparr>)"

text \<open>
  The registry is well formed when every entry is filed under its own key and every
  route names a registered backend.
\<close>

definition reg_inv :: "registry \<Rightarrow> bool" where
  "reg_inv R \<longleftrightarrow>
     (\<forall>n b. reg_backends R n = Some b \<longrightarrow> b_name b = n) \<and>
     (\<forall>i r. reg_routes R i = Some r \<longrightarrow> r_id r = i \<and> r_backend_name r \<in> dom (reg_backends R))"

section \<open>Properties of the specification\<close>

lemma reg_step_keeps_registered:
  "reg_step R R' \<Longrightarrow> dom (reg_backends R) \<subseteq> dom (reg_backends R') \<and>
     dom (reg_routes R) \<subseteq> dom (reg_routes R') \<and> prefix (reg_log R) (reg_log R')"
  by (induction rule: reg_step.induct) (auto simp: dom_def)

lemma dom_map_option [simp]: "dom (\<lambda>k. map_option g (m k)) = dom m"
  by (auto simp: dom_def)

lemma reg_inv_register_backend:
  "reg_inv R \<Longrightarrow> reg_inv (R\<lparr>reg_backends := (reg_backends R)(b_name b \<mapsto> b)\<rparr>)"
  unfolding reg_inv_def by (simp add: dom_def)

lemma reg_inv_change_backends:
  assumes "\<And>x. b_name (g x) = b_name x" and "reg_inv R"
  shows "reg_inv (R\<lparr>reg_backends := (\<lambda>n. map_option g (reg_backends R n))\<rparr>)"
proof -
  have "\<forall>n b. map_option g (reg_backends R n) = Some b \<longrightarrow> b_name b = n"
    using assms by (auto simp: reg_inv_def)
  with assms(2) show ?thesis by (simp add: reg_inv_def)
qed

lemma reg_inv_register_route:
  "r_backend_name r \<in> dom (reg_backends R) \<Longrightarrow> reg_inv R \<Longrightarrow>
   reg_inv (R\<lparr>reg_routes := (reg_routes R)(r_id r \<mapsto> r)\<rparr>)"
  unfolding reg_inv_def by simp

lemma reg_inv_change_routes:
  assumes "\<And>x. r_id (g x) = r_id x"
    and "\<And>i x. reg_routes R i = Some x \<Longrightarrow>
       r_backend_name (g x) = r_backend_name x \<or> r_backend_name (g x) \<in> dom (reg_backends R)"
    and "reg_inv R"
  shows "reg_inv (R\<lparr>reg_routes := (\<lambda>i. map_option g (reg_routes R i))\<rparr>)"
proof -
  have "\<forall>i r. map_option g (reg_routes R i) = Some r \<longrightarrow> r_id r = i \<and> r_backend_name r \<in> dom (reg_backends R)"
  proof (intro allI impI)
    fix i r assume "map_option g (reg_routes R i) = Some r"
    then obtain x where x: "reg_routes R i = Some x" and rx: "r = g x"
      by (cases "reg_routes R i") simp_all
    from assms(3) x have xi: "r_id x = i" and xn: "r_backend_name x \<in> dom (reg_backends R)"
      by (simp_all add: reg_inv_def)
    have "r_id r = i" using rx xi assms(1) by simp
    moreover have "r_backend_name r \<in> dom (reg_backends R)"
      using assms(2) [OF x] xn rx by (elim disjE) simp_all
    ultimately show "r_id r = i \<and> r_backend_name r \<in> dom (reg_backends R)" ..
  qed
  with assms(3) show ?thesis by (simp add: reg_inv_def del: map_option_eq_Some)
qed

lemma reg_inv_step: "reg_step R R' \<Longrightarrow> reg_inv R \<Longrightarrow> reg_inv R'"
  by (induction rule: reg_step.induct)
     (simp_all add: reg_inv_register_backend reg_inv_change_backends reg_inv_register_route
        reg_inv_change_routes, simp add: reg_inv_def)

end
