(* ===== verification/Refinement.thy ===== *)
theory Refinement
  imports System Registry
begin

text \<open>
  The store implements the registry of \<open>Registry\<close>: read as maps, by name for backends
  and by id for routes (the first row with the key, as the \<open>LIMIT 1\<close> lookups of
  \<open>mysql_store.go\<close> read them), every elementary store transition is a step of the
  specification, hence so is every step of the service, and the lookups of the store
  are the lookups of the specification.
\<close>

definition abs_db :: "db \<Rightarrow> registry" where
  "abs_db d = \<lparr>reg_backends = index_by b_name (db_backends d), reg_routes = index_by r_id (db_routes d),
                reg_log = db_history d\<rparr>"

section \<open>Each elementary transition is a step of the specification\<close>

lemma abs_ins_backend:
  assumes "find (\<lambda>x. b_name x = b_name b) (db_backends d) = None"
  shows "reg_step (abs_db d) (abs_db (d\<lparr>db_backends := db_backends d @ [backend_row b (db_next_backend d) (db_clock d)],
                    db_next_backend := Suc (db_next_backend d)\<rparr>))"
proof -
  let ?row = "backend_row b (db_next_backend d) (db_clock d)"
  have n: "b_name ?row = b_name b" by (simp add: backend_row_def)
  from assms have "index_by b_name (db_backends d) (b_name ?row) = None"
    by (simp add: find_index_by n)
  then have "index_by b_name (db_backends d @ [?row]) = (index_by b_name (db_backends d))(b_name ?row \<mapsto> ?row)"
    by (rule index_by_append_new)
  moreover have "reg_step (abs_db d) ((abs_db d)\<lparr>reg_backends := (reg_backends (abs_db d))(b_name ?row \<mapsto> ?row)\<rparr>)"
    by (rule reg_step.register_backend) (simp add: abs_db_def find_index_by [symmetric] n assms)
  ultimately show ?thesis by (simp add: abs_db_def)
qed

lemma abs_upd_backends:
  assumes "\<And>x. b_name (g x) = b_name x \<and> b_id (g x) = b_id x"
  shows "reg_step (abs_db d) (abs_db (d\<lparr>db_backends := update_where p g (db_backends d)\<rparr>))"
proof -
  let ?g = "\<lambda>x. if p x then g x else x"
  have "index_by b_name (update_where p g (db_backends d)) =
        (\<lambda>n. map_option ?g (index_by b_name (db_backends d) n))"
    using index_by_update_where [of b_name g p] assms by (simp add: fun_eq_iff)
  moreover have "reg_step (abs_db d) ((abs_db d)\<lparr>reg_backends := (\<lambda>n. map_option ?g (reg_backends (abs_db d) n))\<rparr>)"
    by (rule reg_step.change_backends) (simp add: assms)
  ultimately show ?thesis by (simp add: abs_db_def)
qed

lemma abs_ins_route:
  assumes "r_backend_name r \<in> b_name ` set (db_backends d)" and "db_inv d"
  shows "reg_step (abs_db d) (abs_db (d\<lparr>db_routes := db_routes d @ [route_row r (db_next_route d) (db_clock d)],
                    db_next_route := Suc (db_next_route d)\<rparr>))"
proof -
  let ?row = "route_row r (db_next_route d) (db_clock d)"
  from assms(2) have "db_next_route d \<notin> r_id ` set (db_routes d)"
    by (auto simp: db_inv_def)
  then have none: "index_by r_id (db_routes d) (r_id ?row) = None"
    by (simp add: index_by_None_iff route_row_def)
  then have "index_by r_id (db_routes d @ [?row]) = (index_by r_id (db_routes d))(r_id ?row \<mapsto> ?row)"
    by (rule index_by_append_new)
  moreover have "reg_step (abs_db d) ((abs_db d)\<lparr>reg_routes := (reg_routes (abs_db d))(r_id ?row \<mapsto> ?row)\<rparr>)"
    by (rule reg_step.register_route) (use none assms(1) in \<open>simp_all add: abs_db_def route_row_def\<close>)
  ultimately show ?thesis by (simp add: abs_db_def)
qed

lemma abs_upd_routes:
  assumes "\<And>x. r_id (g x) = r_id x"
    and "\<And>x. x \<in> set (db_routes d) \<Longrightarrow> p x \<Longrightarrow>
       r_backend_name (g x) = r_backend_name x \<or> r_backend_name (g x) \<in> b_name ` set (db_backends d)"
  shows "reg_step (abs_db d) (abs_db (d\<lparr>db_routes := update_where p g (db_routes d)\<rparr>))"
proof -
  let ?g = "\<lambda>x. if p x then g x else x"
  have "index_by r_id (update_where p g (db_routes d)) =
        (\<lambda>i. map_option ?g (index_by r_id (db_routes d) i))"
    using index_by_update_where [of r_id g p] assms(1) by (simp add: fun_eq_iff)
  moreover have "reg_step (abs_db d) ((abs_db d)\<lparr>reg_routes := (\<lambda>i. map_option ?g (reg_routes (abs_db d) i))\<rparr>)"
  proof (rule reg_step.change_routes)
    show "r_id (?g x) = r_id x" for x by (simp add: assms(1))
  next
    fix i x assume "reg_routes (abs_db d) i = Some x"
    then have "index_by r_id (db_routes d) i = Some x" by (simp add: abs_db_def)
    then have x: "x \<in> set (db_routes d)" by (blast dest: index_by_Some)
    show "r_backend_name (?g x) = r_backend_name x \<or> r_backend_name (?g x) \<in> dom (reg_backends (abs_db d))"
    proof (cases "p x")
      case True
      with assms(2) [OF x True] show ?thesis by (simp add: abs_db_def)
    qed simp
  qed
  ultimately show ?thesis by (simp add: abs_db_def)
qed

lemma abs_app_history:
  "reg_step (abs_db d) (abs_db (d\<lparr>db_history := db_history d @ [h\<lparr>h_id := db_next_history d, h_created_at := db_clock d\<rparr>],
                    db_next_history := Suc (db_next_history d)\<rparr>))"
  using reg_step.log_entry [of "abs_db d" "h\<lparr>h_id := db_next_history d, h_created_at := db_clock d\<rparr>"]
  by (simp add: abs_db_def)

lemma store_step_refines: "store_step d d' \<Longrightarrow> db_inv d \<Longrightarrow> reg_step (abs_db d) (abs_db d')"
  by (induction rule: store_step.induct)
     (simp_all add: abs_ins_backend abs_upd_backends abs_ins_route abs_upd_routes abs_app_history)

lemma store_steps_refine:
  "store_steps d d' \<Longrightarrow> db_inv d \<Longrightarrow> reg_step\<^sup>*\<^sup>* (abs_db d) (abs_db d')"
proof (induction rule: rtranclp_induct)
  case base
  then show ?case by simp
next
  case (step y z)
  then have "db_inv y" using db_inv_store_steps by blast
  with step show ?case by (meson rtranclp.rtrancl_into_rtrancl store_step_refines)
qed

section \<open>The service refines the specification\<close>

lemma db_inv_abs: "db_inv d \<Longrightarrow> reg_inv (abs_db d)"
  unfolding reg_inv_def abs_db_def
  by (auto dest: index_by_Some simp: db_inv_def)

lemma sys_step_refines:
  assumes "sys_step d d'" and "db_inv d"
  shows "reg_step\<^sup>*\<^sup>* (abs_db d) (abs_db d')"
  using assms
proof (induction rule: sys_step.induct)
  case (tick d t)
  then show ?case by (simp add: abs_db_def)
next
  case (update_route_call d c rq)
  then show ?case using store_steps_refine handle_update_route_steps by blast
qed (use store_steps_refine handle_create_backend_steps handle_update_backend_steps
       handle_delete_backend_steps handle_create_route_steps handle_delete_route_steps in blast)+

text \<open>
  C30. The service implements the registry specification: in every reachable state the
  store, read as maps, is a well-formed registry, and every step of the service (any
  request, any store faults, or time passing) is a sequence of steps the specification
  allows.
\<close>

theorem sys_step_refines_registry:
  "reachable d \<Longrightarrow> sys_step d d' \<Longrightarrow> reg_inv (abs_db d) \<and> reg_step\<^sup>*\<^sup>* (abs_db d) (abs_db d')"
  using reachable_db_inv db_inv_abs sys_step_refines by blast

text \<open>
  The store's lookups are the specification's: \<open>GetBackendByName\<close> and
  \<open>GetRouteByID\<close>, with their \<open>LIMIT 1\<close>, return exactly the entry of the registry
  under that name or id.
\<close>

theorem store_lookups_refine:
  "get_backend_by_name NoFault n d = Inr (reg_backends (abs_db d) n) \<and>
   get_route_by_id NoFault i d = Inr (reg_routes (abs_db d) i)"
  by (simp add: get_backend_by_name_def get_route_by_id_def abs_db_def find_index_by)

section \<open>The order of the history\<close>

lemma sorted_pair_key:
  "sorted (map f xs) \<Longrightarrow> sorted (map g xs) \<Longrightarrow> sorted (map (\<lambda>x. (f x, g x)) xs)"
  by (induction xs) (auto simp: less_eq_prod_def)

text \<open>
  In every reachable state, \<open>ORDER BY created_at DESC\<close> with ties broken by id lists
  the entries of any filter in exactly the reverse of the order they were written: the
  newest-first page is the reversed audit log.
\<close>

theorem newest_first_is_reverse_log:
  "reachable d \<Longrightarrow> newest_first (filter P (db_history d)) = rev (filter P (db_history d))"
proof -
  assume "reachable d"
  then have inv: "db_inv d" by (rule reachable_db_inv)
  then have "sorted (map h_created_at (db_history d))" and "sorted (map h_id (db_history d))"
    by (simp_all add: db_inv_def strict_sorted_iff)
  then have "sorted (map (\<lambda>h. (h_created_at h, h_id h)) (db_history d))"
    by (rule sorted_pair_key)
  then have "sorted (map (\<lambda>h. (h_created_at h, h_id h)) (filter P (db_history d)))"
    by (simp add: sorted_map sorted_wrt_filter)
  then show ?thesis
    by (simp add: newest_first_def sort_key_id_if_sorted)
qed

section \<open>Witnesses\<close>

theorem sys_step_refines_registry_witness:
  "reg_inv (abs_db ex_r1) \<and> reg_step\<^sup>*\<^sup>* (abs_db ex_r1) (abs_db ex_r2)"
proof -
  have r1: "reachable ex_r1"
    unfolding ex_r1_def by (rule reachable.step [OF reachable.init sys_step.create_backend_call])
  have "sys_step ex_r1 ex_r2"
    unfolding ex_r2_def by (rule sys_step.create_route_call)
  with r1 show ?thesis by (rule sys_step_refines_registry)
qed

theorem newest_first_is_reverse_log_witness:
  "newest_first (filter (history_match (Some ''backend'') None) (db_history ex_r2)) =
   rev (filter (history_match (Some ''backend'') None) (db_history ex_r2))"
  by (rule newest_first_is_reverse_log [OF ex_r2_reachable])

end
