(* ===== verification/Router.thy ===== *)
theory Router
  imports System History_Handler
begin

text \<open>
  \<open>cmd/admin/main.go\<close>: the bootstrap of the process and the chi router that puts the
  handlers together. \<open>admin_boot\<close> follows \<open>main\<close> up to \<open>ListenAndServe\<close>, with
  the outcome of the logger, of \<open>sql.Open\<close> and of \<open>Ping\<close> as parameters
  (\<open>NewMySQLStore\<close> of \<open>mysql_store.go\<close> is \<open>new_mysql_store\<close>). The router is the
  route table of lines 56--80, matched the way chi matches it: the path is cut at
  \<open>/\<close> (\<open>split_path\<close>, a loop with a termination proof), a literal segment matches
  itself, \<open>{name}\<close> and \<open>{id}\<close> match one non-empty segment, a path registered for
  other methods only is 405, an unknown path 404, and a method chi does not know is 405
  before any path is looked at. \<open>r.Route("/api/v1", ...)\<close> mounts a subrouter that
  sees the rest of the path. \<open>serve\<close> composes the router with the handlers.
\<close>

section \<open>Bootstrap\<close>

definition os_getenv :: "(string \<Rightarrow> string option) \<Rightarrow> string \<Rightarrow> string" where
  "os_getenv env k = (case env k of Some v \<Rightarrow> v | None \<Rightarrow> [])"

definition get_env_main :: "(string \<Rightarrow> string option) \<Rightarrow> string \<Rightarrow> string \<Rightarrow> string" where
  "get_env_main env k dflt = (let v = os_getenv env k in if v \<noteq> [] then v else dflt)"

record pool_config =
  pc_max_open :: nat
  pc_max_idle :: nat
  pc_max_lifetime_s :: nat

definition new_mysql_store :: "bool \<Rightarrow> bool \<Rightarrow> store_err + pool_config" where
  "new_mysql_store open_ok ping_ok =
     (if \<not> open_ok then Inl ErrDriver
      else if \<not> ping_ok then Inl ErrDriver
      else Inr \<lparr>pc_max_open = 25, pc_max_idle = 5, pc_max_lifetime_s = 300\<rparr>)"

record server_config =
  srv_addr :: string
  srv_read_timeout_s :: nat
  srv_write_timeout_s :: nat
  srv_idle_timeout_s :: nat

datatype boot = BootFatal string | BootServing server_config pool_config

definition admin_boot :: "(string \<Rightarrow> string option) \<Rightarrow> bool \<Rightarrow> bool \<Rightarrow> bool \<Rightarrow> boot" where
  "admin_boot env logger_ok open_ok ping_ok =
     (let dsn = os_getenv env ''ADMIN_DB_DSN'' in
      if dsn = [] then BootFatal ''ADMIN_DB_DSN environment variable is required''
      else let listen = get_env_main env ''ADMIN_HTTP_LISTEN'' '':8081'' in
        if \<not> logger_ok then BootFatal ''failed to initialize logger''
        else (case new_mysql_store open_ok ping_ok of
                Inl _ \<Rightarrow> BootFatal ''failed to create mysql store''
              | Inr p \<Rightarrow> BootServing \<lparr>srv_addr = listen, srv_read_timeout_s = 15,
                           srv_write_timeout_s = 15, srv_idle_timeout_s = 60\<rparr> p))"

section \<open>Paths\<close>

function (domintros) split_path :: "string \<Rightarrow> string list" where
  "split_path s =
     (if CHR ''/'' \<in> set s
      then takeWhile (\<lambda>c. c \<noteq> CHR ''/'') s # split_path (tl (dropWhile (\<lambda>c. c \<noteq> CHR ''/'') s))
      else [s])"
  by pat_completeness auto
termination
proof (relation "measure length")
  fix s :: string
  assume "CHR ''/'' \<in> set s"
  then have "dropWhile (\<lambda>c. c \<noteq> CHR ''/'') s \<noteq> []" by simp
  then show "(tl (dropWhile (\<lambda>c. c \<noteq> CHR ''/'') s), s) \<in> measure length"
    using length_dropWhile_le [of "\<lambda>c. c \<noteq> CHR ''/''" s] by (cases "dropWhile (\<lambda>c. c \<noteq> CHR ''/'') s") auto
qed simp

text \<open>Joining the segments back with slashes.\<close>

fun join_path :: "string list \<Rightarrow> string" where
  "join_path [] = []"
| "join_path [x] = x"
| "join_path (x # xs) = x @ CHR ''/'' # join_path xs"

section \<open>The chi routing tree\<close>

datatype seg = Lit string | Param

fun match_segs :: "seg list \<Rightarrow> string list \<Rightarrow> string list option" where
  "match_segs [] [] = Some []"
| "match_segs (Lit l # ps) (x # xs) = (if x = l then match_segs ps xs else None)"
| "match_segs (Param # ps) (x # xs) = (if x = [] then None else map_option (Cons x) (match_segs ps xs))"
| "match_segs _ _ = None"

datatype 'h routed = Routed 'h "string list" | NotAllowed | NotFound

definition chi_find :: "(string \<times> seg list \<times> 'h) list \<Rightarrow> string \<Rightarrow> string list \<Rightarrow> 'h routed" where
  "chi_find tbl meth xs =
     (case find (\<lambda>(m, p, h). m = meth \<and> match_segs p xs \<noteq> None) tbl of
        Some (m, p, h) \<Rightarrow> Routed h (the (match_segs p xs))
      | None \<Rightarrow> if list_ex (\<lambda>(m, p, h). match_segs p xs \<noteq> None) tbl then NotAllowed else NotFound)"

definition chi_methods :: "string list" where
  "chi_methods = [''CONNECT'', ''DELETE'', ''GET'', ''HEAD'', ''OPTIONS'', ''PATCH'', ''POST'', ''PUT'', ''TRACE'']"

datatype api_handler =
    ListBackends | GetBackend | CreateBackend | UpdateBackend | DeleteBackend
  | ListRoutes | GetRoute | CreateRoute | UpdateRoute | DeleteRoute
  | ListHistory

datatype endpoint = Api api_handler | HealthCheck

definition api_routes :: "(string \<times> seg list \<times> api_handler) list" where
  "api_routes =
     [(''GET'', [Lit [], Lit ''backends''], ListBackends),
      (''GET'', [Lit [], Lit ''backends'', Param], GetBackend),
      (''POST'', [Lit [], Lit ''backends''], CreateBackend),
      (''PUT'', [Lit [], Lit ''backends'', Param], UpdateBackend),
      (''DELETE'', [Lit [], Lit ''backends'', Param], DeleteBackend),
      (''GET'', [Lit [], Lit ''routes''], ListRoutes),
      (''GET'', [Lit [], Lit ''routes'', Param], GetRoute),
      (''POST'', [Lit [], Lit ''routes''], CreateRoute),
      (''PUT'', [Lit [], Lit ''routes'', Param], UpdateRoute),
      (''DELETE'', [Lit [], Lit ''routes'', Param], DeleteRoute),
      (''GET'', [Lit [], Lit ''history''], ListHistory)]"

definition top_routes :: "(string \<times> seg list \<times> endpoint) list" where
  "top_routes = [(''GET'', [Lit [], Lit ''health''], HealthCheck)]"

definition mount_path :: "string list \<Rightarrow> string list option" where
  "mount_path xs =
     (if take 3 xs = [[], ''api'', ''v1''] then Some ([] # (if drop 3 xs = [] then [[]] else drop 3 xs))
      else None)"

definition dispatch :: "string \<Rightarrow> string \<Rightarrow> endpoint routed" where
  "dispatch meth path =
     (if meth \<notin> set chi_methods then NotAllowed
      else let xs = split_path path in
        (case mount_path xs of
           Some sub \<Rightarrow> map_routed Api (chi_find api_routes meth sub)
         | None \<Rightarrow> chi_find top_routes meth xs))"

section \<open>Serving a request\<close>

fun run_api :: "api_handler \<Rightarrow> ctx \<Rightarrow> request \<Rightarrow> db \<Rightarrow> response \<times> db" where
  "run_api ListBackends c rq d = (handle_list_backends c rq d, d)"
| "run_api GetBackend c rq d = (handle_get_backend c rq d, d)"
| "run_api CreateBackend c rq d = handle_create_backend c rq d"
| "run_api UpdateBackend c rq d = handle_update_backend c rq d"
| "run_api DeleteBackend c rq d = handle_delete_backend c rq d"
| "run_api ListRoutes c rq d = (handle_list_routes c rq d, d)"
| "run_api GetRoute c rq d = (handle_get_route c rq d, d)"
| "run_api CreateRoute c rq d = handle_create_route c rq d"
| "run_api UpdateRoute c rq d = handle_update_route c rq d"
| "run_api DeleteRoute c rq d = handle_delete_route c rq d"
| "run_api ListHistory c rq d = (handle_list_history c rq d, d)"

definition health_response :: response where
  "health_response = Response 200 (OutRaw (''{'' @ [CHR 0x22] @ ''status'' @ [CHR 0x22] @ '':'' @ [CHR 0x22] @ ''ok'' @ [CHR 0x22] @ ''}''))"

definition serve :: "ctx \<Rightarrow> string \<Rightarrow> string \<Rightarrow> request \<Rightarrow> db \<Rightarrow> response \<times> db" where
  "serve c meth path rq d =
     (case dispatch meth path of
        NotFound \<Rightarrow> (Response 404 (OutText ''404 page not found''), d)
      | NotAllowed \<Rightarrow> (Response 405 OutEmpty, d)
      | Routed HealthCheck _ \<Rightarrow> (health_response, d)
      | Routed (Api h) ps \<Rightarrow> run_api h c (rq\<lparr>rq_param := (case ps of [] \<Rightarrow> [] | p # _ \<Rightarrow> p)\<rparr>) d)"

definition fill_pattern :: "seg list \<Rightarrow> string \<Rightarrow> string list" where
  "fill_pattern p s = map (\<lambda>x. case x of Lit l \<Rightarrow> l | Param \<Rightarrow> s) p"

section \<open>Path segments\<close>

declare split_path.simps [simp del]

lemma split_path_no_slash: "CHR ''/'' \<notin> set s \<Longrightarrow> split_path s = [s]"
  by (simp add: split_path.simps)

lemma split_path_slash:
  "CHR ''/'' \<notin> set x \<Longrightarrow> split_path (x @ CHR ''/'' # y) = x # split_path y"
proof -
  assume x: "CHR ''/'' \<notin> set x"
  then have a: "\<forall>c \<in> set x. c \<noteq> CHR ''/''" by auto
  then have "takeWhile (\<lambda>c. c \<noteq> CHR ''/'') (x @ CHR ''/'' # y) = x"
    by (simp add: takeWhile_append2)
  moreover from a have "dropWhile (\<lambda>c. c \<noteq> CHR ''/'') (x @ CHR ''/'' # y) = CHR ''/'' # y"
    by (simp add: dropWhile_append2)
  ultimately show ?thesis by (simp add: split_path.simps [of "x @ CHR ''/'' # y"])
qed

lemma split_path_Nil [simp]: "split_path [] = [[]]"
  by (simp add: split_path_no_slash)

lemma split_path_Cons [simp]:
  "split_path (c # s) =
     (if c = CHR ''/'' then [] # split_path s
      else (case split_path s of x # xs \<Rightarrow> (c # x) # xs | [] \<Rightarrow> [[c]]))"
proof (cases "c = CHR ''/''")
  case True
  then show ?thesis using split_path_slash [of "[]" s] by simp
next
  case c: False
  show ?thesis
  proof (cases "CHR ''/'' \<in> set s")
    case True
    then obtain x y where s: "s = x @ CHR ''/'' # y" and x: "CHR ''/'' \<notin> set x"
      using split_list_first [of "CHR ''/''" s] by blast
    with c show ?thesis using split_path_slash [of x y] split_path_slash [of "c # x" y] by simp
  next
    case False
    with c show ?thesis by (simp add: split_path_no_slash)
  qed
qed

lemma split_path_join:
  "xs \<noteq> [] \<Longrightarrow> \<forall>x \<in> set xs. CHR ''/'' \<notin> set x \<Longrightarrow> split_path (join_path xs) = xs"
  by (induction xs rule: join_path.induct) (simp_all add: split_path_no_slash split_path_slash)

lemma split_path_not_Nil: "split_path s \<noteq> []"
  by (cases s) (simp_all split: list.splits)

lemma join_path_Cons_Cons: "join_path ((c # x) # xs) = c # join_path (x # xs)"
  by (cases xs) simp_all

lemma join_split_path: "join_path (split_path s) = s"
proof (induction s)
  case (Cons c s)
  obtain x xs where sp: "split_path s = x # xs"
    using split_path_not_Nil by (cases "split_path s") auto
  with Cons show ?case by (simp add: join_path_Cons_Cons)
qed simp

lemma length_split_path: "length (split_path s) = Suc (length (filter (\<lambda>c. c = CHR ''/'') s))"
proof (induction s)
  case (Cons c s)
  obtain x xs where "split_path s = x # xs"
    using split_path_not_Nil by (cases "split_path s") auto
  with Cons show ?case by simp
qed simp

lemma split_path_total: "split_path_dom s"
  by (induction s rule: split_path.induct) (rule split_path.domintros, simp)

lemma chi_find_Routed:
  "chi_find tbl meth xs = Routed h ps \<Longrightarrow> \<exists>p. (meth, p, h) \<in> set tbl \<and> match_segs p xs = Some ps"
  by (auto simp: chi_find_def dest!: find_Some_in_set split: option.splits if_splits)

lemma map_routed_Api:
  "map_routed Api r = Routed (Api h) ps \<Longrightarrow> r = Routed h ps"
  by (cases r) simp_all

lemma dispatch_Api:
  assumes "dispatch meth path = Routed (Api h) ps"
  shows "\<exists>p. (meth, p, h) \<in> set api_routes"
proof (cases "mount_path (split_path path)")
  case None
  with assms have "chi_find top_routes meth (split_path path) = Routed (Api h) ps"
    by (simp add: dispatch_def split: if_splits)
  then show ?thesis by (auto simp: top_routes_def dest: chi_find_Routed)
next
  case (Some sub)
  with assms have "chi_find api_routes meth sub = Routed h ps"
    by (auto simp: dispatch_def split: if_splits intro: map_routed_Api)
  then show ?thesis by (blast dest: chi_find_Routed)
qed

lemma serve_state:
  "snd (serve c meth path rq d) = d \<or> sys_step d (snd (serve c meth path rq d))"
proof (cases "dispatch meth path")
  case (Routed e ps)
  then show ?thesis
  proof (cases e)
    case (Api h)
    with Routed show ?thesis by (cases h) (simp_all add: serve_def sys_step.intros)
  qed (simp add: serve_def)
qed (simp_all add: serve_def)

text \<open>How chi answers a few requests: a parameter, a method the path does not have, a
  trailing slash, the health check and a method chi does not know.\<close>

lemma dispatch_examples:
  "dispatch ''GET'' ''/api/v1/backends/account'' = Routed (Api GetBackend) [''account''] \<and>
   dispatch ''PATCH'' ''/api/v1/backends/account'' = NotAllowed \<and>
   dispatch ''GET'' ''/api/v1/backends/'' = NotFound \<and>
   dispatch ''GET'' ''/health'' = Routed HealthCheck [] \<and>
   dispatch ''FOO'' ''/health'' = NotAllowed"
  by (simp add: dispatch_def chi_methods_def mount_path_def chi_find_def api_routes_def top_routes_def)

section \<open>The router\<close>

text \<open>
  Every route of the table is reachable: the path built from a registered pattern,
  with a non-empty parameter that has no slash, is dispatched by the given method to
  exactly the handler registered for it, with the parameter handed to the handler.
\<close>

theorem dispatch_api_roundtrip:
  assumes "(m, p, h) \<in> set api_routes" and "s \<noteq> []" and "CHR ''/'' \<notin> set s"
  shows "dispatch m (join_path ([[], ''api'', ''v1''] @ tl (fill_pattern p s))) =
         Routed (Api h) (if Param \<in> set p then [s] else [])"
proof -
  have sp: "split_path (join_path ([[], ''api'', ''v1''] @ tl (fill_pattern p s))) =
            [[], ''api'', ''v1''] @ tl (fill_pattern p s)"
    using assms by (intro split_path_join) (auto simp: api_routes_def fill_pattern_def)
  from assms(1) show ?thesis
    unfolding dispatch_def sp
    by (auto simp: api_routes_def chi_methods_def mount_path_def chi_find_def fill_pattern_def assms(2))
qed

theorem dispatch_api_roundtrip_witness:
  "dispatch ''PUT'' (join_path ([[], ''api'', ''v1''] @ tl (fill_pattern [Lit [], Lit ''backends'', Param] ''account''))) =
   Routed (Api UpdateBackend) [''account'']"
  using dispatch_api_roundtrip [of "''PUT''" "[Lit [], Lit ''backends'', Param]" UpdateBackend "''account''"]
  by (simp add: api_routes_def)

text \<open>
  C2. The route table of \<open>main.go\<close> (lines 56--80) wires each method and path to its
  handler: every registered request, with a non-empty parameter without a slash, is
  served by exactly the handler method \<open>main\<close> registers for it, with the parameter
  passed as the chi URL parameter, and the read handlers leave the database alone.
\<close>

theorem main_routes_wired:
  assumes s: "s \<noteq> []" "CHR ''/'' \<notin> set s"
  shows
  "serve c ''GET'' ''/api/v1/backends'' rq d = (handle_list_backends c (rq\<lparr>rq_param := []\<rparr>) d, d) \<and>
   serve c ''GET'' (''/api/v1/backends/'' @ s) rq d = (handle_get_backend c (rq\<lparr>rq_param := s\<rparr>) d, d) \<and>
   serve c ''POST'' ''/api/v1/backends'' rq d = handle_create_backend c (rq\<lparr>rq_param := []\<rparr>) d \<and>
   serve c ''PUT'' (''/api/v1/backends/'' @ s) rq d = handle_update_backend c (rq\<lparr>rq_param := s\<rparr>) d \<and>
   serve c ''DELETE'' (''/api/v1/backends/'' @ s) rq d = handle_delete_backend c (rq\<lparr>rq_param := s\<rparr>) d \<and>
   serve c ''GET'' ''/api/v1/routes'' rq d = (handle_list_routes c (rq\<lparr>rq_param := []\<rparr>) d, d) \<and>
   serve c ''GET'' (''/api/v1/routes/'' @ s) rq d = (handle_get_route c (rq\<lparr>rq_param := s\<rparr>) d, d) \<and>
   serve c ''POST'' ''/api/v1/routes'' rq d = handle_create_route c (rq\<lparr>rq_param := []\<rparr>) d \<and>
   serve c ''PUT'' (''/api/v1/routes/'' @ s) rq d = handle_update_route c (rq\<lparr>rq_param := s\<rparr>) d \<and>
   serve c ''DELETE'' (''/api/v1/routes/'' @ s) rq d = handle_delete_route c (rq\<lparr>rq_param := s\<rparr>) d \<and>
   serve c ''GET'' ''/api/v1/history'' rq d = (handle_list_history c (rq\<lparr>rq_param := []\<rparr>) d, d) \<and>
   serve c ''GET'' ''/health'' rq d = (health_response, d)"
proof -
  have sp: "split_path s = [s]" using s(2) by (rule split_path_no_slash)
  show ?thesis
    using s sp by (simp add: serve_def dispatch_def chi_methods_def mount_path_def chi_find_def
        api_routes_def top_routes_def)
qed

theorem main_routes_wired_witness:
  "serve ex_ctx ''DELETE'' ''/api/v1/backends/account'' (ex_request [] [] JNull) ex_db =
   handle_delete_backend ex_ctx ((ex_request [] [] JNull)\<lparr>rq_param := ''account''\<rparr>) ex_db"
  using main_routes_wired [of "''account''" ex_ctx "ex_request [] [] JNull" ex_db] by simp

text \<open>
  Only POST, PUT and DELETE change the database: a request with any other method,
  whatever its path, and any request the router refuses with 404 or 405, leaves the
  database as it was.
\<close>

theorem serve_read_only:
  assumes "meth \<notin> {''POST'', ''PUT'', ''DELETE''}"
  shows "snd (serve c meth path rq d) = d"
proof (cases "dispatch meth path")
  case (Routed e ps)
  then show ?thesis
  proof (cases e)
    case (Api h)
    with Routed obtain p where "(meth, p, h) \<in> set api_routes" by (blast dest: dispatch_Api)
    with assms Routed Api show ?thesis by (cases h) (auto simp: serve_def api_routes_def)
  qed (simp add: serve_def Routed)
qed (simp_all add: serve_def)

theorem serve_read_only_witness:
  "snd (serve ex_ctx ''GET'' ''/api/v1/backends/account'' (ex_request [] [] JNull) ex_db) = ex_db"
  using serve_read_only [of "''GET''" ex_ctx "''/api/v1/backends/account''" "ex_request [] [] JNull" ex_db]
  by simp

text \<open>
  C11. A request to the service changes the database only when its method is POST, PUT
  or DELETE and it is not refused: every request with another method, and every
  request answered with a 4xx status, by the router (404, 405) or by a handler (400,
  404, 409, including a 404 from a store \<open>UPDATE\<close> that changed no row), leaves the
  database as it was.
\<close>

theorem serve_no_change:
  "(meth \<notin> {''POST'', ''PUT'', ''DELETE''} \<longrightarrow> snd (serve c meth path rq d) = d) \<and>
   (400 \<le> status (fst (serve c meth path rq d)) \<and> status (fst (serve c meth path rq d)) < 500 \<longrightarrow>
      snd (serve c meth path rq d) = d)"
proof (intro conjI impI)
  assume "meth \<notin> {''POST'', ''PUT'', ''DELETE''}"
  then show "snd (serve c meth path rq d) = d" by (rule serve_read_only)
next
  assume st: "400 \<le> status (fst (serve c meth path rq d)) \<and> status (fst (serve c meth path rq d)) < 500"
  show "snd (serve c meth path rq d) = d"
  proof (cases "dispatch meth path")
    case (Routed e ps)
    then show ?thesis
    proof (cases e)
      case (Api h)
      let ?rq = "rq\<lparr>rq_param := (case ps of [] \<Rightarrow> [] | p # _ \<Rightarrow> p)\<rparr>"
      from Routed Api have sv: "serve c meth path rq d = run_api h c ?rq d" by (simp add: serve_def)
      from st sv show ?thesis
        using handle_create_backend_refused [of c ?rq d] handle_update_backend_refused [of c ?rq d]
          handle_delete_backend_refused [of c ?rq d] handle_create_route_refused [of c ?rq d]
          handle_update_route_refused [of c ?rq d] handle_delete_route_refused [of c ?rq d]
        by (cases h) auto
    qed (simp add: serve_def Routed)
  qed (simp_all add: serve_def)
qed

theorem serve_no_change_witness:
  "snd (serve ex_ctx ''GET'' ''/api/v1/backends/'' (ex_request [] [] JNull) ex_db) = ex_db \<and>
   snd (serve ex_ctx ''DELETE'' ''/api/v1/routes/x'' (ex_request [] [] JNull) ex_db) = ex_db"
  using serve_no_change [of "''GET''" ex_ctx "''/api/v1/backends/''" "ex_request [] [] JNull" ex_db]
    serve_no_change [of "''DELETE''" ex_ctx "''/api/v1/routes/x''" "ex_request [] [] JNull" ex_db]
  by (simp add: serve_def dispatch_def chi_methods_def mount_path_def chi_find_def api_routes_def
      handle_delete_route_def ex_request_def parse_uint32_def all_digits_def is_digit_def)

text \<open>
  The assembled service refines the transition system of \<open>System\<close>: whatever
  request reaches the router, the database after it is a reachable state when the one
  before was, so every invariant proved of \<open>reachable\<close> holds of the real service.
\<close>

theorem serve_keeps_reachable:
  "reachable d \<Longrightarrow> reachable (snd (serve c meth path rq d))"
  using serve_state [of c meth path rq d] reachable.step by auto

theorem serve_keeps_reachable_witness:
  "reachable (snd (serve ex_ctx ''DELETE'' ''/api/v1/backends/account'' (ex_request [] [] JNull) ex_r2))"
  using serve_keeps_reachable [OF ex_r2_reachable] .

section \<open>Path splitting\<close>

text \<open>
  The segment loop of the router terminates on every path, cuts it into one more
  segment than it has slashes, and loses nothing: joining the segments gives the path.
\<close>

theorem split_path_terminates:
  "split_path_dom s \<and> join_path (split_path s) = s \<and>
   length (split_path s) = Suc (length (filter (\<lambda>c. c = CHR ''/'') s))"
  using split_path_total join_split_path length_split_path by blast

section \<open>Starting the process\<close>

text \<open>
  The process serves exactly when \<open>ADMIN_DB_DSN\<close> is set and non-empty and the
  logger, \<open>sql.Open\<close> and \<open>Ping\<close> succeed; it then listens on \<open>ADMIN_HTTP_LISTEN\<close>,
  or \<open>:8081\<close> when that is unset or empty, with 15 s read and write and 60 s idle
  timeouts, and a pool of 25 open and 5 idle connections living 5 minutes.
\<close>

theorem admin_boot_serving:
  "admin_boot env logger_ok open_ok ping_ok = BootServing srv pc \<longleftrightarrow>
   os_getenv env ''ADMIN_DB_DSN'' \<noteq> [] \<and> logger_ok \<and> open_ok \<and> ping_ok \<and>
   srv = \<lparr>srv_addr = get_env_main env ''ADMIN_HTTP_LISTEN'' '':8081'', srv_read_timeout_s = 15,
          srv_write_timeout_s = 15, srv_idle_timeout_s = 60\<rparr> \<and>
   pc = \<lparr>pc_max_open = 25, pc_max_idle = 5, pc_max_lifetime_s = 300\<rparr>"
  by (auto simp: admin_boot_def new_mysql_store_def Let_def split: sum.splits)

end
