(* ===== verification/Spec2Isabelle.thy ===== *)
theory Spec2Isabelle
  imports Backend_Handler Route_Handler History_Handler Cors System Refinement Router
begin

text \<open>
  \<^bold>\<open>Configuration store and change audit of the assistant gateway admin service.\<close>

  The service (Go, \<open>src/\<close>) keeps the backends and routes of a gateway in MySQL and
  logs every change in a history table. A request passes through the CORS middleware
  (\<open>internal/middleware/cors.go\<close>) to a handler of \<open>internal/handler/backend.go\<close> or
  \<open>internal/handler/route.go\<close> (which also holds \<open>HistoryHandler\<close>); the handler
  decodes the request, applies the update-merge policy and the referential validator,
  calls the \<open>Store\<close> (\<open>internal/config/mysql_store.go\<close>, interface and entities in
  \<open>src/unnamed/part_000\<close>) and then records the change with \<open>recordHistory\<close>,
  whose failure is only logged.

  \<^bold>\<open>Theories.\<close>
  \<^item> \<open>Prelude\<close>: the \<open>UPDATE ... WHERE\<close> of a table as \<open>update_where\<close>, MySQL's count
    of changed rows as \<open>changed_rows\<close>, and the list lemmas the components share.
  \<^item> \<open>Entities\<close>: \<open>Backend\<close>, \<open>Route\<close>, \<open>ConfigHistory\<close> as records, the
    \<open>Store\<close> methods as the datatype \<open>store_op\<close>, the faults a database call may meet
    (\<open>fault\<close>) and the store's errors (\<open>store_err\<close>).
  \<^item> \<open>Store\<close>: \<open>MySQLStore\<close>; the database is the record \<open>db\<close> of three tables in
    primary-key order, their \<open>AUTO_INCREMENT\<close> counters and the clock read by
    \<open>CURRENT_TIMESTAMP\<close>. Each method is a function of its fault, its arguments and
    the database, returning \<open>store_err + 'a\<close> and the new database.
  \<^item> \<open>Strconv\<close> and \<open>Json\<close>: the library behaviour the handlers depend on, modelled
    from the Go documentation: \<open>strconv.ParseBool/ParseUint/Atoi\<close>, \<open>url.Values\<close>,
    \<open>encoding/json\<close> decoding into the two structs (exact, then case-folded key
    match; \<open>null\<close> leaves a field alone; a wrong type is an error) and the detour of
    the update handlers through \<open>map[string]interface{}\<close> (last duplicate wins, keys
    re-encoded in sorted order). On that detour every number becomes a \<open>float64\<close>
    (\<open>round_f64\<close>: nearest, ties to even; out of range is an error) and is printed back
    as the shortest decimal that reads as the same \<open>float64\<close> (\<open>float_text\<close>).
  \<^item> \<open>Http\<close>: requests, responses, the context (the fault each store method meets
    and the RFC 3339 parser), and the audit recorder \<open>record_history\<close>.
  \<^item> \<open>Backend_Handler\<close>, \<open>Route_Handler\<close> and \<open>History_Handler\<close>: one definition per
    endpoint, each following its Go function guard by guard, with every store call and
    the audit record, returning the response and the new database. The referential
    validator is \<open>check_backend_ref\<close>, the update-merge policy \<open>merge_backend_update\<close>
    and \<open>merge_route_update\<close>.
  \<^item> \<open>Cors\<close>: \<open>CORSMiddleware\<close> and \<open>determineAllowedOrigin\<close> with the configuration
    read from the environment.
  \<^item> \<open>System\<close>: the service as a transition system \<open>sys_step\<close> (one step per mutating
    route of the router in \<open>cmd/admin/main.go\<close>, any faults and any request, plus time
    passing) and its reachable states; the elementary store transitions
    \<open>store_step\<close> that every handler is shown to refine, and the invariant
    \<open>db_inv\<close> they keep.
  \<^item> \<open>Registry\<close>: the abstract contract of the configuration store, stated without
    tables: backends as a map from name, routes as a map from id, and an append-only log,
    changed by the steps of \<open>reg_step\<close> (register, change keeping the key, log); its
    invariant \<open>reg_inv\<close> files each entry under its own key and lets every route name a
    registered backend.
  \<^item> \<open>Refinement\<close>: the abstraction \<open>abs_db\<close> reads each table as a map to the row the
    \<open>LIMIT 1\<close> lookups return (\<open>index_by\<close> of \<open>Prelude\<close>), and every store transition
    and every service step is shown to be a sequence of registry steps.
  \<^item> \<open>Router\<close>: \<open>cmd/admin/main.go\<close>. \<open>admin_boot\<close> is \<open>main\<close> up to
    \<open>ListenAndServe\<close> (the DSN check, \<open>getEnv\<close>, the logger, \<open>NewMySQLStore\<close> and the
    server's timeouts), with the outcomes of the logger, \<open>sql.Open\<close> and \<open>Ping\<close> as
    parameters. \<open>dispatch\<close> is the chi router of the route table (\<open>api_routes\<close> under
    the \<open>/api/v1\<close> mount, \<open>top_routes\<close> for \<open>/health\<close>), and \<open>serve\<close> composes it
    with the handlers, one \<open>run_api\<close> case per registered handler method.

  \<^bold>\<open>What is proved.\<close> For backends (\<open>Backend_Handler\<close>): the effect of a successful
  creation and the read-back of the created row; the 409 on an existing name; that every
  refusal (400, 404, 409) leaves the database unchanged; the soft delete; the merge of
  \<open>enabled\<close> on update; and the places where the code departs from the spec: an
  omitted description is erased by an update, the created \<open>enabled\<close> default is decided
  by the URL and not the body, the DELETE audit entry's old value already has
  \<open>enabled = false\<close>, a second delete within the same second is a 404 because MySQL
  reports no changed row, and a commit whose result cannot be read leaves a row with a
  500 answer and no audit entry. For routes (\<open>Route_Handler\<close>): the referential
  validator on creation and on a change of backend name, the absence of any check when
  the name is kept, the timeout default on creation and its absence on update, and that
  every refused route request (a 4xx answer) leaves the database unchanged. The
  theorem below runs the spec's end-to-end scenario through the handlers. For the history
  (\<open>History_Handler\<close>): the page holds only matching entries, newest first, at most the
  limit, with the total of the whole filtered set; the echoed limit is within 1..100, and
  a limit above 100 falls back to 50. For CORS (\<open>Cors\<close>): no unlisted origin is ever
  allowed; the default configuration combines the wildcard with credentials; the origin
  list format round-trips. \<open>Strconv\<close> proves that ids round-trip through their decimal
  text within 32 bits. For the router (\<open>Router\<close>): every registered route is reached by
  its path and method with its parameter (each route of \<open>main\<close> reaches its handler,
  \<open>/health\<close> included); only POST, PUT and DELETE change the database, and no request
  answered with a 4xx status changes it, unknown paths and methods included;
  every request the assembled service handles keeps the database reachable in
  \<open>System\<close>, so the system invariants hold of the real service; the path-segment loop
  terminates and loses nothing; the process serves exactly when the DSN is set and the
  logger and database come up, on \<open>:8081\<close> by default. For the whole service (\<open>System\<close>): in every reachable state every
  route names an existing backend, backend names are distinct, history ids are distinct
  and entries ordered by time, and the history is append-only; two creations of one name
  interleaved between check and insert duplicate it. A backend update repeated in the
  same second is a 404 because no row changes. The float64 detour is exact below
  \<open>2^53\<close> (\<open>Json\<close>), and a route update stores the float64 nearest to the timeout it
  is given, so \<open>2^53 + 1\<close> becomes \<open>2^53\<close> (\<open>Route_Handler\<close>). Decoded routes always have an id within
  Go's 64-bit \<open>uint\<close> and a timeout within 64-bit \<open>int\<close> (\<open>Route_Handler\<close>). A disabled
  backend can always be enabled again by one update (\<open>System\<close>). The refinement
  (\<open>Refinement\<close>): every reachable state abstracts to a well-formed registry and every
  service step to registry steps; the \<open>LIMIT 1\<close> lookups are the registry's map lookups;
  the history's \<open>ORDER BY created_at DESC\<close> is the reverse of the log when the
  model breaks ties of equal \<open>created_at\<close> by id (the query itself leaves their order
  to MySQL).

  \<^bold>\<open>Modelling choices.\<close> MySQL's \<open>RowsAffected\<close> counts the rows whose value changed
  (the default; the README's DSN does not set \<open>clientFoundRows\<close>). \<open>LIMIT 1\<close> without
  \<open>ORDER BY\<close> returns the first matching row in primary-key order. No unique index on
  \<open>backends.name\<close> is assumed, since the schema is not in the repository. Time has the
  second resolution of \<open>CURRENT_TIMESTAMP\<close>; Go's zero time is 0. Snapshots in the
  history are kept as the entity \<open>json.Marshal\<close> encoded, which decodes back to it.
  No loop of the code is unbounded: every definition is a structural recursion or a
  non-recursive definition, except \<open>bit_len\<close> (recursion on \<open>n div 2\<close>, whose
  termination the function package proves) and chi's walk over the path segments, \<open>split_path\<close>,
  a \<open>function\<close> whose termination is proved with the length of the rest of the path
  as measure; so no fuel is needed. chi's URL parameters are read from the decoded path.

  \<^bold>\<open>Not modelled.\<close> The I/O of \<open>cmd/admin/main.go\<close> after start-up
  (\<open>ListenAndServe\<close>, signal handling, graceful shutdown) and its \<open>RequestLogger\<close>
  middleware, which is not among the sources (it installs no CORS middleware);
  \<open>MySQLStore.Close\<close> and the connection pool itself; \<open>go.mod\<close>
  (\<open>src/unnamed/part_001\<close>), which only lists dependencies; logging, JSON encoding of responses beyond
  which value is encoded, RFC 3339 parsing (a parameter of the context),
  JSON numbers with a fraction or an exponent in requests, and the multi-byte Unicode spaces of
  \<open>strings.TrimSpace\<close>. Concurrency is modelled only where a property depends on it:
  \<open>sys_step\<close> runs each request on one database state, and the race of \<open>CreateBackend\<close>
  is written out as an explicit interleaving of its store calls.
\<close>

section \<open>The spec's end-to-end scenario\<close>

text \<open>
  The scenario of the spec run through the handlers: a route created on the enabled
  backend \<open>account\<close> gets the 5000 ms default timeout; after \<open>account\<close> is disabled, moving
  the route to the disabled backend \<open>billing\<close> is refused with 400 and changes nothing,
  while an update that keeps the backend name succeeds (and, omitting the timeout,
  stores 0).
\<close>

theorem route_scenario:
  "fst (handle_create_route ex_ctx (ex_request [] [] (ex_route_json ''account'' [])) ex_db2) =
     Response 201 (OutRoute ex_login_route) \<and>
   fst (handle_delete_backend ex_ctx (ex_request ''account'' [] JNull) ex_s1) = Response 204 OutEmpty \<and>
   handle_update_route ex_ctx (ex_request ''1'' [] (ex_route_json ''billing'' [])) ex_s2 =
     (Response 400 (OutText ''backend not found or disabled''), ex_s2) \<and>
   fst (handle_update_route ex_ctx (ex_request ''1'' [] (ex_route_json ''account'' [(''description'', JStr ''login'')])) ex_s2) =
     Response 200 (OutRoute (ex_login_route\<lparr>r_timeout_ms := 0, r_description := ''login'', r_created_at := 0\<rparr>))"
  by (simp add: route_update_eval ex_s1_def ex_s2_def handle_delete_backend_def delete_backend_def
      backend_disable_def)

end
